theory Spec2Isabelle
  imports Complex_Main "HOL-Library.AList" "HOL-Library.Multiset" "HOL-Library.Log_Nat"
begin

section \<open>JavaScript numbers\<close>

text \<open>
  Rates, quantities, totals and thresholds are JavaScript numbers, that is IEEE 754 doubles.
  A finite double is kept as the rational number it denotes. The result of an arithmetic
  operation, the value of a decimal literal and the value that \<open>parseFloat\<close> reads are the
  exact result rounded to the nearest double, a tie going to the even mantissa, and to an
  infinity beyond the largest double (\<open>to_double\<close>). An undefined form gives NaN, a division
  of a non-zero number by zero an infinity. One abstraction: there is a single zero, the sign
  of a zero is not kept.
\<close>

datatype jsnum = Fin rat | PInf | NInf | NaN

text \<open>\<open>2^e\<close> for an integer \<open>e\<close>, and \<open>\<lfloor>log\<^sub>2 q\<rfloor>\<close> for a positive rational \<open>q\<close>.\<close>

definition pow2 :: "int \<Rightarrow> rat" where
  "pow2 e = (if 0 \<le> e then 2 ^ nat e else 1 / 2 ^ nat (- e))"

definition log2floor :: "rat \<Rightarrow> int" where
  "log2floor q = (if 1 \<le> q then bitlen \<lfloor>q\<rfloor> - 1 else - bitlen (\<lceil>1 / q\<rceil> - 1))"

text \<open>The nearest integer, a tie going to the even one.\<close>

definition round_half_even :: "rat \<Rightarrow> int" where
  "round_half_even x =
     (let f = \<lfloor>x\<rfloor>; d = x - of_int f
      in if d < 1/2 then f else if 1/2 < d then f + 1 else if even f then f else f + 1)"

text \<open>
  Rounding to a double: a mantissa of 53 bits at the exponent of \<open>q\<close>, and not below the
  exponent \<open>-1074\<close> of the subnormal numbers; what rounds to \<open>2^1024\<close> or more is an infinity.
\<close>

definition to_double :: "rat \<Rightarrow> jsnum" where
  "to_double q =
     (if q = 0 then Fin 0
      else (let e = max (- 1074) (log2floor \<bar>q\<bar> - 52);
                m = round_half_even (\<bar>q\<bar> / pow2 e)
            in if 971 < e \<or> (e = 971 \<and> m = 2 ^ 53) then (if 0 < q then PInf else NInf)
               else Fin (sgn q * of_int m * pow2 e)))"

text \<open>A decimal literal of the source, such as \<open>0.01\<close>.\<close>

definition js_lit :: "rat \<Rightarrow> jsnum" where
  "js_lit q = to_double q"

fun is_finite :: "jsnum \<Rightarrow> bool" where
  "is_finite (Fin a) = True"
| "is_finite PInf = False"
| "is_finite NInf = False"
| "is_finite NaN = False"

fun js_neg :: "jsnum \<Rightarrow> jsnum" where
  "js_neg (Fin a) = Fin (- a)"
| "js_neg PInf = NInf"
| "js_neg NInf = PInf"
| "js_neg NaN = NaN"

fun js_add :: "jsnum \<Rightarrow> jsnum \<Rightarrow> jsnum" where
  "js_add (Fin a) (Fin b) = to_double (a + b)"
| "js_add NaN y = NaN"
| "js_add x NaN = NaN"
| "js_add PInf NInf = NaN"
| "js_add NInf PInf = NaN"
| "js_add PInf y = PInf"
| "js_add x PInf = PInf"
| "js_add NInf y = NInf"
| "js_add x NInf = NInf"

definition js_sub :: "jsnum \<Rightarrow> jsnum \<Rightarrow> jsnum" where
  "js_sub x y = js_add x (js_neg y)"

text \<open>The product of \<open>+Infinity\<close> with a finite number, by the sign of that number.\<close>

definition inf_times :: "rat \<Rightarrow> jsnum" where
  "inf_times a = (if a = 0 then NaN else if 0 < a then PInf else NInf)"

fun js_mul :: "jsnum \<Rightarrow> jsnum \<Rightarrow> jsnum" where
  "js_mul (Fin a) (Fin b) = to_double (a * b)"
| "js_mul NaN y = NaN"
| "js_mul x NaN = NaN"
| "js_mul PInf (Fin b) = inf_times b"
| "js_mul (Fin a) PInf = inf_times a"
| "js_mul NInf (Fin b) = js_neg (inf_times b)"
| "js_mul (Fin a) NInf = js_neg (inf_times a)"
| "js_mul PInf PInf = PInf"
| "js_mul NInf NInf = PInf"
| "js_mul PInf NInf = NInf"
| "js_mul NInf PInf = NInf"

text \<open>
  Division: \<open>0/0\<close> is NaN, a positive number over zero is \<open>+Infinity\<close>, a negative one
  \<open>-Infinity\<close>; a finite number over an infinity is zero.
\<close>

fun js_div :: "jsnum \<Rightarrow> jsnum \<Rightarrow> jsnum" where
  "js_div (Fin a) (Fin b) = (if b = 0 then inf_times a else to_double (a / b))"
| "js_div NaN y = NaN"
| "js_div x NaN = NaN"
| "js_div (Fin a) PInf = Fin 0"
| "js_div (Fin a) NInf = Fin 0"
| "js_div PInf (Fin b) = (if 0 \<le> b then PInf else NInf)"
| "js_div NInf (Fin b) = (if 0 \<le> b then NInf else PInf)"
| "js_div PInf PInf = NaN"
| "js_div PInf NInf = NaN"
| "js_div NInf PInf = NaN"
| "js_div NInf NInf = NaN"

fun js_abs :: "jsnum \<Rightarrow> jsnum" where
  "js_abs (Fin a) = Fin \<bar>a\<bar>"
| "js_abs PInf = PInf"
| "js_abs NInf = PInf"
| "js_abs NaN = NaN"

text \<open>\<open>x >= y\<close> and \<open>x > y\<close>: every comparison with NaN is false.\<close>

fun js_ge :: "jsnum \<Rightarrow> jsnum \<Rightarrow> bool" where
  "js_ge (Fin a) (Fin b) = (b \<le> a)"
| "js_ge NaN y = False"
| "js_ge x NaN = False"
| "js_ge PInf y = True"
| "js_ge x NInf = True"
| "js_ge (Fin a) PInf = False"
| "js_ge NInf (Fin b) = False"
| "js_ge NInf PInf = False"

fun js_gt :: "jsnum \<Rightarrow> jsnum \<Rightarrow> bool" where
  "js_gt (Fin a) (Fin b) = (b < a)"
| "js_gt NaN y = False"
| "js_gt x NaN = False"
| "js_gt x PInf = False"
| "js_gt NInf y = False"
| "js_gt PInf (Fin b) = True"
| "js_gt PInf NInf = True"
| "js_gt (Fin a) NInf = True"

text \<open>\<open>x !== y\<close> on numbers: NaN differs from everything, itself included.\<close>

definition js_strict_ne :: "jsnum \<Rightarrow> jsnum \<Rightarrow> bool" where
  "js_strict_ne x y = (x = NaN \<or> y = NaN \<or> x \<noteq> y)"

text \<open>Truthiness of a number (\<open>x || d\<close>, \<open>if (x)\<close>): zero and NaN are falsy.\<close>

definition js_truthy :: "jsnum \<Rightarrow> bool" where
  "js_truthy x = (x \<noteq> NaN \<and> x \<noteq> Fin 0)"

section \<open>Strings and parsing\<close>

text \<open>
  \<open>s.indexOf(sub) !== -1\<close>, \<open>s.split(c)\<close> for a one-character separator, and \<open>parseFloat\<close>
  on the decimal numerals the scripts exchange (optional sign, digits, optional fraction;
  anything after them is ignored; no digit at all, as in an empty string, gives NaN): the
  double nearest to the decimal value. Exponent notation and the literal \<open>Infinity\<close> are
  not covered. \<open>undefined\<close> is \<open>None\<close>.
\<close>

definition is_digit :: "char \<Rightarrow> bool" where
  "is_digit c = (48 \<le> (of_char c :: nat) \<and> (of_char c :: nat) \<le> 57)"

definition digits_val :: "string \<Rightarrow> nat" where
  "digits_val s = foldl (\<lambda>n c. 10 * n + (of_char c - 48)) 0 s"

fun starts_with :: "string \<Rightarrow> string \<Rightarrow> bool" where
  "starts_with s [] = True"
| "starts_with [] (c # sub) = False"
| "starts_with (x # s) (c # sub) = (x = c \<and> starts_with s sub)"

fun contains :: "string \<Rightarrow> string \<Rightarrow> bool" where
  "contains [] sub = (sub = [])"
| "contains (x # s) sub = (starts_with (x # s) sub \<or> contains s sub)"

fun split_on :: "char \<Rightarrow> string \<Rightarrow> string list" where
  "split_on c [] = [[]]"
| "split_on c (x # s) =
     (if x = c then [] # split_on c s
      else (case split_on c s of [] \<Rightarrow> [[x]] | p # ps \<Rightarrow> (x # p) # ps))"

definition is_space :: "char \<Rightarrow> bool" where
  "is_space c = (c = CHR '' '' \<or> c = CHR 0x09 \<or> c = CHR 0x0A \<or> c = CHR 0x0D)"

definition parseFloat_string :: "string \<Rightarrow> jsnum" where
  "parseFloat_string s0 =
     (let s = dropWhile is_space s0;
          negative = (s \<noteq> [] \<and> hd s = CHR ''-'');
          s1 = (if s \<noteq> [] \<and> (hd s = CHR ''-'' \<or> hd s = CHR ''+'') then tl s else s);
          ip = takeWhile is_digit s1;
          r = dropWhile is_digit s1;
          fp = (if r \<noteq> [] \<and> hd r = CHR ''.'' then takeWhile is_digit (tl r) else []);
          v = (of_nat (digits_val ip) :: rat) + of_nat (digits_val fp) / 10 ^ length fp
      in if ip = [] \<and> fp = [] then NaN else to_double (if negative then - v else v))"

definition parseFloat :: "string option \<Rightarrow> jsnum" where
  "parseFloat x = (case x of None \<Rightarrow> NaN | Some s \<Rightarrow> parseFloat_string s)"

text \<open>String concatenation of a possibly undefined value, and \<open>x || d\<close> on strings.\<close>

definition js_string :: "string option \<Rightarrow> string" where
  "js_string x = (case x of None \<Rightarrow> ''undefined'' | Some s \<Rightarrow> s)"

definition or_else :: "string option \<Rightarrow> string \<Rightarrow> string" where
  "or_else x d = (case x of None \<Rightarrow> d | Some s \<Rightarrow> (if s = [] then d else s))"

section \<open>PO/VB variant: thresholds and the pairing engine\<close>

text \<open>
  \<open>vendor_bill_variance_po_vb_suitelet.js\<close>. The three percentage thresholds come from
  script parameters; \<open>getParameter\<close> yields \<open>null\<close> (here \<open>None\<close>) for a parameter
  that is not set, and \<open>parseFloat(p || 2)\<close> then gives 2.
\<close>

record thresholds =
  service :: jsnum
  kitchens :: jsnum
  appliances :: jsnum




definition getThresholdForLocation :: "string \<Rightarrow> thresholds \<Rightarrow> jsnum" where
  "getThresholdForLocation locationId ths =
     (if locationId = ''113'' then service ths
      else if locationId = ''17'' then kitchens ths
      else appliances ths)"

text \<open>
  The canonical PO-line record of a group and a deduplicated Vendor Bill line. Quantities and
  rates hold the numbers that \<open>parseFloat\<close> yields in \<open>groupByPOLine\<close>; a date holds the
  time value that \<open>new Date(...)\<close> yields in the sort comparator (dates are valid).
\<close>

record po_line =
  pl_po_id :: string
  pl_po_number :: string
  pl_po_date :: int
  pl_vendor_id :: string
  pl_vendor_name :: string
  pl_location_id :: string
  pl_location_name :: string
  pl_po_line_key :: string
  pl_item_id :: string
  pl_item_name :: string
  pl_po_rate :: jsnum
  pl_po_quantity :: jsnum

record bill_line =
  bl_vb_id :: string
  bl_vb_number :: string
  bl_vb_date :: int
  bl_vb_line_key :: string
  bl_vb_quantity :: jsnum
  bl_vb_rate :: jsnum

record po_group =
  pg_poInfo :: po_line
  pg_vendorBills :: "bill_line list"

text \<open>
  An emitted pair is the flat object holding all fields of the PO line and all fields of the
  matched bill line; it is kept as the two records it is copied from.
\<close>

record po_vb_pair =
  pp_po :: po_line
  pp_vb :: bill_line

text \<open>
  Lines 842-843 of \<open>createVariancePairs\<close> and 591-592 of \<open>buildVarianceTable\<close>:
  \<open>variance = vb_rate - po_rate\<close>,
  \<open>variancePercent = po_rate !== 0 ? (variance / po_rate * 100) : 0\<close>.
\<close>

definition variancePercent :: "jsnum \<Rightarrow> jsnum \<Rightarrow> jsnum" where
  "variancePercent vb_rate po_rate =
     (let variance = js_sub vb_rate po_rate
      in if js_strict_ne po_rate (Fin 0)
         then js_mul (js_div variance po_rate) (Fin 100)
         else Fin 0)"

text \<open>
  One iteration of the \<open>forEach\<close> over the groups: a stable sort of the bills by date
  (\<open>Array.prototype.sort\<close> with the comparator \<open>new Date(a.vb_date) - new Date(b.vb_date)\<close>),
  then the PO line against the first bill only.
\<close>

definition po_group_pairs :: "thresholds \<Rightarrow> po_group \<Rightarrow> po_vb_pair list" where
  "po_group_pairs ths g =
     (case sort_key bl_vb_date (pg_vendorBills g) of
        [] \<Rightarrow> []
      | vb # later \<Rightarrow>
          (let variance = js_sub (bl_vb_rate vb) (pl_po_rate (pg_poInfo g));
               pct = variancePercent (bl_vb_rate vb) (pl_po_rate (pg_poInfo g));
               threshold = getThresholdForLocation (pl_location_id (pg_poInfo g)) ths
           in if js_ge (js_abs variance) (js_lit (1/100)) \<and> js_ge (js_abs pct) threshold
              then [\<lparr> pp_po = pg_poInfo g, pp_vb = vb \<rparr>]
              else []))"


text \<open>
  The values of one table row in \<open>buildVarianceTable\<close> (lines 591-600): the variance,
  its percentage, and the colour class.
\<close>

definition table_variance :: "po_vb_pair \<Rightarrow> jsnum" where
  "table_variance pair = js_sub (bl_vb_rate (pp_vb pair)) (pl_po_rate (pp_po pair))"

definition table_variancePercent :: "po_vb_pair \<Rightarrow> jsnum" where
  "table_variancePercent pair = variancePercent (bl_vb_rate (pp_vb pair)) (pl_po_rate (pp_po pair))"

definition varianceClass :: "po_vb_pair \<Rightarrow> string" where
  "varianceClass pair =
     (if js_gt (js_neg (js_lit (1/10))) (table_variancePercent pair) then ''variance-good''
      else if js_gt (table_variancePercent pair) (js_lit (1/10)) then ''variance-bad''
      else [])"

section \<open>Objects used as dictionaries\<close>

text \<open>
  \<open>groups\<close> is a plain object keyed by the PO line's unique key. It is an association list
  in insertion order; \<open>AList.update\<close> overwrites a present key in place and appends a new
  one. \<open>Object.keys\<close> lists the keys that are array indices (canonical decimal strings
  below \<open>2^32 - 1\<close>) first, in ascending numeric order, and then the others in insertion
  order.
\<close>

type_synonym 'v js_object = "(string \<times> 'v) list"

definition is_array_index :: "string \<Rightarrow> bool" where
  "is_array_index s =
     (s \<noteq> [] \<and> list_all is_digit s \<and> (hd s \<noteq> CHR ''0'' \<or> s = ''0'') \<and>
      digits_val s < 2 ^ 32 - 1)"

definition object_keys :: "'v js_object \<Rightarrow> string list" where
  "object_keys obj =
     sort_key digits_val (filter is_array_index (map fst obj)) @
     filter (\<lambda>k. \<not> is_array_index k) (map fst obj)"


subsection \<open>PO/VB variant: grouping and pairing over all groups\<close>

text \<open>
  A raw join row of \<open>searchPOVBVariances\<close> (lines 744-763): every value is the string that
  \<open>getValue\<close> returns, empty for a blank field; a date is kept as its time value.
\<close>

record po_vb_row =
  rw_po_id :: string
  rw_po_number :: string
  rw_po_date :: int
  rw_vendor_id :: string
  rw_vendor_name :: string
  rw_location_id :: string
  rw_location_name :: string
  rw_po_line_key :: string
  rw_item_id :: string
  rw_item_name :: string
  rw_po_rate :: string
  rw_po_quantity :: string
  rw_vb_id :: string
  rw_vb_number :: string
  rw_vb_date :: int
  rw_vb_line_key :: string
  rw_vb_quantity :: string
  rw_vb_rate :: string

text \<open>
  One call of the \<open>forEach\<close> callback of \<open>groupByPOLine\<close> (lines 779-816): the group is
  seeded from the first row of its key, with the rate and the quantity parsed, and the row's
  bill line is pushed unless its line key is present.
\<close>

definition add_po_vb_row :: "po_group js_object \<Rightarrow> po_vb_row \<Rightarrow> po_group js_object" where
  "add_po_vb_row groups row =
     (let poLineKey = rw_po_line_key row;
          g = (case map_of groups poLineKey of
                 None \<Rightarrow>
                   \<lparr> pg_poInfo =
                       \<lparr> pl_po_id = rw_po_id row, pl_po_number = rw_po_number row,
                         pl_po_date = rw_po_date row, pl_vendor_id = rw_vendor_id row,
                         pl_vendor_name = rw_vendor_name row,
                         pl_location_id = rw_location_id row,
                         pl_location_name = rw_location_name row,
                         pl_po_line_key = rw_po_line_key row, pl_item_id = rw_item_id row,
                         pl_item_name = rw_item_name row,
                         pl_po_rate = parseFloat (Some (rw_po_rate row)),
                         pl_po_quantity = parseFloat (Some (rw_po_quantity row)) \<rparr>,
                     pg_vendorBills = [] \<rparr>
               | Some g0 \<Rightarrow> g0);
          vbExists = list_ex (\<lambda>vb. bl_vb_line_key vb = rw_vb_line_key row) (pg_vendorBills g)
      in AList.update poLineKey
           (if \<not> vbExists
            then g \<lparr> pg_vendorBills := pg_vendorBills g @
                       [\<lparr> bl_vb_id = rw_vb_id row, bl_vb_number = rw_vb_number row,
                          bl_vb_date = rw_vb_date row, bl_vb_line_key = rw_vb_line_key row,
                          bl_vb_quantity = parseFloat (Some (rw_vb_quantity row)),
                          bl_vb_rate = parseFloat (Some (rw_vb_rate row)) \<rparr>] \<rparr>
            else g)
           groups)"

definition groupByPOLine_po :: "po_vb_row list \<Rightarrow> po_group js_object" where
  "groupByPOLine_po rawResults = foldl add_po_vb_row [] rawResults"



section \<open>IR/VB variant: grouping and positional pairing\<close>

text \<open>
  The Suitelet (\<open>part_000\<close>) and the scheduled script (\<open>part_001\<close>) share
  \<open>groupByPOLine\<close> and \<open>createVariancePairs\<close>; the scheduled script's records lack
  \<open>item_number\<close> and \<open>ir_period_closed\<close> and its \<open>createVariancePairs\<close> takes the
  threshold as an argument.
\<close>

record po_info =
  po_id :: string
  po_number :: string
  po_date :: int
  vendor_name :: string
  item_id :: string
  item_number :: string
  item_name :: string

record item_receipt =
  ir_id :: string
  ir_number :: string
  ir_date :: int
  ir_period_closed :: bool
  ir_line_id :: string
  ir_quantity :: jsnum
  ir_rate :: jsnum

record vendor_bill_line =
  vb_id :: string
  vb_number :: string
  vb_date :: int
  vb_line_id :: string
  vb_quantity :: jsnum
  vb_rate :: jsnum

text \<open>
  A raw join row, with the fields that \<open>groupByPOLine\<close> reads: every value is the string
  that \<open>getValue\<close> returns; a date is kept as its time value and the closed-period mark as
  a truth value.
\<close>

record row =
  po_line_id :: string
  rr_po_id :: string
  rr_po_number :: string
  rr_po_date :: int
  rr_vendor_name :: string
  rr_item_id :: string
  rr_item_number :: string
  rr_item_name :: string
  rr_ir_id :: string
  rr_ir_number :: string
  rr_ir_date :: int
  rr_ir_period_closed :: bool
  rr_ir_line_id :: string
  rr_ir_quantity :: string
  rr_ir_rate :: string
  rr_vb_id :: string
  rr_vb_number :: string
  rr_vb_date :: int
  rr_vb_line_id :: string
  rr_vb_quantity :: string
  rr_vb_rate :: string

record po_line_group =
  poInfo :: po_info
  itemReceipts :: "item_receipt list"
  vendorBills :: "vendor_bill_line list"

record variance_pair =
  pair_po :: po_info
  pair_ir :: item_receipt
  pair_vb :: vendor_bill_line

text \<open>
  The three objects that \<open>groupByPOLine\<close> builds from a row: the PO information (lines
  1037-1045), the receipt line (lines 1055-1063) and the bill line (lines 1070-1077), the
  quantities and rates parsed.
\<close>

definition row_po :: "row \<Rightarrow> po_info" where
  "row_po r = \<lparr> po_id = rr_po_id r, po_number = rr_po_number r, po_date = rr_po_date r,
                 vendor_name = rr_vendor_name r, item_id = rr_item_id r,
                 item_number = rr_item_number r, item_name = rr_item_name r \<rparr>"

definition row_ir :: "row \<Rightarrow> item_receipt" where
  "row_ir r = \<lparr> ir_id = rr_ir_id r, ir_number = rr_ir_number r, ir_date = rr_ir_date r,
                 ir_period_closed = rr_ir_period_closed r, ir_line_id = rr_ir_line_id r,
                 ir_quantity = parseFloat (Some (rr_ir_quantity r)),
                 ir_rate = parseFloat (Some (rr_ir_rate r)) \<rparr>"

definition row_vb :: "row \<Rightarrow> vendor_bill_line" where
  "row_vb r = \<lparr> vb_id = rr_vb_id r, vb_number = rr_vb_number r, vb_date = rr_vb_date r,
                 vb_line_id = rr_vb_line_id r,
                 vb_quantity = parseFloat (Some (rr_vb_quantity r)),
                 vb_rate = parseFloat (Some (rr_vb_rate r)) \<rparr>"

text \<open>Lines 1036-1048: the group seeded on first sight of a PO-line key.\<close>

definition new_group :: "row \<Rightarrow> po_line_group" where
  "new_group r = \<lparr> poInfo = row_po r, itemReceipts = [], vendorBills = [] \<rparr>"

text \<open>Lines 1051-1078: the row's receipt line and bill line, each pushed unless its line id is present.\<close>

definition add_lines :: "po_line_group \<Rightarrow> row \<Rightarrow> po_line_group" where
  "add_lines g r =
     (let irExists = list_ex (\<lambda>ir. ir_line_id ir = ir_line_id (row_ir r)) (itemReceipts g);
          g1 = (if \<not> irExists then g \<lparr> itemReceipts := itemReceipts g @ [row_ir r] \<rparr> else g);
          vbExists = list_ex (\<lambda>vb. vb_line_id vb = vb_line_id (row_vb r)) (vendorBills g1)
      in if \<not> vbExists then g1 \<lparr> vendorBills := vendorBills g1 @ [row_vb r] \<rparr> else g1)"

definition add_row :: "po_line_group js_object \<Rightarrow> row \<Rightarrow> po_line_group js_object" where
  "add_row groups r =
     (let poLineKey = po_line_id r;
          g = (case map_of groups poLineKey of None \<Rightarrow> new_group r | Some g0 \<Rightarrow> g0)
      in AList.update poLineKey (add_lines g r) groups)"

definition groupByPOLine :: "row list \<Rightarrow> po_line_group js_object" where
  "groupByPOLine rawResults = foldl add_row [] rawResults"

text \<open>\<open>a[i]\<close> on an array: \<open>undefined\<close> (here \<open>None\<close>) at and beyond its length.\<close>

definition nth_opt :: "'a list \<Rightarrow> nat \<Rightarrow> 'a option" where
  "nth_opt xs i = (if i < length xs then Some (xs ! i) else None)"

text \<open>Line 1110: \<open>variance = vb.vb_rate - ir.ir_rate\<close>; lines 1113-1134: the object pushed.\<close>

definition variance_of :: "item_receipt \<Rightarrow> vendor_bill_line \<Rightarrow> jsnum" where
  "variance_of ir vb = js_sub (vb_rate vb) (ir_rate ir)"

definition make_pair :: "po_info \<Rightarrow> item_receipt \<Rightarrow> vendor_bill_line \<Rightarrow> variance_pair" where
  "make_pair po ir vb = \<lparr> pair_po = po, pair_ir = ir, pair_vb = vb \<rparr>"

text \<open>The body of the \<open>for\<close> loop at index \<open>i\<close>: the pairs it pushes.\<close>

definition pair_at ::
  "jsnum \<Rightarrow> po_info \<Rightarrow> item_receipt list \<Rightarrow> vendor_bill_line list \<Rightarrow> nat \<Rightarrow> variance_pair list" where
  "pair_at threshold po irs vbs i =
     (case nth_opt irs i of
        None \<Rightarrow> []
      | Some ir \<Rightarrow>
         (case nth_opt vbs i of
            None \<Rightarrow> []
          | Some vb \<Rightarrow>
             (let variance = variance_of ir vb
              in if js_ge (js_abs variance) threshold then [make_pair po ir vb] else [])))"

text \<open>
  One group: both lists sorted by date (\<open>Array.prototype.sort\<close> is stable), then the loop
  \<open>for (i = 0; i < maxPairs; i++)\<close>.
\<close>

definition group_pairs :: "jsnum \<Rightarrow> po_line_group \<Rightarrow> variance_pair list" where
  "group_pairs threshold g =
     (let irs = sort_key ir_date (itemReceipts g);
          vbs = sort_key vb_date (vendorBills g);
          maxPairs = max (length irs) (length vbs)
      in concat (map (pair_at threshold (poInfo g) irs vbs) [0..<maxPairs]))"

definition createVariancePairs_with :: "jsnum \<Rightarrow> po_line_group js_object \<Rightarrow> variance_pair list" where
  "createVariancePairs_with threshold poLineGroups =
     concat (map (\<lambda>poLineKey. case map_of poLineGroups poLineKey of
                                 None \<Rightarrow> []
                               | Some g \<Rightarrow> group_pairs threshold g)
                 (object_keys poLineGroups))"

text \<open>\<open>part_000\<close>: the threshold is the literal \<open>0.01\<close>.\<close>

definition createVariancePairs :: "po_line_group js_object \<Rightarrow> variance_pair list" where
  "createVariancePairs poLineGroups = createVariancePairs_with (js_lit (1/100)) poLineGroups"

text \<open>\<open>part_001\<close>: \<open>threshold = minVariance || 0.01\<close>.\<close>

definition createVariancePairs_sched :: "po_line_group js_object \<Rightarrow> jsnum \<Rightarrow> variance_pair list" where
  "createVariancePairs_sched poLineGroups minVariance =
     createVariancePairs_with (if js_truthy minVariance then minVariance else js_lit (1/100)) poLineGroups"

definition getVariancePairs :: "row list \<Rightarrow> variance_pair list" where
  "getVariancePairs rawResults = createVariancePairs (groupByPOLine rawResults)"

text \<open>
  The variance of a pair as every consumer derives it (\<open>buildVarianceTable\<close> line 828 of
  \<open>part_000\<close>, the records of \<open>execute\<close> in \<open>part_001\<close>): \<open>pair.vb_rate - pair.ir_rate\<close>.
\<close>

definition pair_variance :: "variance_pair \<Rightarrow> jsnum" where
  "pair_variance p = js_sub (vb_rate (pair_vb p)) (ir_rate (pair_ir p))"


text \<open>
  The specification's wording of the variance, for comparison with \<open>pair_variance\<close>: the
  later-dated document's rate minus the earlier-dated document's rate (on equal dates the
  Vendor Bill counts as the later one).
\<close>

definition later_minus_earlier :: "variance_pair \<Rightarrow> jsnum" where
  "later_minus_earlier p =
     (if ir_date (pair_ir p) \<le> vb_date (pair_vb p)
      then js_sub (vb_rate (pair_vb p)) (ir_rate (pair_ir p))
      else js_sub (ir_rate (pair_ir p)) (vb_rate (pair_vb p)))"

text \<open>
  What a relational join guarantees about its rows: within one PO line, the PO fields are the
  same on every row, and a receipt line id (bill line id) determines the receipt line (bill
  line).
\<close>

definition consistent_rows :: "row list \<Rightarrow> bool" where
  "consistent_rows rows =
     (\<forall>r1 \<in> set rows. \<forall>r2 \<in> set rows. po_line_id r1 = po_line_id r2 \<longrightarrow>
        row_po r1 = row_po r2 \<and>
        (ir_line_id (row_ir r1) = ir_line_id (row_ir r2) \<longrightarrow> row_ir r1 = row_ir r2) \<and>
        (vb_line_id (row_vb r1) = vb_line_id (row_vb r2) \<longrightarrow> row_vb r1 = row_vb r2))"

text \<open>No two receipt lines, and no two bill lines, of one PO line share a date.\<close>

definition dates_distinct :: "row list \<Rightarrow> bool" where
  "dates_distinct rows =
     (\<forall>r1 \<in> set rows. \<forall>r2 \<in> set rows. po_line_id r1 = po_line_id r2 \<longrightarrow>
        (ir_date (row_ir r1) = ir_date (row_ir r2) \<longrightarrow> ir_line_id (row_ir r1) = ir_line_id (row_ir r2)) \<and>
        (vb_date (row_vb r1) = vb_date (row_vb r2) \<longrightarrow> vb_line_id (row_vb r1) = vb_line_id (row_vb r2)))"

section \<open>Example data for the pairing engine\<close>

definition ex_po_info :: po_info where
  "ex_po_info = \<lparr> po_id = ''100'', po_number = ''PO100'', po_date = 20250101,
      vendor_name = ''Acme'', item_id = ''42'', item_number = ''42'', item_name = ''Widget'' \<rparr>"

text \<open>A receipt line and a bill line of a group: number, date and rate, the quantity 1.\<close>

definition ex_ir :: "string \<Rightarrow> int \<Rightarrow> jsnum \<Rightarrow> item_receipt" where
  "ex_ir n d r = \<lparr> ir_id = ''2'' @ n, ir_number = ''IR'' @ n, ir_date = d,
      ir_period_closed = False, ir_line_id = ''52'' @ n, ir_quantity = Fin 1, ir_rate = r \<rparr>"

definition ex_vb :: "string \<Rightarrow> int \<Rightarrow> jsnum \<Rightarrow> vendor_bill_line" where
  "ex_vb n d r = \<lparr> vb_id = ''3'' @ n, vb_number = ''VB'' @ n, vb_date = d,
      vb_line_id = ''53'' @ n, vb_quantity = Fin 1, vb_rate = r \<rparr>"

text \<open>
  A join row of PO line 9001: a receipt line (number, date, rate) and a bill line (number,
  date, rate), the rates as the search returns them.
\<close>

definition ex_row :: "string \<Rightarrow> int \<Rightarrow> string \<Rightarrow> string \<Rightarrow> int \<Rightarrow> string \<Rightarrow> row" where
  "ex_row n d r n' d' r' =
     \<lparr> po_line_id = ''9001'', rr_po_id = ''100'', rr_po_number = ''PO100'',
       rr_po_date = 20250101, rr_vendor_name = ''Acme'', rr_item_id = ''42'',
       rr_item_number = ''42'', rr_item_name = ''Widget'',
       rr_ir_id = ''2'' @ n, rr_ir_number = ''IR'' @ n, rr_ir_date = d,
       rr_ir_period_closed = False, rr_ir_line_id = ''52'' @ n, rr_ir_quantity = ''1'',
       rr_ir_rate = r,
       rr_vb_id = ''3'' @ n', rr_vb_number = ''VB'' @ n', rr_vb_date = d',
       rr_vb_line_id = ''53'' @ n', rr_vb_quantity = ''1'', rr_vb_rate = r' \<rparr>"

definition ex_group :: "item_receipt list \<Rightarrow> vendor_bill_line list \<Rightarrow> po_line_group" where
  "ex_group irs vbs = \<lparr> poInfo = ex_po_info, itemReceipts = irs, vendorBills = vbs \<rparr>"

text \<open>
  Two receipts A (rate 10) and B (rate 12) and three bills X (rate 10), Y (rate 12) and
  Z (rate 11) against one PO line; the join keeps the rows whose two rates differ.
\<close>

definition unequal_rows :: "row list" where
  "unequal_rows =
     [ex_row ''01'' 1 ''10.00'' ''02'' 2 ''12.00'',
      ex_row ''01'' 1 ''10.00'' ''03'' 3 ''11.00'',
      ex_row ''02'' 2 ''12.00'' ''01'' 1 ''10.00'',
      ex_row ''02'' 2 ''12.00'' ''03'' 3 ''11.00'']"

definition unequal_group :: po_line_group where
  "unequal_group =
     ex_group [ex_ir ''01'' 1 (Fin 10), ex_ir ''02'' 2 (Fin 12)]
              [ex_vb ''02'' 2 (Fin 12), ex_vb ''03'' 3 (Fin 11), ex_vb ''01'' 1 (Fin 10)]"

text \<open>One receipt and two bills, every rate different.\<close>

definition one_two_group :: po_line_group where
  "one_two_group = ex_group [ex_ir ''01'' 1 (Fin 10)] [ex_vb ''02'' 3 (Fin 13), ex_vb ''01'' 2 (Fin 12)]"

text \<open>Two receipts at 10.00 and two bills, at 10.01 and 10.02.\<close>

definition cent_rows :: "row list" where
  "cent_rows = [ex_row ''01'' 1 ''10.00'' ''01'' 3 ''10.01'',
                ex_row ''02'' 2 ''10.00'' ''02'' 4 ''10.02'']"

definition cent_group :: po_line_group where
  "cent_group =
     ex_group [ex_ir ''01'' 1 (parseFloat (Some ''10.00'')), ex_ir ''02'' 2 (parseFloat (Some ''10.00''))]
              [ex_vb ''01'' 3 (parseFloat (Some ''10.01'')), ex_vb ''02'' 4 (parseFloat (Some ''10.02''))]"

text \<open>A receipt dated after the bill it is paired with.\<close>

definition late_receipt_rows :: "row list" where
  "late_receipt_rows = [ex_row ''01'' 5 ''10.00'' ''01'' 2 ''12.00'']"

definition late_receipt_pair :: variance_pair where
  "late_receipt_pair = make_pair ex_po_info (ex_ir ''01'' 5 (Fin 10)) (ex_vb ''01'' 2 (Fin 12))"

text \<open>Two receipts of the same date.\<close>

definition tie_rows :: "row list" where
  "tie_rows = [ex_row ''01'' 10 ''10.00'' ''01'' 11 ''20.00'',
               ex_row ''02'' 10 ''20.00'' ''02'' 12 ''10.00'']"

text \<open>The same with the first receipt a day earlier.\<close>

definition untied_rows :: "row list" where
  "untied_rows = [ex_row ''01'' 9 ''10.00'' ''01'' 11 ''20.00'',
                  ex_row ''02'' 10 ''20.00'' ''02'' 12 ''10.00'']"

text \<open>
  The PO/VB scenario: one PO line (key 9500) with its rate as the search returns it, and a
  bill line (id, date and rate) joined to it.
\<close>

definition ex_po_vb_row :: "string \<Rightarrow> string \<Rightarrow> string \<Rightarrow> int \<Rightarrow> string \<Rightarrow> po_vb_row" where
  "ex_po_vb_row loc po n d vb =
     \<lparr> rw_po_id = ''500'', rw_po_number = ''PO500'', rw_po_date = 20250801,
       rw_vendor_id = ''7'', rw_vendor_name = ''Acme'', rw_location_id = loc,
       rw_location_name = ''Store'', rw_po_line_key = ''9500'', rw_item_id = ''42'',
       rw_item_name = ''Widget'', rw_po_rate = po, rw_po_quantity = ''1'',
       rw_vb_id = ''7'' @ n, rw_vb_number = ''VB'' @ n, rw_vb_date = d,
       rw_vb_line_key = ''97'' @ n, rw_vb_quantity = ''1'', rw_vb_rate = vb \<rparr>"

definition ex_po_line :: "string \<Rightarrow> jsnum \<Rightarrow> po_line" where
  "ex_po_line loc r = \<lparr> pl_po_id = ''500'', pl_po_number = ''PO500'', pl_po_date = 20250801,
      pl_vendor_id = ''7'', pl_vendor_name = ''Acme'', pl_location_id = loc,
      pl_location_name = ''Store'', pl_po_line_key = ''9500'', pl_item_id = ''42'',
      pl_item_name = ''Widget'', pl_po_rate = r, pl_po_quantity = Fin 1 \<rparr>"

definition ex_bill :: "string \<Rightarrow> int \<Rightarrow> jsnum \<Rightarrow> bill_line" where
  "ex_bill n d r = \<lparr> bl_vb_id = ''7'' @ n, bl_vb_number = ''VB'' @ n, bl_vb_date = d,
      bl_vb_line_key = ''97'' @ n, bl_vb_quantity = Fin 1, bl_vb_rate = r \<rparr>"



section \<open>Rounding to a double\<close>

text \<open>\<open>log2floor q\<close> is the exponent of the power of two at or below \<open>q\<close>.\<close>

lemma log2floor_bounds:
  assumes "0 < q"
  shows "pow2 (log2floor q) \<le> q \<and> q < pow2 (log2floor q + 1)"
proof (cases "1 \<le> q")
  case True
  let ?n = "\<lfloor>q\<rfloor>"
  have n: "0 < ?n" using True by simp
  from bitlen_bounds[OF n]
  have lo: "2 ^ nat (bitlen ?n - 1) \<le> ?n" and hi: "?n < 2 ^ nat (bitlen ?n)" by blast+
  have b1: "1 \<le> bitlen ?n" using n by (simp add: bitlen_alt_def)
  have "(of_int (2 ^ nat (bitlen ?n - 1)) :: rat) \<le> of_int ?n" using lo by (simp only: of_int_le_iff)
  also have "\<dots> \<le> q" by simp
  finally have l: "(2 :: rat) ^ nat (bitlen ?n - 1) \<le> q" by simp
  from hi have "?n + 1 \<le> 2 ^ nat (bitlen ?n)" by simp
  then have "(of_int (?n + 1) :: rat) \<le> of_int (2 ^ nat (bitlen ?n))" by (simp only: of_int_le_iff)
  moreover have "q < of_int (?n + 1)" by linarith
  ultimately have h: "q < (2 :: rat) ^ nat (bitlen ?n)" by simp
  show ?thesis using True b1 l h by (simp add: log2floor_def pow2_def)
next
  case False
  let ?m = "\<lceil>1 / q\<rceil>"
  let ?j = "bitlen (?m - 1)"
  from False assms have gt: "1 < 1 / q" by simp
  then have m: "0 < ?m - 1" by linarith
  from bitlen_bounds[OF m]
  have lo: "2 ^ nat (?j - 1) \<le> ?m - 1" and hi: "?m - 1 < 2 ^ nat ?j" by blast+
  have j1: "1 \<le> ?j" using m by (simp add: bitlen_alt_def)
  from hi have "?m \<le> 2 ^ nat ?j" by simp
  then have "(of_int ?m :: rat) \<le> of_int (2 ^ nat ?j)" by (simp only: of_int_le_iff)
  then have m2: "(of_int ?m :: rat) \<le> 2 ^ nat ?j" by simp
  have "1 / q \<le> of_int ?m" by (rule le_of_int_ceiling)
  from this m2 have a: "1 / q \<le> (2 :: rat) ^ nat ?j" by (rule order_trans)
  have "(of_int (2 ^ nat (?j - 1)) :: rat) \<le> of_int (?m - 1)" using lo by (simp only: of_int_le_iff)
  then have l2: "(2 :: rat) ^ nat (?j - 1) \<le> of_int ?m - 1" by simp
  have "of_int ?m - 1 < 1 / q" using ceiling_correct[of "1 / q"] by linarith
  with l2 have b: "(2 :: rat) ^ nat (?j - 1) < 1 / q" by (rule le_less_trans)
  have p: "(0 :: rat) < 2 ^ nat ?j" "(0 :: rat) < 2 ^ nat (?j - 1)" by simp_all
  from a assms p have l: "1 / 2 ^ nat ?j \<le> q"
    by (simp add: field_simps)
  from b assms p have h: "q < 1 / 2 ^ nat (?j - 1)"
    by (simp add: field_simps)
  have e: "nat (- (1 - ?j)) = nat (?j - 1)" by simp
  show ?thesis
  proof (cases "?j = 1")
    case True
    with l h show ?thesis using False by (simp add: log2floor_def pow2_def)
  next
    case F: False
    with j1 have "1 < ?j" by simp
    with l h e show ?thesis using False by (simp add: log2floor_def pow2_def)
  qed
qed


lemma pow2_power_int: "pow2 e = power_int 2 e"
  by (simp add: pow2_def power_int_def inverse_eq_divide power_one_over)

lemma pow2_pos: "0 < pow2 e"
  by (simp add: pow2_power_int)

lemma pow2_add: "pow2 (a + b) = pow2 a * pow2 b"
  by (simp add: pow2_power_int power_int_add)

lemma pow2_mono: "a \<le> b \<Longrightarrow> pow2 a \<le> pow2 b"
  by (simp add: pow2_power_int power_int_increasing)

lemma pow2_53: "pow2 53 = 2 ^ 53"
  by (simp add: pow2_def)

lemma round_half_even_near: "\<bar>of_int (round_half_even x) - x\<bar> \<le> 1 / 2"
proof -
  define f where "f = \<lfloor>x\<rfloor>"
  have b: "of_int f \<le> x" "x < of_int f + 1" unfolding f_def by linarith+
  show ?thesis
    unfolding round_half_even_def Let_def f_def[symmetric]
    using b by (auto simp add: abs_if)
qed

lemma round_half_even_bounds:
  assumes "0 \<le> x" "x < of_int n"
  shows "0 \<le> round_half_even x" "round_half_even x \<le> n"
proof -
  define f where "f = \<lfloor>x\<rfloor>"
  have f0: "0 \<le> f" using assms(1) by (simp add: f_def)
  have "f < n" using assms(2) by (simp add: f_def floor_less_iff)
  then have f1: "f + 1 \<le> n" by simp
  from f0 show "0 \<le> round_half_even x"
    unfolding round_half_even_def Let_def f_def[symmetric] by simp
  from f1 show "round_half_even x \<le> n"
    unfolding round_half_even_def Let_def f_def[symmetric] by simp
qed

text \<open>
  A finite result of \<open>to_double\<close> is a double, a mantissa of at most 53 bits at an
  exponent from \<open>-1074\<close> to \<open>971\<close>, and it is at most half a unit of the last place away
  from the number rounded.
\<close>

lemma to_double_nearest:
  assumes "to_double q = Fin r"
  shows "\<exists>m e. r = of_int m * pow2 e \<and> \<bar>m\<bar> \<le> 2 ^ 53 \<and> - 1074 \<le> e \<and> e \<le> 971 \<and>
               \<bar>r - q\<bar> \<le> pow2 e / 2"
proof (cases "q = 0")
  case True
  with assms have "r = 0" by (simp add: to_double_def)
  with True show ?thesis
    by (intro exI[of _ 0] exI[of _ 0]) (simp add: pow2_def)
next
  case False
  define e where "e = max (- 1074) (log2floor \<bar>q\<bar> - 52)"
  define x where "x = \<bar>q\<bar> / pow2 e"
  define m where "m = round_half_even x"
  from False have q: "0 < \<bar>q\<bar>" by simp
  have pe: "0 < pow2 e" by (rule pow2_pos)
  have td: "to_double q =
      (if 971 < e \<or> (e = 971 \<and> m = 2 ^ 53) then (if 0 < q then PInf else NInf)
       else Fin (sgn q * of_int m * pow2 e))"
    unfolding to_double_def Let_def e_def x_def m_def using False by (simp only: if_False)
  have ov: "\<not> (971 < e \<or> (e = 971 \<and> m = 2 ^ 53))"
    using assms unfolding td by (auto split: if_splits)
  have r: "r = sgn q * of_int m * pow2 e"
    using assms ov unfolding td by (auto split: if_splits)
  have e1: "- 1074 \<le> e" and e2: "log2floor \<bar>q\<bar> + 1 \<le> e + 53" by (simp_all add: e_def)
  from ov have e3: "e \<le> 971" by simp
  have "\<bar>q\<bar> < pow2 (log2floor \<bar>q\<bar> + 1)" using log2floor_bounds[OF q] by blast
  also have "\<dots> \<le> pow2 (e + 53)" using e2 by (rule pow2_mono)
  also have "\<dots> = pow2 e * 2 ^ 53" by (simp only: pow2_add pow2_53)
  finally have lt: "\<bar>q\<bar> < pow2 e * 2 ^ 53" .
  have "x < 2 ^ 53"
    unfolding x_def using lt pe by (simp add: pos_divide_less_eq mult.commute)
  then have x53: "x < of_int (2 ^ 53)" by simp
  have x0: "0 \<le> x" unfolding x_def using pe by simp
  have m0: "0 \<le> m" and m53: "m \<le> 2 ^ 53"
    unfolding m_def using round_half_even_bounds[OF x0 x53] by blast+
  have near: "\<bar>of_int m - x\<bar> \<le> 1 / 2" unfolding m_def by (rule round_half_even_near)
  have xq: "x * pow2 e = \<bar>q\<bar>" unfolding x_def using pe by simp
  have "of_int m * pow2 e - \<bar>q\<bar> = (of_int m - x) * pow2 e"
    by (simp only: left_diff_distrib xq)
  then have "\<bar>of_int m * pow2 e - \<bar>q\<bar>\<bar> = \<bar>of_int m - x\<bar> * pow2 e"
    using pe by (simp only: abs_mult abs_of_pos)
  also have "\<dots> \<le> (1 / 2) * pow2 e"
    using near pe by (intro mult_right_mono) simp_all
  finally have d: "\<bar>of_int m * pow2 e - \<bar>q\<bar>\<bar> \<le> pow2 e / 2" by simp
  have dist: "\<bar>r - q\<bar> \<le> pow2 e / 2"
  proof (cases "0 < q")
    case True
    then have "r - q = of_int m * pow2 e - \<bar>q\<bar>" by (simp add: r)
    with d show ?thesis by simp
  next
    case F: False
    with False have n: "q < 0" by simp
    then have "r - q = - (of_int m * pow2 e - \<bar>q\<bar>)" by (simp add: r)
    then have "\<bar>r - q\<bar> = \<bar>of_int m * pow2 e - \<bar>q\<bar>\<bar>" by (simp only: abs_minus_cancel)
    with d show ?thesis by simp
  qed
  have rm: "r = of_int (if 0 < q then m else - m) * pow2 e"
    using False by (simp add: r sgn_if)
  have am: "\<bar>if 0 < q then m else - m\<bar> \<le> 2 ^ 53"
    using m0 m53 by simp
  show ?thesis
    using rm am e1 e3 dist by blast
qed

section \<open>Evaluation of numbers\<close>

lemma bitlen_numeral: "bitlen (numeral n) = bitlen (numeral n div 2) + 1"
  by (subst compute_bitlen) simp

lemma bitlen_one: "bitlen 1 = 1"
  by (subst compute_bitlen) simp

lemma floor_rat_numeral_div: "\<lfloor>(numeral a :: rat) / numeral b\<rfloor> = numeral a div numeral b"
  by (metis floor_divide_of_int_eq of_int_numeral)

lemma floor_rat_one_div: "\<lfloor>(1 :: rat) / numeral b\<rfloor> = 1 div numeral b"
  by (metis floor_divide_of_int_eq of_int_numeral of_int_1)

lemma ceiling_rat_numeral_div: "\<lceil>(numeral a :: rat) / numeral b\<rceil> = - ((- numeral a) div numeral b)"
  by (metis ceiling_def floor_divide_of_int_eq of_int_numeral of_int_minus divide_minus_left)

lemmas double_eval = to_double_def log2floor_def pow2_def round_half_even_def Let_def
  bitlen_numeral bitlen_one floor_rat_numeral_div floor_rat_one_div ceiling_rat_numeral_div

lemmas parse_defs = parseFloat_def parseFloat_string_def is_space_def is_digit_def digits_val_def

text \<open>The literals \<open>0.01\<close> and \<open>0.1\<close> are not the decimal fractions but the doubles nearest to them.\<close>

lemma js_lit_cent: "js_lit (1/100) = Fin (5764607523034235 / 576460752303423488)"
  by (simp add: js_lit_def double_eval)

lemma js_lit_tenth: "js_lit (1/10) = Fin (3602879701896397 / 36028797018963968)"
  by (simp add: js_lit_def double_eval)

text \<open>
  At the boundaries: a tie goes to the even mantissa, \<open>2^1024 - 2^970\<close> is the least number
  that rounds to \<open>+Infinity\<close>, and half of the least subnormal number rounds to zero.
\<close>

lemma to_double_boundaries:
  "to_double (2 ^ 53 + 1) = Fin (2 ^ 53)"
  "to_double (2 ^ 53 + 3) = Fin (2 ^ 53 + 4)"
  "to_double (2 ^ 1024 - 2 ^ 970) = PInf"
  "to_double (2 ^ 1024 - 2 ^ 970 - 1) = Fin (2 ^ 1024 - 2 ^ 971)"
  "to_double (1 / 2 ^ 1075) = Fin 0"
  "to_double (3 / 2 ^ 1075) = Fin (1 / 2 ^ 1073)"
  by (simp_all add: double_eval)

lemma to_double_not_NaN: "to_double q \<noteq> NaN"
  by (simp add: to_double_def Let_def)

lemma to_double_cases: "to_double q = PInf \<or> to_double q = NInf \<or> (\<exists>r. to_double q = Fin r)"
  by (simp add: to_double_def Let_def)

text \<open>Evaluation of the grouping on the example rows.\<close>

lemma ex_rates:
  "parseFloat (Some ''10.00'') = Fin 10" "parseFloat (Some ''11.00'') = Fin 11"
  "parseFloat (Some ''12.00'') = Fin 12" "parseFloat (Some ''13.00'') = Fin 13"
  "parseFloat (Some ''20.00'') = Fin 20"
  "parseFloat (Some ''10.01'') = Fin (5635129033747333 / 562949953421312)"
  "parseFloat (Some ''10.02'') = Fin (2820379266640773 / 281474976710656)"
  by (simp_all add: parse_defs double_eval)

lemma parseFloat_1: "parseFloat (Some ''1'') = Fin 1"
  by (simp add: parse_defs double_eval)

lemma row_ex_row:
  "po_line_id (ex_row n d r n' d' r') = ''9001''"
  "row_po (ex_row n d r n' d' r') = ex_po_info"
  "row_ir (ex_row n d r n' d' r') = ex_ir n d (parseFloat (Some r))"
  "row_vb (ex_row n d r n' d' r') = ex_vb n' d' (parseFloat (Some r'))"
  by (simp_all add: ex_row_def row_po_def row_ir_def row_vb_def ex_po_info_def ex_ir_def
      ex_vb_def parseFloat_1)

lemma groupByPOLine_po_one:
  "groupByPOLine_po [ex_po_vb_row loc po n d vb] =
     [(''9500'', \<lparr> pg_poInfo = ex_po_line loc (parseFloat (Some po)),
                   pg_vendorBills = [ex_bill n d (parseFloat (Some vb))] \<rparr>)]"
  by (simp add: groupByPOLine_po_def add_po_vb_row_def ex_po_vb_row_def ex_po_line_def
      ex_bill_def parseFloat_1 Let_def)






section \<open>Percent variance\<close>

lemma js_mul_100_not_NaN: "x \<noteq> NaN \<Longrightarrow> js_mul x (Fin 100) \<noteq> NaN"
  by (cases x) (simp_all add: inf_times_def to_double_not_NaN)

lemma js_div_not_NaN: "x \<noteq> NaN \<Longrightarrow> b \<noteq> 0 \<Longrightarrow> js_div x (Fin b) \<noteq> NaN"
  by (cases x) (simp_all add: to_double_not_NaN)

lemma percent_finite_not_NaN:
  "b \<noteq> 0 \<Longrightarrow> js_mul (js_div (to_double q) (Fin b)) (Fin 100) \<noteq> NaN"
  by (intro js_mul_100_not_NaN js_div_not_NaN to_double_not_NaN)

text \<open>
  C9, as stated, fails: a join row whose PO rate is blank gives its group the rate
  \<open>parseFloat('')\<close>, which is NaN and so passes the guard \<open>po_rate !== 0\<close>; the percent
  variance computed for the group (line 843), and for a pair with that rate (line 592), is NaN.
\<close>

theorem variancePercent_nan_counterexample:
  "groupByPOLine_po [ex_po_vb_row ''113'' [] ''00'' 20250901 ''5.00''] =
     [(''9500'', \<lparr> pg_poInfo = ex_po_line ''113'' NaN,
                   pg_vendorBills = [ex_bill ''00'' 20250901 (Fin 5)] \<rparr>)] \<and>
   variancePercent (bl_vb_rate (ex_bill ''00'' 20250901 (Fin 5))) (pl_po_rate (ex_po_line ''113'' NaN)) = NaN \<and>
   table_variancePercent
     \<lparr> pp_po = ex_po_line ''113'' NaN, pp_vb = ex_bill ''00'' 20250901 (Fin 5) \<rparr> = NaN"
proof -
  have p: "parseFloat (Some []) = NaN" "parseFloat (Some ''5.00'') = Fin 5"
    by (simp_all add: parse_defs double_eval)
  show ?thesis
    by (simp add: groupByPOLine_po_one p)
      (simp add: table_variancePercent_def variancePercent_def js_strict_ne_def js_sub_def
        ex_po_line_def ex_bill_def)
qed

text \<open>
  C9, amended. When the PO rate is zero the percent variance is 0, whatever the bill's rate
  (also when that rate is NaN): the division is guarded, so a zero divisor is never used. The
  result is NaN exactly when the PO rate is NaN or an infinity, or the bill's rate is NaN and
  the PO rate is not zero; on two finite rates it is never NaN (it is a finite number, or an
  infinity when the double arithmetic overflows).
\<close>

theorem variancePercent_zero_po_rate:
  "(por = Fin 0 \<longrightarrow> variancePercent vbr por = Fin 0) \<and>
   (variancePercent vbr por = NaN \<longleftrightarrow>
      por = NaN \<or> por = PInf \<or> por = NInf \<or> (vbr = NaN \<and> por \<noteq> Fin 0)) \<and>
   (is_finite vbr \<and> is_finite por \<longrightarrow> variancePercent vbr por \<noteq> NaN)"
  by (cases vbr; cases por)
    (simp_all add: variancePercent_def js_strict_ne_def js_sub_def percent_finite_not_NaN
      inf_times_def)

theorem variancePercent_zero_po_rate_witness:
  "variancePercent (Fin 5) (Fin 0) = Fin 0 \<and> variancePercent NaN (Fin 0) = Fin 0 \<and>
   variancePercent (Fin 103) (Fin 100) = Fin 3 \<and>
   variancePercent (Fin 103) (Fin 100) \<noteq> NaN \<and> variancePercent (Fin 103) PInf = NaN"
proof -
  have e: "variancePercent (Fin 103) (Fin 100) = Fin 3"
    by (simp add: variancePercent_def js_strict_ne_def js_sub_def double_eval)
  from variancePercent_zero_po_rate[of "Fin 0" "Fin 5"] variancePercent_zero_po_rate[of "Fin 0" NaN]
    variancePercent_zero_po_rate[of "Fin 100" "Fin 103"] variancePercent_zero_po_rate[of PInf "Fin 103"]
  show ?thesis by (simp add: e)
qed

section \<open>PO/VB variant: which groups emit a pair\<close>





lemma set_object_keys: "set (object_keys obj) = fst ` set obj"
  by (auto simp add: object_keys_def)




section \<open>IR/VB variant: positional pairing\<close>

lemma pair_at_in_range:
  "i < length (zip irs vbs) \<Longrightarrow>
   pair_at t po irs vbs i =
     (case zip irs vbs ! i of (ir, vb) \<Rightarrow>
        if js_ge (js_abs (variance_of ir vb)) t then [make_pair po ir vb] else [])"
  by (simp add: pair_at_def nth_opt_def)

lemma pair_at_out_of_range:
  "length (zip irs vbs) \<le> i \<Longrightarrow> pair_at t po irs vbs i = []"
  by (auto simp add: pair_at_def nth_opt_def split: option.splits)

lemma concat_pair_at_upto:
  "n \<le> length (zip irs vbs) \<Longrightarrow>
   concat (map (pair_at t po irs vbs) [0..<n]) =
   map (\<lambda>(ir, vb). make_pair po ir vb)
     (filter (\<lambda>(ir, vb). js_ge (js_abs (variance_of ir vb)) t) (take n (zip irs vbs)))"
proof (induction n)
  case 0
  show ?case by simp
next
  case (Suc n)
  then have lt: "n < length (zip irs vbs)" by simp
  have "take (Suc n) (zip irs vbs) = take n (zip irs vbs) @ [zip irs vbs ! n]"
    using lt by (rule take_Suc_conv_app_nth)
  with Suc lt show ?case by (simp add: pair_at_in_range split: prod.splits)
qed

text \<open>
  The loop over \<open>0 .. max(k, m) - 1\<close> is a filter of the positions both lists have: the zip of
  the two sorted lists.
\<close>

lemma group_pairs_zip:
  "group_pairs t g =
   map (\<lambda>(ir, vb). make_pair (poInfo g) ir vb)
     (filter (\<lambda>(ir, vb). js_ge (js_abs (variance_of ir vb)) t)
        (zip (sort_key ir_date (itemReceipts g)) (sort_key vb_date (vendorBills g))))"
proof -
  let ?irs = "sort_key ir_date (itemReceipts g)"
  let ?vbs = "sort_key vb_date (vendorBills g)"
  let ?n = "length (zip ?irs ?vbs)"
  let ?m = "max (length ?irs) (length ?vbs)"
  have le: "?n \<le> ?m" by simp
  have "[0..<?m] = [0..<?n] @ [?n..<?m]"
    using le by (metis le_add_diff_inverse upt_add_eq_append zero_le)
  then have "concat (map (pair_at t (poInfo g) ?irs ?vbs) [0..<?m]) =
        concat (map (pair_at t (poInfo g) ?irs ?vbs) [0..<?n]) @
        concat (map (pair_at t (poInfo g) ?irs ?vbs) [?n..<?m])"
    by simp
  also have "concat (map (pair_at t (poInfo g) ?irs ?vbs) [?n..<?m]) = []"
    by (simp add: pair_at_out_of_range)
  also have "concat (map (pair_at t (poInfo g) ?irs ?vbs) [0..<?n]) =
      map (\<lambda>(ir, vb). make_pair (poInfo g) ir vb)
        (filter (\<lambda>(ir, vb). js_ge (js_abs (variance_of ir vb)) t) (take ?n (zip ?irs ?vbs)))"
    by (rule concat_pair_at_upto) simp
  finally show ?thesis by (simp add: group_pairs_def Let_def)
qed

lemma set_createVariancePairs_with:
  "set (createVariancePairs_with t al) =
   {p. \<exists>k g. map_of al k = Some g \<and> p \<in> set (group_pairs t g)}"
proof -
  have "p \<in> set (createVariancePairs_with t al) \<longleftrightarrow>
      (\<exists>k g. map_of al k = Some g \<and> p \<in> set (group_pairs t g))" for p
  proof
    assume "p \<in> set (createVariancePairs_with t al)"
    then obtain k where "k \<in> fst ` set al"
      and "p \<in> set (case map_of al k of None \<Rightarrow> [] | Some g \<Rightarrow> group_pairs t g)"
      by (auto simp add: createVariancePairs_with_def set_object_keys)
    then show "\<exists>k g. map_of al k = Some g \<and> p \<in> set (group_pairs t g)"
      by (cases "map_of al k") auto
  next
    assume "\<exists>k g. map_of al k = Some g \<and> p \<in> set (group_pairs t g)"
    then obtain k g where kg: "map_of al k = Some g" "p \<in> set (group_pairs t g)" by blast
    then have "k \<in> fst ` set al" by (metis map_of_SomeD fst_conv imageI)
    with kg show "p \<in> set (createVariancePairs_with t al)"
      by (force simp add: createVariancePairs_with_def set_object_keys)
  qed
  then show ?thesis by blast
qed

text \<open>Evaluation of the example data.\<close>

lemma object_keys_9001: "object_keys [(''9001'', g)] = [''9001'']"
  by (simp add: object_keys_def is_array_index_def is_digit_def digits_val_def)

lemma createVariancePairs_with_9001: "createVariancePairs_with t [(''9001'', g)] = group_pairs t g"
  by (simp add: createVariancePairs_with_def object_keys_9001)

lemmas ex_line_defs = ex_ir_def ex_vb_def

lemma groupByPOLine_unequal_rows: "groupByPOLine unequal_rows = [(''9001'', unequal_group)]"
  by (simp add: unequal_rows_def unequal_group_def ex_group_def groupByPOLine_def add_row_def
      add_lines_def new_group_def row_ex_row ex_rates ex_line_defs)

lemma group_pairs_unequal_group: "group_pairs (js_lit (1/100)) unequal_group = []"
  by (simp add: group_pairs_zip unequal_group_def ex_group_def ex_line_defs variance_of_def
      js_sub_def double_eval js_lit_cent)

text \<open>
  C2, as stated, fails: the group below has 2 receipt lines and 3 bill lines, both positions
  pair equal rates, and no pair is emitted where \<open>min(2, 3) = 2\<close> are claimed.
\<close>

theorem pairing_count_counterexample:
  "groupByPOLine unequal_rows = [(''9001'', unequal_group)] \<and>
   length (itemReceipts unequal_group) = 2 \<and> length (vendorBills unequal_group) = 3 \<and>
   length (group_pairs (js_lit (1/100)) unequal_group) \<noteq>
     min (length (itemReceipts unequal_group)) (length (vendorBills unequal_group)) \<and>
   getVariancePairs unequal_rows = []"
  by (simp add: groupByPOLine_unequal_rows group_pairs_unequal_group getVariancePairs_def
      createVariancePairs_def createVariancePairs_with_9001)
    (simp add: unequal_group_def ex_group_def)

text \<open>
  C2, amended. For a group with \<open>k\<close> receipt lines and \<open>m\<close> bill lines, the pairs emitted
  are those of the first \<open>min(k, m)\<close> positions of the two date-sorted lists whose variance
  reaches the threshold, in order: at most \<open>min(k, m)\<close> pairs, exactly \<open>min(k, m)\<close> when every
  such position reaches the threshold; a position beyond the shorter list gives no pair. The
  variance is the difference of the two rates in double arithmetic and the threshold the
  double \<open>0.01\<close> (in the scheduled script, the threshold passed when it is truthy). The pairs
  of all groups follow one another in the order of \<open>Object.keys\<close>.
\<close>

theorem pairing_count:
  "group_pairs t g =
     map (\<lambda>(ir, vb). make_pair (poInfo g) ir vb)
       (filter (\<lambda>(ir, vb). js_ge (js_abs (variance_of ir vb)) t)
          (zip (sort_key ir_date (itemReceipts g)) (sort_key vb_date (vendorBills g)))) \<and>
   length (group_pairs t g) \<le> min (length (itemReceipts g)) (length (vendorBills g)) \<and>
   (list_all (\<lambda>(ir, vb). js_ge (js_abs (variance_of ir vb)) t)
      (zip (sort_key ir_date (itemReceipts g)) (sort_key vb_date (vendorBills g))) \<longrightarrow>
    length (group_pairs t g) = min (length (itemReceipts g)) (length (vendorBills g))) \<and>
   createVariancePairs poLineGroups =
     concat (map (\<lambda>poLineKey. case map_of poLineGroups poLineKey of
                    None \<Rightarrow> []
                  | Some g \<Rightarrow>
                      map (\<lambda>(ir, vb). make_pair (poInfo g) ir vb)
                        (filter (\<lambda>(ir, vb). js_ge (js_abs (js_sub (vb_rate vb) (ir_rate ir))) (js_lit (1/100)))
                           (zip (sort_key ir_date (itemReceipts g)) (sort_key vb_date (vendorBills g)))))
               (object_keys poLineGroups)) \<and>
   createVariancePairs_sched poLineGroups minVariance =
     concat (map (\<lambda>poLineKey. case map_of poLineGroups poLineKey of
                    None \<Rightarrow> []
                  | Some g \<Rightarrow>
                      map (\<lambda>(ir, vb). make_pair (poInfo g) ir vb)
                        (filter (\<lambda>(ir, vb). js_ge (js_abs (js_sub (vb_rate vb) (ir_rate ir)))
                                   (if js_truthy minVariance then minVariance else js_lit (1/100)))
                           (zip (sort_key ir_date (itemReceipts g)) (sort_key vb_date (vendorBills g)))))
               (object_keys poLineGroups))"
proof (intro conjI impI)
  show "createVariancePairs poLineGroups =
     concat (map (\<lambda>poLineKey. case map_of poLineGroups poLineKey of
                    None \<Rightarrow> []
                  | Some g \<Rightarrow>
                      map (\<lambda>(ir, vb). make_pair (poInfo g) ir vb)
                        (filter (\<lambda>(ir, vb). js_ge (js_abs (js_sub (vb_rate vb) (ir_rate ir))) (js_lit (1/100)))
                           (zip (sort_key ir_date (itemReceipts g)) (sort_key vb_date (vendorBills g)))))
               (object_keys poLineGroups))"
    unfolding createVariancePairs_def createVariancePairs_with_def group_pairs_zip variance_of_def ..
  show "createVariancePairs_sched poLineGroups minVariance =
     concat (map (\<lambda>poLineKey. case map_of poLineGroups poLineKey of
                    None \<Rightarrow> []
                  | Some g \<Rightarrow>
                      map (\<lambda>(ir, vb). make_pair (poInfo g) ir vb)
                        (filter (\<lambda>(ir, vb). js_ge (js_abs (js_sub (vb_rate vb) (ir_rate ir)))
                                   (if js_truthy minVariance then minVariance else js_lit (1/100)))
                           (zip (sort_key ir_date (itemReceipts g)) (sort_key vb_date (vendorBills g)))))
               (object_keys poLineGroups))"
    unfolding createVariancePairs_sched_def createVariancePairs_with_def group_pairs_zip variance_of_def ..
  let ?ok = "\<lambda>(ir, vb). js_ge (js_abs (variance_of ir vb)) t"
  let ?z = "zip (sort_key ir_date (itemReceipts g)) (sort_key vb_date (vendorBills g))"
  show "group_pairs t g = map (\<lambda>(ir, vb). make_pair (poInfo g) ir vb) (filter ?ok ?z)"
    by (rule group_pairs_zip)
  have "length (filter ?ok ?z) \<le> length ?z" by (rule length_filter_le)
  then show "length (group_pairs t g) \<le> min (length (itemReceipts g)) (length (vendorBills g))"
    by (simp add: group_pairs_zip)
  assume "list_all ?ok ?z"
  then have "filter ?ok ?z = ?z" by (simp add: list_all_iff)
  then show "length (group_pairs t g) = min (length (itemReceipts g)) (length (vendorBills g))"
    by (simp add: group_pairs_zip)
qed

text \<open>
  One receipt and two bills give one pair. Two receipts at 10.00 and bills at 10.01 and 10.02
  give one pair of the two positions: the difference \<open>10.01 - 10\<close> computed in doubles is
  \<open>0.009999999999999787\<close>, below the double \<open>0.01\<close>.
\<close>

lemma groupByPOLine_cent_rows: "groupByPOLine cent_rows = [(''9001'', cent_group)]"
  by (simp add: cent_rows_def cent_group_def ex_group_def groupByPOLine_def add_row_def
      add_lines_def new_group_def row_ex_row ex_line_defs)

theorem pairing_count_witness:
  "length (itemReceipts one_two_group) = 1 \<and> length (vendorBills one_two_group) = 2 \<and>
   group_pairs (js_lit (1/100)) one_two_group =
     [make_pair ex_po_info (ex_ir ''01'' 1 (Fin 10)) (ex_vb ''01'' 2 (Fin 12))] \<and>
   length (group_pairs (js_lit (1/100)) one_two_group) = 1 \<and>
   groupByPOLine cent_rows = [(''9001'', cent_group)] \<and>
   length (itemReceipts cent_group) = 2 \<and> length (vendorBills cent_group) = 2 \<and>
   variance_of (ex_ir ''01'' 1 (parseFloat (Some ''10.00''))) (ex_vb ''01'' 3 (parseFloat (Some ''10.01''))) =
     Fin (5629499534213 / 562949953421312) \<and>
   group_pairs (js_lit (1/100)) cent_group =
     [make_pair ex_po_info (ex_ir ''02'' 2 (parseFloat (Some ''10.00'')))
                           (ex_vb ''02'' 4 (parseFloat (Some ''10.02'')))] \<and>
   getVariancePairs cent_rows =
     [make_pair ex_po_info (ex_ir ''02'' 2 (parseFloat (Some ''10.00'')))
                           (ex_vb ''02'' 4 (parseFloat (Some ''10.02'')))]"
proof -
  have g: "group_pairs (js_lit (1/100)) one_two_group =
      [make_pair ex_po_info (ex_ir ''01'' 1 (Fin 10)) (ex_vb ''01'' 2 (Fin 12))]"
    using pairing_count[of "js_lit (1/100)" one_two_group]
    by (simp add: one_two_group_def ex_group_def ex_line_defs variance_of_def js_sub_def double_eval js_lit_cent)
  have s: "js_sub (Fin (5635129033747333 / 562949953421312)) (Fin 10) = Fin (5629499534213 / 562949953421312)"
    "js_sub (Fin (2820379266640773 / 281474976710656)) (Fin 10) = Fin (5629499534213 / 281474976710656)"
    by (simp_all add: js_sub_def double_eval)
  have v: "variance_of (ex_ir ''01'' 1 (parseFloat (Some ''10.00''))) (ex_vb ''01'' 3 (parseFloat (Some ''10.01''))) =
     Fin (5629499534213 / 562949953421312)"
    by (simp add: variance_of_def ex_line_defs ex_rates s)
  have c: "group_pairs (js_lit (1/100)) cent_group =
     [make_pair ex_po_info (ex_ir ''02'' 2 (parseFloat (Some ''10.00'')))
                           (ex_vb ''02'' 4 (parseFloat (Some ''10.02'')))]"
    using pairing_count[of "js_lit (1/100)" cent_group]
    by (simp add: cent_group_def ex_group_def ex_line_defs variance_of_def ex_rates s js_lit_cent)
  have e: "getVariancePairs cent_rows = group_pairs (js_lit (1/100)) cent_group"
    by (simp add: getVariancePairs_def createVariancePairs_def groupByPOLine_cent_rows
        createVariancePairs_with_9001)
  have l: "length (itemReceipts one_two_group) = 1" "length (vendorBills one_two_group) = 2"
    "length (itemReceipts cent_group) = 2" "length (vendorBills cent_group) = 2"
    by (simp_all add: one_two_group_def cent_group_def ex_group_def)
  from g v c l e groupByPOLine_cent_rows show ?thesis by simp
qed

section \<open>IR/VB variant: the variance of an emitted pair\<close>

lemma groupByPOLine_late_receipt_rows:
  "groupByPOLine late_receipt_rows =
     [(''9001'', ex_group [ex_ir ''01'' 5 (Fin 10)] [ex_vb ''01'' 2 (Fin 12)])]"
  by (simp add: late_receipt_rows_def ex_group_def groupByPOLine_def add_row_def add_lines_def
      new_group_def row_ex_row ex_rates)

lemma getVariancePairs_late_receipt_rows: "getVariancePairs late_receipt_rows = [late_receipt_pair]"
  by (simp add: getVariancePairs_def createVariancePairs_def groupByPOLine_late_receipt_rows
      createVariancePairs_with_9001 group_pairs_zip late_receipt_pair_def)
    (simp add: ex_group_def ex_line_defs variance_of_def js_sub_def double_eval js_lit_cent)

text \<open>
  C3, as stated, fails: a receipt dated after the bill it is paired with gives the variance
  \<open>12 - 10 = 2\<close>, the bill's rate minus the receipt's, where the later document's rate minus
  the earlier one's is \<open>-2\<close>.
\<close>

theorem variance_direction_counterexample:
  "getVariancePairs late_receipt_rows = [late_receipt_pair] \<and>
   vb_date (pair_vb late_receipt_pair) < ir_date (pair_ir late_receipt_pair) \<and>
   pair_variance late_receipt_pair = Fin 2 \<and>
   later_minus_earlier late_receipt_pair = Fin (- 2)"
  by (simp add: getVariancePairs_late_receipt_rows)
    (simp add: late_receipt_pair_def make_pair_def pair_variance_def later_minus_earlier_def
      ex_line_defs js_sub_def double_eval js_lit_cent)

text \<open>
  C3, amended. For every emitted pair the derived variance is the Vendor Bill line's rate
  minus the Item Receipt line's rate, whatever the two dates: it is the variance the loop
  tested, so it reaches the threshold, and it is the later rate minus the earlier rate when
  the bill is not dated before the receipt. In the PO/VB variant the variance is the bill
  line's rate minus the PO line's rate, and it reaches \<open>0.01\<close>.
\<close>

theorem variance_direction:
  "(\<forall>p \<in> set (createVariancePairs_with t groups).
     pair_variance p = variance_of (pair_ir p) (pair_vb p) \<and>
     js_ge (js_abs (pair_variance p)) t \<and>
     (ir_date (pair_ir p) \<le> vb_date (pair_vb p) \<longrightarrow> pair_variance p = later_minus_earlier p)) \<and>
   (\<forall>q \<in> set (po_group_pairs ths pg). js_ge (js_abs (table_variance q)) (js_lit (1/100)))"
proof (intro conjI ballI)
  fix q assume "q \<in> set (po_group_pairs ths pg)"
  then show "js_ge (js_abs (table_variance q)) (js_lit (1/100))"
    by (auto simp add: po_group_pairs_def table_variance_def Let_def split: list.splits if_splits)
next
  fix p assume "p \<in> set (createVariancePairs_with t groups)"
  then obtain g where "p \<in> set (group_pairs t g)"
    by (auto simp add: set_createVariancePairs_with)
  then obtain ir vb where p: "p = make_pair (poInfo g) ir vb"
    and ok: "js_ge (js_abs (variance_of ir vb)) t"
    by (auto simp add: group_pairs_zip)
  have v: "pair_variance p = variance_of ir vb"
    by (simp add: p pair_variance_def variance_of_def make_pair_def)
  have "pair_variance p = variance_of (pair_ir p) (pair_vb p)"
    by (simp add: pair_variance_def variance_of_def)
  moreover from v ok have "js_ge (js_abs (pair_variance p)) t" by simp
  moreover have "ir_date (pair_ir p) \<le> vb_date (pair_vb p) \<longrightarrow> pair_variance p = later_minus_earlier p"
    by (simp add: pair_variance_def later_minus_earlier_def)
  ultimately show "pair_variance p = variance_of (pair_ir p) (pair_vb p)"
    and "js_ge (js_abs (pair_variance p)) t"
    and "ir_date (pair_ir p) \<le> vb_date (pair_vb p) \<longrightarrow> pair_variance p = later_minus_earlier p"
    by blast+
qed

theorem variance_direction_witness:
  "late_receipt_pair \<in> set (createVariancePairs_with (js_lit (1/100)) (groupByPOLine late_receipt_rows)) \<and>
   pair_variance late_receipt_pair =
     js_sub (vb_rate (pair_vb late_receipt_pair)) (ir_rate (pair_ir late_receipt_pair)) \<and>
   js_ge (js_abs (pair_variance late_receipt_pair)) (js_lit (1/100))"
proof -
  have m: "late_receipt_pair \<in> set (createVariancePairs_with (js_lit (1/100)) (groupByPOLine late_receipt_rows))"
    using getVariancePairs_late_receipt_rows
    by (simp add: getVariancePairs_def createVariancePairs_def)
  from variance_direction[of "js_lit (1/100)" "groupByPOLine late_receipt_rows"] m
  have "pair_variance late_receipt_pair = variance_of (pair_ir late_receipt_pair) (pair_vb late_receipt_pair)"
    and "js_ge (js_abs (pair_variance late_receipt_pair)) (js_lit (1/100))"
    by blast+
  with m show ?thesis by (simp add: variance_of_def)
qed

section \<open>IR/VB variant: independence of the row order\<close>

text \<open>
  What the fold of \<open>groupByPOLine\<close> maintains for the list \<open>xs\<close> of lines of a group, built
  from the rows \<open>S\<close> seen for its key: every line comes from a row, every row's line id is
  present, and no line id is present twice.
\<close>

definition lines_inv :: "('a \<Rightarrow> string) \<Rightarrow> (row \<Rightarrow> 'a) \<Rightarrow> 'a list \<Rightarrow> row set \<Rightarrow> bool" where
  "lines_inv key proj xs S =
     ((\<forall>x \<in> set xs. \<exists>r \<in> S. x = proj r) \<and>
      (\<forall>r \<in> S. \<exists>x \<in> set xs. key x = key (proj r)) \<and>
      distinct (map key xs))"

definition group_inv :: "row set \<Rightarrow> po_line_group \<Rightarrow> bool" where
  "group_inv S g =
     ((\<exists>r \<in> S. poInfo g = row_po r) \<and>
      lines_inv ir_line_id row_ir (itemReceipts g) S \<and>
      lines_inv vb_line_id row_vb (vendorBills g) S)"

text \<open>The rows of one PO line.\<close>

definition rows_of :: "string \<Rightarrow> row list \<Rightarrow> row set" where
  "rows_of k rows = {r \<in> set rows. po_line_id r = k}"

lemma lines_inv_empty: "lines_inv key proj [] {}"
  by (simp add: lines_inv_def)

lemma lines_inv_step:
  assumes "lines_inv key proj xs S"
  shows "lines_inv key proj
           (if \<not> list_ex (\<lambda>y. key y = key (proj r)) xs then xs @ [proj r] else xs) (insert r S)"
proof (cases "\<exists>y \<in> set xs. key y = key (proj r)")
  case True
  with assms show ?thesis by (simp add: lines_inv_def list_ex_iff; blast)
next
  case False
  then have "key (proj r) \<notin> key ` set xs" by auto
  with False assms show ?thesis by (simp add: lines_inv_def list_ex_iff; blast)
qed

lemma group_inv_new: "group_inv {r} (add_lines (new_group r) r)"
  using lines_inv_step[OF lines_inv_empty, of ir_line_id row_ir r]
        lines_inv_step[OF lines_inv_empty, of vb_line_id row_vb r]
  by (simp add: group_inv_def add_lines_def new_group_def Let_def)

lemma group_inv_add:
  assumes "group_inv S g"
  shows "group_inv (insert r S) (add_lines g r)"
proof -
  from assms have po: "\<exists>r \<in> S. poInfo g = row_po r"
    and ir: "lines_inv ir_line_id row_ir (itemReceipts g) S"
    and vb: "lines_inv vb_line_id row_vb (vendorBills g) S"
    by (simp_all add: group_inv_def)
  show ?thesis
    using po lines_inv_step[OF ir, of r] lines_inv_step[OF vb, of r]
    by (auto simp add: group_inv_def add_lines_def Let_def)
qed

lemma groupByPOLine_snoc: "groupByPOLine (rows @ [r]) = add_row (groupByPOLine rows) r"
  by (simp add: groupByPOLine_def)

lemma map_of_add_row:
  "map_of (add_row al r) k =
     (if k = po_line_id r
      then Some (add_lines (case map_of al k of None \<Rightarrow> new_group r | Some g0 \<Rightarrow> g0) r)
      else map_of al k)"
  by (simp add: add_row_def Let_def update_conv')

lemma group_keys:
  "(map_of (groupByPOLine rows) k = None) = (rows_of k rows = {})"
proof (induction rows rule: rev_induct)
  case Nil
  show ?case by (simp add: groupByPOLine_def rows_of_def)
next
  case (snoc r rows)
  then show ?case
    by (auto simp add: groupByPOLine_snoc map_of_add_row rows_of_def)
qed

lemma group_invariant:
  "map_of (groupByPOLine rows) k = Some g \<Longrightarrow> group_inv (rows_of k rows) g"
proof (induction rows arbitrary: g rule: rev_induct)
  case Nil
  then show ?case by (simp add: groupByPOLine_def)
next
  case (snoc r rows)
  show ?case
  proof (cases "k = po_line_id r")
    case False
    then have "rows_of k (rows @ [r]) = rows_of k rows" by (auto simp add: rows_of_def)
    with snoc False show ?thesis by (simp add: groupByPOLine_snoc map_of_add_row)
  next
    case True
    then have ins: "rows_of k (rows @ [r]) = insert r (rows_of k rows)"
      by (auto simp add: rows_of_def)
    show ?thesis
    proof (cases "map_of (groupByPOLine rows) k")
      case None
      then have "rows_of k rows = {}" by (simp add: group_keys)
      moreover from None snoc.prems True have "g = add_lines (new_group r) r"
        by (simp add: groupByPOLine_snoc map_of_add_row)
      ultimately show ?thesis using ins group_inv_new[of r] by simp
    next
      case (Some g0)
      then have "group_inv (rows_of k rows) g0" by (rule snoc.IH)
      moreover from Some snoc.prems True have "g = add_lines g0 r"
        by (simp add: groupByPOLine_snoc map_of_add_row)
      ultimately show ?thesis using ins group_inv_add[of "rows_of k rows" g0 r] by simp
    qed
  qed
qed

text \<open>A stable sort of distinct elements with distinct keys depends on their set only.\<close>

lemma sort_key_unique:
  assumes "set xs = set ys" "distinct xs" "distinct ys" "inj_on f (set xs)"
  shows "sort_key f xs = sort_key f ys"
proof -
  have dx: "distinct (map f (sort_key f xs))" using assms by (simp add: distinct_map)
  have dy: "distinct (map f (sort_key f ys))" using assms by (simp add: distinct_map)
  have "set (map f (sort_key f xs)) = set (map f (sort_key f ys))" using assms by simp
  then have "map f (sort_key f xs) = map f (sort_key f ys)"
    using dx dy sorted_sort_key[of f xs] sorted_sort_key[of f ys]
    by (intro sorted_distinct_set_unique) simp_all
  moreover have "inj_on f (set (sort_key f xs) \<union> set (sort_key f ys))" using assms by simp
  ultimately show ?thesis by (simp add: inj_on_map_eq_map)
qed

lemma consistent_rowsD:
  assumes "consistent_rows rows" "r1 \<in> rows_of k rows" "r2 \<in> rows_of k rows"
  shows "row_po r1 = row_po r2"
    and "ir_line_id (row_ir r1) = ir_line_id (row_ir r2) \<Longrightarrow> row_ir r1 = row_ir r2"
    and "vb_line_id (row_vb r1) = vb_line_id (row_vb r2) \<Longrightarrow> row_vb r1 = row_vb r2"
proof -
  from assms have m: "r1 \<in> set rows" "r2 \<in> set rows" "po_line_id r1 = po_line_id r2"
    by (simp_all add: rows_of_def)
  note * = assms(1)[unfolded consistent_rows_def, rule_format, OF m(1) m(2) m(3)]
  from * show "row_po r1 = row_po r2" by (rule conjunct1)
  from * show "ir_line_id (row_ir r1) = ir_line_id (row_ir r2) \<Longrightarrow> row_ir r1 = row_ir r2" by blast
  from * show "vb_line_id (row_vb r1) = vb_line_id (row_vb r2) \<Longrightarrow> row_vb r1 = row_vb r2" by blast
qed

lemma dates_distinctD:
  assumes "dates_distinct rows" "r1 \<in> rows_of k rows" "r2 \<in> rows_of k rows"
  shows "ir_date (row_ir r1) = ir_date (row_ir r2) \<Longrightarrow> ir_line_id (row_ir r1) = ir_line_id (row_ir r2)"
    and "vb_date (row_vb r1) = vb_date (row_vb r2) \<Longrightarrow> vb_line_id (row_vb r1) = vb_line_id (row_vb r2)"
proof -
  from assms have m: "r1 \<in> set rows" "r2 \<in> set rows" "po_line_id r1 = po_line_id r2"
    by (simp_all add: rows_of_def)
  note * = assms(1)[unfolded dates_distinct_def, rule_format, OF m(1) m(2) m(3)]
  from * show "ir_date (row_ir r1) = ir_date (row_ir r2) \<Longrightarrow> ir_line_id (row_ir r1) = ir_line_id (row_ir r2)" by blast
  from * show "vb_date (row_vb r1) = vb_date (row_vb r2) \<Longrightarrow> vb_line_id (row_vb r1) = vb_line_id (row_vb r2)" by blast
qed

lemma lines_inv_set:
  assumes inv: "lines_inv key proj xs S"
    and fd: "\<And>r1 r2. r1 \<in> S \<Longrightarrow> r2 \<in> S \<Longrightarrow> key (proj r1) = key (proj r2) \<Longrightarrow> proj r1 = proj r2"
  shows "set xs = proj ` S \<and> distinct xs"
proof -
  from inv have sub: "\<forall>x \<in> set xs. \<exists>r \<in> S. x = proj r"
    and sup: "\<forall>r \<in> S. \<exists>x \<in> set xs. key x = key (proj r)"
    and d: "distinct (map key xs)"
    by (simp_all add: lines_inv_def)
  have "proj r \<in> set xs" if "r \<in> S" for r
  proof -
    from sup that obtain x where x: "x \<in> set xs" "key x = key (proj r)" by blast
    from sub x obtain r' where r': "r' \<in> S" "x = proj r'" by blast
    with fd[of r' r] that x have "proj r' = proj r" by simp
    with x r' show ?thesis by simp
  qed
  moreover from sub have "set xs \<subseteq> proj ` S" by blast
  moreover from d have "distinct xs" by (simp add: distinct_map)
  ultimately show ?thesis by blast
qed

lemma rows_of_cong: "set xs = set ys \<Longrightarrow> rows_of k xs = rows_of k ys"
  by (simp add: rows_of_def)

lemma inj_on_dates:
  assumes c: "consistent_rows xs" and dd: "dates_distinct xs"
  shows "inj_on ir_date (row_ir ` rows_of k xs)" and "inj_on vb_date (row_vb ` rows_of k xs)"
proof -
  show "inj_on ir_date (row_ir ` rows_of k xs)"
  proof (rule inj_onI)
    fix a b assume "a \<in> row_ir ` rows_of k xs" "b \<in> row_ir ` rows_of k xs" and e: "ir_date a = ir_date b"
    then obtain r1 r2 where r: "r1 \<in> rows_of k xs" "r2 \<in> rows_of k xs" "a = row_ir r1" "b = row_ir r2" by blast
    from e r have "ir_line_id (row_ir r1) = ir_line_id (row_ir r2)"
      using dates_distinctD(1)[OF dd r(1) r(2)] by simp
    then have "row_ir r1 = row_ir r2" by (rule consistent_rowsD(2)[OF c r(1) r(2)])
    with r show "a = b" by simp
  qed
  show "inj_on vb_date (row_vb ` rows_of k xs)"
  proof (rule inj_onI)
    fix a b assume "a \<in> row_vb ` rows_of k xs" "b \<in> row_vb ` rows_of k xs" and e: "vb_date a = vb_date b"
    then obtain r1 r2 where r: "r1 \<in> rows_of k xs" "r2 \<in> rows_of k xs" "a = row_vb r1" "b = row_vb r2" by blast
    from e r have "vb_line_id (row_vb r1) = vb_line_id (row_vb r2)"
      using dates_distinctD(2)[OF dd r(1) r(2)] by simp
    then have "row_vb r1 = row_vb r2" by (rule consistent_rowsD(3)[OF c r(1) r(2)])
    with r show "a = b" by simp
  qed
qed

lemma group_lines_determined:
  assumes g: "map_of (groupByPOLine xs) k = Some g" and c: "consistent_rows xs"
  shows "set (itemReceipts g) = row_ir ` rows_of k xs" and "distinct (itemReceipts g)"
    and "set (vendorBills g) = row_vb ` rows_of k xs" and "distinct (vendorBills g)"
    and "\<exists>r \<in> rows_of k xs. poInfo g = row_po r"
proof -
  have inv: "group_inv (rows_of k xs) g" using g by (rule group_invariant)
  then have li: "lines_inv ir_line_id row_ir (itemReceipts g) (rows_of k xs)"
    and lv: "lines_inv vb_line_id row_vb (vendorBills g) (rows_of k xs)"
    and po: "\<exists>r \<in> rows_of k xs. poInfo g = row_po r"
    unfolding group_inv_def by blast+
  have i: "set (itemReceipts g) = row_ir ` rows_of k xs \<and> distinct (itemReceipts g)"
    using li by (rule lines_inv_set) (rule consistent_rowsD(2)[OF c])
  have v: "set (vendorBills g) = row_vb ` rows_of k xs \<and> distinct (vendorBills g)"
    using lv by (rule lines_inv_set) (rule consistent_rowsD(3)[OF c])
  from i show "set (itemReceipts g) = row_ir ` rows_of k xs" and "distinct (itemReceipts g)" by blast+
  from v show "set (vendorBills g) = row_vb ` rows_of k xs" and "distinct (vendorBills g)" by blast+
  from po show "\<exists>r \<in> rows_of k xs. poInfo g = row_po r" .
qed

lemma group_pairs_same:
  assumes gx: "map_of (groupByPOLine xs) k = Some gx"
    and gy: "map_of (groupByPOLine ys) k = Some gy"
    and eq: "set xs = set ys"
    and c: "consistent_rows xs" and dd: "dates_distinct xs"
  shows "group_pairs t gx = group_pairs t gy"
proof -
  have cy: "consistent_rows ys"
    unfolding consistent_rows_def using c[unfolded consistent_rows_def eq] .
  have S: "rows_of k ys = rows_of k xs" using eq by (simp add: rows_of_def)
  note dx = group_lines_determined[OF gx c]
  note dy = group_lines_determined[OF gy cy, unfolded S]
  have po: "poInfo gx = poInfo gy"
  proof -
    from dx(5) obtain r1 where r1: "r1 \<in> rows_of k xs" "poInfo gx = row_po r1" by blast
    from dy(5) obtain r2 where r2: "r2 \<in> rows_of k xs" "poInfo gy = row_po r2" by blast
    from consistent_rowsD(1)[OF c r1(1) r2(1)] r1 r2 show ?thesis by simp
  qed
  have irs: "sort_key ir_date (itemReceipts gx) = sort_key ir_date (itemReceipts gy)"
  proof (rule sort_key_unique)
    show "set (itemReceipts gx) = set (itemReceipts gy)" using dx(1) dy(1) by simp
    show "distinct (itemReceipts gx)" by (rule dx(2))
    show "distinct (itemReceipts gy)" by (rule dy(2))
    show "inj_on ir_date (set (itemReceipts gx))" using inj_on_dates(1)[OF c dd, of k] dx(1) by simp
  qed
  have vbs: "sort_key vb_date (vendorBills gx) = sort_key vb_date (vendorBills gy)"
  proof (rule sort_key_unique)
    show "set (vendorBills gx) = set (vendorBills gy)" using dx(3) dy(3) by simp
    show "distinct (vendorBills gx)" by (rule dx(4))
    show "distinct (vendorBills gy)" by (rule dy(4))
    show "inj_on vb_date (set (vendorBills gx))" using inj_on_dates(2)[OF c dd, of k] dx(3) by simp
  qed
  show ?thesis unfolding group_pairs_def irs vbs po ..
qed

lemma pairs_subset:
  assumes eq: "set xs = set ys" and c: "consistent_rows xs" and dd: "dates_distinct xs"
  shows "set (createVariancePairs_with t (groupByPOLine xs)) \<subseteq> set (createVariancePairs_with t (groupByPOLine ys))"
proof
  fix p assume "p \<in> set (createVariancePairs_with t (groupByPOLine xs))"
  then obtain k gx where gx: "map_of (groupByPOLine xs) k = Some gx" and p: "p \<in> set (group_pairs t gx)"
    by (auto simp add: set_createVariancePairs_with)
  from gx have "rows_of k xs \<noteq> {}" using group_keys[of xs k] by simp
  then have "rows_of k ys \<noteq> {}" using rows_of_cong[OF eq, of k] by simp
  then obtain gy where gy: "map_of (groupByPOLine ys) k = Some gy"
    using group_keys[of ys k] by (cases "map_of (groupByPOLine ys) k") auto
  from group_pairs_same[OF gx gy eq c dd, of t] p have "p \<in> set (group_pairs t gy)" by simp
  with gy show "p \<in> set (createVariancePairs_with t (groupByPOLine ys))"
    by (auto simp add: set_createVariancePairs_with)
qed


text \<open>Evaluation of the example data.\<close>

lemma getVariancePairs_tie_rows:
  "getVariancePairs tie_rows =
     [make_pair ex_po_info (ex_ir ''01'' 10 (Fin 10)) (ex_vb ''01'' 11 (Fin 20)),
      make_pair ex_po_info (ex_ir ''02'' 10 (Fin 20)) (ex_vb ''02'' 12 (Fin 10))]"
proof -
  have "groupByPOLine tie_rows =
      [(''9001'', ex_group [ex_ir ''01'' 10 (Fin 10), ex_ir ''02'' 10 (Fin 20)] [ex_vb ''01'' 11 (Fin 20), ex_vb ''02'' 12 (Fin 10)])]"
    by (simp add: tie_rows_def ex_group_def groupByPOLine_def add_row_def add_lines_def
        new_group_def row_ex_row ex_rates ex_line_defs)
  then show ?thesis
    by (simp add: getVariancePairs_def createVariancePairs_def createVariancePairs_with_9001
        group_pairs_zip)
      (simp add: ex_group_def ex_line_defs variance_of_def js_sub_def double_eval js_lit_cent)
qed

lemma getVariancePairs_rev_tie_rows: "getVariancePairs (rev tie_rows) = []"
proof -
  have "groupByPOLine (rev tie_rows) =
      [(''9001'', ex_group [ex_ir ''02'' 10 (Fin 20), ex_ir ''01'' 10 (Fin 10)] [ex_vb ''02'' 12 (Fin 10), ex_vb ''01'' 11 (Fin 20)])]"
    by (simp add: tie_rows_def ex_group_def groupByPOLine_def add_row_def add_lines_def
        new_group_def row_ex_row ex_rates ex_line_defs)
  then show ?thesis
    by (simp add: getVariancePairs_def createVariancePairs_def createVariancePairs_with_9001
        group_pairs_zip)
      (simp add: ex_group_def ex_line_defs variance_of_def js_sub_def double_eval js_lit_cent)
qed

text \<open>
  C8, as stated, fails: two receipt lines of the same date are paired in the order in which
  their rows arrive. The two rows below give two pairs in one order and none in the other.
\<close>

theorem row_order_counterexample:
  "mset (rev tie_rows) = mset tie_rows \<and>
   set (getVariancePairs tie_rows) \<noteq> set (getVariancePairs (rev tie_rows))"
  by (simp add: getVariancePairs_tie_rows getVariancePairs_rev_tie_rows)

text \<open>
  C8, amended. On the rows of a join (the PO fields are those of the PO line, a line id
  determines its line) in which no two receipt lines and no two bill lines of one PO line
  share a date, the set of emitted pairs is the same for every permutation of the rows.
\<close>

theorem row_order_independent:
  assumes "mset xs = mset ys" and "consistent_rows xs" and "dates_distinct xs"
  shows "set (getVariancePairs xs) = set (getVariancePairs ys)"
proof -
  from assms(1) have eq: "set xs = set ys" by (rule mset_eq_setD)
  have c': "consistent_rows ys"
    unfolding consistent_rows_def using assms(2)[unfolded consistent_rows_def eq] .
  have d': "dates_distinct ys"
    unfolding dates_distinct_def using assms(3)[unfolded dates_distinct_def eq] .
  show ?thesis
    using pairs_subset[OF eq assms(2) assms(3)] pairs_subset[OF eq[symmetric] c' d']
    by (simp add: getVariancePairs_def createVariancePairs_def) blast
qed

lemma getVariancePairs_untied_rows:
  "getVariancePairs untied_rows =
     [make_pair ex_po_info (ex_ir ''01'' 9 (Fin 10)) (ex_vb ''01'' 11 (Fin 20)),
      make_pair ex_po_info (ex_ir ''02'' 10 (Fin 20)) (ex_vb ''02'' 12 (Fin 10))]"
proof -
  have "groupByPOLine untied_rows =
      [(''9001'', ex_group [ex_ir ''01'' 9 (Fin 10), ex_ir ''02'' 10 (Fin 20)] [ex_vb ''01'' 11 (Fin 20), ex_vb ''02'' 12 (Fin 10)])]"
    by (simp add: untied_rows_def ex_group_def groupByPOLine_def add_row_def add_lines_def
        new_group_def row_ex_row ex_rates ex_line_defs)
  then show ?thesis
    by (simp add: getVariancePairs_def createVariancePairs_def createVariancePairs_with_9001
        group_pairs_zip)
      (simp add: ex_group_def ex_line_defs variance_of_def js_sub_def double_eval js_lit_cent)
qed

text \<open>Two rows with all dates different give the same two pairs in both orders.\<close>

theorem row_order_independent_witness:
  "consistent_rows untied_rows \<and> dates_distinct untied_rows \<and>
   mset untied_rows = mset (rev untied_rows) \<and>
   set (getVariancePairs untied_rows) = set (getVariancePairs (rev untied_rows)) \<and>
   getVariancePairs untied_rows =
     [make_pair ex_po_info (ex_ir ''01'' 9 (Fin 10)) (ex_vb ''01'' 11 (Fin 20)),
      make_pair ex_po_info (ex_ir ''02'' 10 (Fin 20)) (ex_vb ''02'' 12 (Fin 10))]"
proof -
  have c: "consistent_rows untied_rows"
    by (simp add: consistent_rows_def untied_rows_def row_ex_row ex_rates ex_line_defs)
  have d: "dates_distinct untied_rows"
    by (simp add: dates_distinct_def untied_rows_def row_ex_row ex_rates ex_line_defs)
  have m: "mset untied_rows = mset (rev untied_rows)" by simp
  from row_order_independent[OF m c d] c d m getVariancePairs_untied_rows show ?thesis by blast
qed

section \<open>The document store\<close>

text \<open>
  The host platform is outside the repository: \<open>record.load\<close>, \<open>save\<close> and the script's
  remaining usage are modelled by a world that the functions thread through. A load or a
  save costs usage units; a load of an unknown id, a save the platform rejects (a closed
  period, for one) and a call the remaining usage cannot pay throw. What the platform
  computes or decides is a field of the world: the total of a bill, the rejection of a save
  with its message, the number given to a new journal entry, the date, the costs.
\<close>

datatype js_error = Error (message: string) | TypeError (message: string)

datatype rec_type = ITEM_RECEIPT | PURCHASE_ORDER | VENDOR_BILL | JOURNAL_ENTRY

record receipt_line =
  rl_item :: string
  rl_rate :: jsnum

record order_line =
  ol_lineuniquekey :: string
  ol_rate_variance_reviewed :: bool

record bill_item_line =
  bi_item :: string
  bi_rate :: jsnum
  bi_department :: string

text \<open>
  The memo of the offsetting expense line is the concatenation of fixed text with these
  five values, the three numbers printed by \<open>toFixed(2)\<close>; it is kept as the values.
\<close>

record adjustment_memo =
  am_item_name :: string
  am_item_id :: "string option"
  am_vb_rate :: jsnum
  am_ir_rate :: jsnum
  am_diff :: jsnum

record bill_expense_line =
  be_account :: string
  be_amount :: jsnum
  be_memo :: adjustment_memo

record bill_doc =
  bd_item :: "bill_item_line list"
  bd_expense :: "bill_expense_line list"

record journal_line =
  jl_account :: string
  jl_debit :: "jsnum option"
  jl_credit :: "jsnum option"
  jl_memo :: string
  jl_department :: "string option"

record journal_entry =
  je_trandate :: int
  je_memo :: string
  je_line :: "journal_line list"

record world =
  item_receipts :: "string \<rightharpoonup> receipt_line list"
  purchase_orders :: "string \<rightharpoonup> order_line list"
  vendor_bills :: "string \<rightharpoonup> bill_doc"
  journal_entries :: "journal_entry list"
  bill_total :: "bill_doc \<Rightarrow> jsnum"
  save_rejection :: "rec_type \<Rightarrow> string \<Rightarrow> string option"
  tranid_of :: "nat \<Rightarrow> string"
  today :: int
  remaining_usage :: nat
  load_cost :: nat
  save_cost :: nat

definition usage_error :: js_error where
  "usage_error = Error ''SSS_USAGE_LIMIT_EXCEEDED: Script Execution Usage Limit Exceeded''"

definition missing_record :: js_error where
  "missing_record = Error ''RCRD_DSNT_EXIST: That record does not exist.''"

definition charge :: "nat \<Rightarrow> world \<Rightarrow> world option" where
  "charge c w =
     (if remaining_usage w < c then None
      else Some (w \<lparr> remaining_usage := remaining_usage w - c \<rparr>))"

text \<open>\<open>record.load\<close>: the document and the charged world, or the error with the world as it was.\<close>

definition record_load :: "(world \<Rightarrow> string \<rightharpoonup> 'd) \<Rightarrow> world \<Rightarrow> string \<Rightarrow> js_error + ('d \<times> world)" where
  "record_load store w recId =
     (case charge (load_cost w) w of
        None \<Rightarrow> Inl usage_error
      | Some w1 \<Rightarrow>
         (case store w recId of
            None \<Rightarrow> Inl missing_record
          | Some d \<Rightarrow> Inr (d, w1)))"

text \<open>
  The platform's side of \<open>save\<close>: the charged world when the save is accepted. The caller
  then writes the document into the store.
\<close>

definition save_accepted :: "rec_type \<Rightarrow> string \<Rightarrow> world \<Rightarrow> js_error + world" where
  "save_accepted ty recId w =
     (case charge (save_cost w) w of
        None \<Rightarrow> Inl usage_error
      | Some w1 \<Rightarrow>
         (case save_rejection w ty recId of
            Some msg \<Rightarrow> Inl (Error msg)
          | None \<Rightarrow> Inr w1))"

section \<open>Record Mutator\<close>

text \<open>
  \<open>updateItemReceiptLineRate\<close> (\<open>part_000\<close> lines 531-614, \<open>part_001\<close> lines 204-273).
  The loop over the lines: a line matches when its item is truthy and equals \<open>itemId\<close> as
  a string; \<open>itemId.toString()\<close> on an undefined \<open>itemId\<close> throws at the first line with
  a truthy item. The result is the lines after the loop and \<open>linesUpdated\<close>. \<open>newRate\<close> is
  the number \<open>parseFloat(newRate)\<close>.
\<close>

fun update_lines :: "string option \<Rightarrow> jsnum \<Rightarrow> receipt_line list \<Rightarrow> js_error + (receipt_line list \<times> nat)" where
  "update_lines itemId newRate [] = Inr ([], 0)"
| "update_lines itemId newRate (l # ls) =
     (if rl_item l \<noteq> []
      then (case itemId of
              None \<Rightarrow> Inl (TypeError ''Cannot read property toString of undefined'')
            | Some it \<Rightarrow>
               (if rl_item l = it
                then (case update_lines itemId newRate ls of
                        Inl e \<Rightarrow> Inl e
                      | Inr (ls', n) \<Rightarrow> Inr (l \<lparr> rl_rate := newRate \<rparr> # ls', Suc n))
                else (case update_lines itemId newRate ls of
                        Inl e \<Rightarrow> Inl e
                      | Inr (ls', n) \<Rightarrow> Inr (l # ls', n))))
      else (case update_lines itemId newRate ls of
              Inl e \<Rightarrow> Inl e
            | Inr (ls', n) \<Rightarrow> Inr (l # ls', n)))"

definition updateItemReceiptLineRate ::
  "world \<Rightarrow> string \<Rightarrow> string option \<Rightarrow> string option \<Rightarrow> jsnum \<Rightarrow> (js_error + string) \<times> world" where
  "updateItemReceiptLineRate w irId poLineId itemId newRate =
     (case record_load item_receipts w irId of
        Inl e \<Rightarrow> (Inl e, w)
      | Inr (irRecord, w1) \<Rightarrow>
         (case update_lines itemId newRate irRecord of
            Inl e \<Rightarrow> (Inl e, w1)
          | Inr (lines', linesUpdated) \<Rightarrow>
             (if linesUpdated = 0
              then (Inl (Error (''No lines found with Item ID '' @ js_string itemId @ '' on IR '' @ irId)), w1)
              else (case save_accepted ITEM_RECEIPT irId w1 of
                      Inl e \<Rightarrow> (Inl e, w1)
                    | Inr w2 \<Rightarrow>
                       (Inr irId, w2 \<lparr> item_receipts := (item_receipts w2)(irId \<mapsto> lines') \<rparr>)))))"

text \<open>
  \<open>markPOLineReviewed\<close> (\<open>vendor_bill_variance_po_vb_suitelet.js\<close> lines 250-304): the loop
  stops (\<open>break\<close>) at the first line whose unique key matches. The result is the lines after
  the loop and \<open>lineFound\<close>.
\<close>

fun mark_line :: "string option \<Rightarrow> order_line list \<Rightarrow> js_error + (order_line list \<times> bool)" where
  "mark_line poLineKey [] = Inr ([], False)"
| "mark_line poLineKey (l # ls) =
     (if ol_lineuniquekey l \<noteq> []
      then (case poLineKey of
              None \<Rightarrow> Inl (TypeError ''Cannot read property toString of undefined'')
            | Some k \<Rightarrow>
               (if ol_lineuniquekey l = k
                then Inr (l \<lparr> ol_rate_variance_reviewed := True \<rparr> # ls, True)
                else (case mark_line poLineKey ls of
                        Inl e \<Rightarrow> Inl e
                      | Inr (ls', found) \<Rightarrow> Inr (l # ls', found))))
      else (case mark_line poLineKey ls of
              Inl e \<Rightarrow> Inl e
            | Inr (ls', found) \<Rightarrow> Inr (l # ls', found)))"

definition markPOLineReviewed :: "world \<Rightarrow> string \<Rightarrow> string option \<Rightarrow> (js_error + string) \<times> world" where
  "markPOLineReviewed w poId poLineKey =
     (case record_load purchase_orders w poId of
        Inl e \<Rightarrow> (Inl e, w)
      | Inr (poRecord, w1) \<Rightarrow>
         (case mark_line poLineKey poRecord of
            Inl e \<Rightarrow> (Inl e, w1)
          | Inr (lines', lineFound) \<Rightarrow>
             (if \<not> lineFound
              then (Inl (Error (''No lines found with Line Key '' @ js_string poLineKey @ '' on PO '' @ poId)), w1)
              else (case save_accepted PURCHASE_ORDER poId w1 of
                      Inl e \<Rightarrow> (Inl e, w1)
                    | Inr w2 \<Rightarrow>
                       (Inr poId, w2 \<lparr> purchase_orders := (purchase_orders w2)(poId \<mapsto> lines') \<rparr>)))))"

section \<open>Example world\<close>

text \<open>
  Receipt 201 holds item 42 on two lines and item 7 on one; receipt 202 is in a closed
  period. Purchase order 500 has two lines. The total of a bill is the sum of its item
  rates (quantity 2 each) and its expense amounts.
\<close>

definition ex_total :: "bill_doc \<Rightarrow> jsnum" where
  "ex_total d =
     foldl js_add (Fin 0)
       (map (\<lambda>l. js_mul (Fin 2) (bi_rate l)) (bd_item d) @ map be_amount (bd_expense d))"

definition ex_world :: world where
  "ex_world =
     \<lparr> item_receipts =
         [''201'' \<mapsto> [\<lparr> rl_item = ''42'', rl_rate = Fin 10 \<rparr>,
                       \<lparr> rl_item = ''7'', rl_rate = Fin 3 \<rparr>,
                       \<lparr> rl_item = ''42'', rl_rate = Fin 11 \<rparr>],
          ''202'' \<mapsto> [\<lparr> rl_item = ''42'', rl_rate = Fin 10 \<rparr>]],
       purchase_orders =
         [''500'' \<mapsto> [\<lparr> ol_lineuniquekey = ''9500'', ol_rate_variance_reviewed = False \<rparr>,
                       \<lparr> ol_lineuniquekey = ''9501'', ol_rate_variance_reviewed = False \<rparr>]],
       vendor_bills =
         [''301'' \<mapsto> \<lparr> bd_item = [\<lparr> bi_item = ''42'', bi_rate = js_lit (10002/100), bi_department = ''13'' \<rparr>],
                        bd_expense = [] \<rparr>],
       journal_entries = [],
       bill_total = ex_total,
       save_rejection =
         (\<lambda>ty recId. if ty = ITEM_RECEIPT \<and> recId = ''202''
                      then Some ''You cannot edit a transaction in a closed period.'' else None),
       tranid_of = (\<lambda>n. ''JE1000''),
       today = 20251101,
       remaining_usage = 1000,
       load_cost = 10,
       save_cost = 20 \<rparr>"

section \<open>Record Mutator: what is written and when it fails\<close>

lemma update_lines_Some:
  "update_lines (Some it) v ls =
     Inr (map (\<lambda>l. if rl_item l \<noteq> [] \<and> rl_item l = it then l \<lparr> rl_rate := v \<rparr> else l) ls,
          length (filter (\<lambda>l. rl_item l \<noteq> [] \<and> rl_item l = it) ls))"
  by (induction ls) auto

lemma mark_line_distinct:
  "distinct (map ol_lineuniquekey ls) \<Longrightarrow>
   mark_line (Some k) ls =
     Inr (map (\<lambda>l. if ol_lineuniquekey l \<noteq> [] \<and> ol_lineuniquekey l = k
                    then l \<lparr> ol_rate_variance_reviewed := True \<rparr> else l) ls,
          \<exists>l \<in> set ls. ol_lineuniquekey l \<noteq> [] \<and> ol_lineuniquekey l = k)"
proof (induction ls)
  case Nil
  show ?case by simp
next
  case (Cons l ls)
  show ?case
  proof (cases "ol_lineuniquekey l \<noteq> [] \<and> ol_lineuniquekey l = k")
    case True
    with Cons.prems have "k \<notin> ol_lineuniquekey ` set ls" by simp
    then have "\<forall>x \<in> set ls. ol_lineuniquekey x \<noteq> k" by blast
    then have "map (\<lambda>l. if ol_lineuniquekey l \<noteq> [] \<and> ol_lineuniquekey l = k
                    then l \<lparr> ol_rate_variance_reviewed := True \<rparr> else l) ls = ls"
      by (simp add: map_idI)
    moreover from True have "ol_lineuniquekey l = k" "k \<noteq> []" by auto
    ultimately show ?thesis by auto
  next
    case False
    with Cons show ?thesis by auto
  qed
qed

lemma update_error_keeps_store:
  "fst (updateItemReceiptLineRate w irId pl itemId v) = Inl e \<Longrightarrow>
   item_receipts (snd (updateItemReceiptLineRate w irId pl itemId v)) = item_receipts w"
  by (auto simp add: updateItemReceiptLineRate_def record_load_def charge_def
      split: sum.splits option.splits if_splits prod.splits)

lemma mark_error_keeps_store:
  "fst (markPOLineReviewed w poId k) = Inl e \<Longrightarrow>
   purchase_orders (snd (markPOLineReviewed w poId k)) = purchase_orders w"
  by (auto simp add: markPOLineReviewed_def record_load_def charge_def
      split: sum.splits option.splits if_splits prod.splits)

text \<open>
  C7. With the document loaded (it exists and the load can be paid), the update writes the
  new value on every matching line and leaves the others: when no line matches it throws the
  not-found error, and otherwise it goes on to the save, whose outcome is the result. An error,
  whichever it is, leaves the stored documents as they were. The same holds for marking a PO
  line reviewed, where line keys are unique within the document.
\<close>

theorem mutator_update:
  assumes "item_receipts w irId = Some ls" and "purchase_orders w poId = Some ols"
    and "load_cost w \<le> remaining_usage w" and "distinct (map ol_lineuniquekey ols)"
  shows
   "(let m = (\<lambda>l. rl_item l \<noteq> [] \<and> rl_item l = it);
         w1 = w \<lparr> remaining_usage := remaining_usage w - load_cost w \<rparr>;
         r = updateItemReceiptLineRate w irId pl (Some it) v
     in (if list_ex m ls
         then (case save_accepted ITEM_RECEIPT irId w1 of
                 Inl e \<Rightarrow> r = (Inl e, w1)
               | Inr w2 \<Rightarrow>
                   r = (Inr irId,
                        w2 \<lparr> item_receipts := (item_receipts w2)
                               (irId \<mapsto> map (\<lambda>l. if m l then l \<lparr> rl_rate := v \<rparr> else l) ls) \<rparr>))
         else r = (Inl (Error (''No lines found with Item ID '' @ it @ '' on IR '' @ irId)), w1)) \<and>
        (case fst r of Inl e \<Rightarrow> item_receipts (snd r) = item_receipts w | Inr i \<Rightarrow> True)) \<and>
    (let m = (\<lambda>l. ol_lineuniquekey l \<noteq> [] \<and> ol_lineuniquekey l = k);
         w1 = w \<lparr> remaining_usage := remaining_usage w - load_cost w \<rparr>;
         r = markPOLineReviewed w poId (Some k)
     in (if list_ex m ols
         then (case save_accepted PURCHASE_ORDER poId w1 of
                 Inl e \<Rightarrow> r = (Inl e, w1)
               | Inr w2 \<Rightarrow>
                   r = (Inr poId,
                        w2 \<lparr> purchase_orders := (purchase_orders w2)
                               (poId \<mapsto> map (\<lambda>l. if m l then l \<lparr> ol_rate_variance_reviewed := True \<rparr> else l) ols) \<rparr>))
         else r = (Inl (Error (''No lines found with Line Key '' @ k @ '' on PO '' @ poId)), w1)) \<and>
        (case fst r of Inl e \<Rightarrow> purchase_orders (snd r) = purchase_orders w | Inr i \<Rightarrow> True))"
proof -
  let ?w1 = "w \<lparr> remaining_usage := remaining_usage w - load_cost w \<rparr>"
  let ?m = "\<lambda>l. rl_item l \<noteq> [] \<and> rl_item l = it"
  let ?n = "\<lambda>l. ol_lineuniquekey l \<noteq> [] \<and> ol_lineuniquekey l = k"
  have li: "record_load item_receipts w irId = Inr (ls, ?w1)"
    using assms(1,3) by (simp add: record_load_def charge_def)
  have lp: "record_load purchase_orders w poId = Inr (ols, ?w1)"
    using assms(2,3) by (simp add: record_load_def charge_def)
  have cnt: "(filter ?m ls = []) = (\<not> list_ex ?m ls)"
    by (simp add: list_ex_iff filter_empty_conv)
  have a: "if list_ex ?m ls
         then (case save_accepted ITEM_RECEIPT irId ?w1 of
                 Inl e \<Rightarrow> updateItemReceiptLineRate w irId pl (Some it) v = (Inl e, ?w1)
               | Inr w2 \<Rightarrow>
                   updateItemReceiptLineRate w irId pl (Some it) v = (Inr irId,
                        w2 \<lparr> item_receipts := (item_receipts w2)
                               (irId \<mapsto> map (\<lambda>l. if ?m l then l \<lparr> rl_rate := v \<rparr> else l) ls) \<rparr>))
         else updateItemReceiptLineRate w irId pl (Some it) v =
              (Inl (Error (''No lines found with Item ID '' @ it @ '' on IR '' @ irId)), ?w1)"
    by (simp add: updateItemReceiptLineRate_def li update_lines_Some cnt js_string_def
        split: sum.splits)
  have b: "if list_ex ?n ols
         then (case save_accepted PURCHASE_ORDER poId ?w1 of
                 Inl e \<Rightarrow> markPOLineReviewed w poId (Some k) = (Inl e, ?w1)
               | Inr w2 \<Rightarrow>
                   markPOLineReviewed w poId (Some k) = (Inr poId,
                        w2 \<lparr> purchase_orders := (purchase_orders w2)
                               (poId \<mapsto> map (\<lambda>l. if ?n l then l \<lparr> ol_rate_variance_reviewed := True \<rparr> else l) ols) \<rparr>))
         else markPOLineReviewed w poId (Some k) =
              (Inl (Error (''No lines found with Line Key '' @ k @ '' on PO '' @ poId)), ?w1)"
    by (simp add: markPOLineReviewed_def lp mark_line_distinct[OF assms(4)] list_ex_iff
        js_string_def split: sum.splits)
  have c: "case fst (updateItemReceiptLineRate w irId pl (Some it) v) of
             Inl e \<Rightarrow> item_receipts (snd (updateItemReceiptLineRate w irId pl (Some it) v)) = item_receipts w
           | Inr i \<Rightarrow> True"
    using update_error_keeps_store[of w irId pl "Some it" v] by (simp split: sum.splits)
  have d: "case fst (markPOLineReviewed w poId (Some k)) of
             Inl e \<Rightarrow> purchase_orders (snd (markPOLineReviewed w poId (Some k))) = purchase_orders w
           | Inr i \<Rightarrow> True"
    using mark_error_keeps_store[of w poId "Some k"] by (simp split: sum.splits)
  from a b c d show ?thesis unfolding Let_def by blast
qed

theorem mutator_update_witness:
  "item_receipts (snd (updateItemReceiptLineRate ex_world ''201'' None (Some ''42'') (Fin 12))) ''201'' =
     Some [\<lparr> rl_item = ''42'', rl_rate = Fin 12 \<rparr>, \<lparr> rl_item = ''7'', rl_rate = Fin 3 \<rparr>,
           \<lparr> rl_item = ''42'', rl_rate = Fin 12 \<rparr>] \<and>
   fst (updateItemReceiptLineRate ex_world ''201'' None (Some ''99'') (Fin 12)) =
     Inl (Error ''No lines found with Item ID 99 on IR 201'') \<and>
   item_receipts (snd (updateItemReceiptLineRate ex_world ''201'' None (Some ''99'') (Fin 12))) =
     item_receipts ex_world \<and>
   purchase_orders (snd (markPOLineReviewed ex_world ''500'' (Some ''9501''))) ''500'' =
     Some [\<lparr> ol_lineuniquekey = ''9500'', ol_rate_variance_reviewed = False \<rparr>,
           \<lparr> ol_lineuniquekey = ''9501'', ol_rate_variance_reviewed = True \<rparr>]"
proof -
  let ?ls = "[\<lparr> rl_item = ''42'', rl_rate = Fin 10 \<rparr>, \<lparr> rl_item = ''7'', rl_rate = Fin 3 \<rparr>,
              \<lparr> rl_item = ''42'', rl_rate = Fin 11 \<rparr>]"
  let ?ols = "[\<lparr> ol_lineuniquekey = ''9500'', ol_rate_variance_reviewed = False \<rparr>,
               \<lparr> ol_lineuniquekey = ''9501'', ol_rate_variance_reviewed = False \<rparr>]"
  have h1: "item_receipts ex_world ''201'' = Some ?ls" by (simp add: ex_world_def)
  have h2: "purchase_orders ex_world ''500'' = Some ?ols" by (simp add: ex_world_def)
  have h3: "load_cost ex_world \<le> remaining_usage ex_world" by (simp add: ex_world_def)
  have h4: "distinct (map ol_lineuniquekey ?ols)" by simp
  have s1: "save_accepted ITEM_RECEIPT ''201'' (ex_world \<lparr> remaining_usage := remaining_usage ex_world - load_cost ex_world \<rparr>) =
      Inr (ex_world \<lparr> remaining_usage := 970 \<rparr>)"
    by (simp add: save_accepted_def charge_def ex_world_def)
  have s2: "save_accepted PURCHASE_ORDER ''500'' (ex_world \<lparr> remaining_usage := remaining_usage ex_world - load_cost ex_world \<rparr>) =
      Inr (ex_world \<lparr> remaining_usage := 970 \<rparr>)"
    by (simp add: save_accepted_def charge_def ex_world_def)
  note a = mutator_update[OF h1 h2 h3 h4, of "''42''" None "Fin 12" "''9501''", unfolded Let_def s1 s2]
  note b = mutator_update[OF h1 h2 h3 h4, of "''99''" None "Fin 12" "''9501''", unfolded Let_def s1 s2]
  from a have a1: "item_receipts (snd (updateItemReceiptLineRate ex_world ''201'' None (Some ''42'') (Fin 12))) ''201'' =
     Some [\<lparr> rl_item = ''42'', rl_rate = Fin 12 \<rparr>, \<lparr> rl_item = ''7'', rl_rate = Fin 3 \<rparr>,
           \<lparr> rl_item = ''42'', rl_rate = Fin 12 \<rparr>]"
    by simp
  from a have a2: "purchase_orders (snd (markPOLineReviewed ex_world ''500'' (Some ''9501''))) ''500'' =
     Some [\<lparr> ol_lineuniquekey = ''9500'', ol_rate_variance_reviewed = False \<rparr>,
           \<lparr> ol_lineuniquekey = ''9501'', ol_rate_variance_reviewed = True \<rparr>]"
    by simp
  from b have b1: "updateItemReceiptLineRate ex_world ''201'' None (Some ''99'') (Fin 12) =
     (Inl (Error ''No lines found with Item ID 99 on IR 201''),
      ex_world \<lparr> remaining_usage := remaining_usage ex_world - load_cost ex_world \<rparr>)"
    by simp
  show ?thesis by (simp add: a1 a2 b1)
qed

section \<open>Closed-Period Adjustment Procedure\<close>

text \<open>
  \<open>handleClosedPeriodAdjustment\<close> (\<open>part_000\<close> lines 233-522). The request parameters are
  strings, or \<open>undefined\<close> when absent; the result is the redirect and the world.
\<close>

record adjustment_request =
  rq_vb_id :: "string option"
  rq_item_id :: "string option"
  rq_vb_rate :: "string option"
  rq_ir_rate :: "string option"
  rq_vb_number :: "string option"
  rq_item_name :: "string option"

record adjustment_result =
  ar_vbNumber :: "string option"
  ar_jeNumber :: string
  ar_itemName :: "string option"
  ar_adjustmentAmount :: jsnum

text \<open>
  Step 2, lines 264-302: the first item line whose item matches gets the receipt's rate, and
  the loop stops. The result is the lines after the loop and, when a line was found, its
  department.
\<close>

fun set_item_rate :: "string option \<Rightarrow> jsnum \<Rightarrow> bill_item_line list \<Rightarrow> js_error + (bill_item_line list \<times> string option)" where
  "set_item_rate itemId irRate [] = Inr ([], None)"
| "set_item_rate itemId irRate (l # ls) =
     (if bi_item l \<noteq> []
      then (case itemId of
              None \<Rightarrow> Inl (TypeError ''Cannot read property toString of undefined'')
            | Some it \<Rightarrow>
               (if bi_item l = it
                then Inr (l \<lparr> bi_rate := irRate \<rparr> # ls, Some (bi_department l))
                else (case set_item_rate itemId irRate ls of
                        Inl e \<Rightarrow> Inl e
                      | Inr (ls', found) \<Rightarrow> Inr (l # ls', found))))
      else (case set_item_rate itemId irRate ls of
              Inl e \<Rightarrow> Inl e
            | Inr (ls', found) \<Rightarrow> Inr (l # ls', found)))"

text \<open>
  Steps 1-5 on the in-memory record: the edited bill, the adjustment amount and the
  department, or the error thrown. Nothing is saved here. The message of the total check
  carries the two totals printed by \<open>toFixed(2)\<close>; they are left out of the text.
\<close>

definition adjust_in_memory ::
  "world \<Rightarrow> adjustment_request \<Rightarrow> bill_doc \<Rightarrow> js_error + (bill_doc \<times> jsnum \<times> string)" where
  "adjust_in_memory w rq vbRecord =
     (let vbRate = parseFloat (rq_vb_rate rq);
          irRate = parseFloat (rq_ir_rate rq);
          originalTotal = bill_total w vbRecord
      in case set_item_rate (rq_item_id rq) irRate (bd_item vbRecord) of
           Inl e \<Rightarrow> Inl e
         | Inr (items', None) \<Rightarrow> Inl (Error ''Item not found on Vendor Bill'')
         | Inr (items', Some department) \<Rightarrow>
            (let adjustmentAmount = js_sub vbRate irRate;
                 memo = \<lparr> am_item_name = js_string (rq_item_name rq), am_item_id = rq_item_id rq,
                          am_vb_rate = vbRate, am_ir_rate = irRate, am_diff = adjustmentAmount \<rparr>;
                 edited = vbRecord \<lparr> bd_item := items',
                            bd_expense := bd_expense vbRecord @
                              [\<lparr> be_account = ''112'', be_amount = adjustmentAmount, be_memo = memo \<rparr>] \<rparr>;
                 newTotal = bill_total w edited
             in if js_gt (js_abs (js_sub newTotal originalTotal)) (js_lit (1/100))
                then Inl (Error ''VB total changed - adjustment cancelled'')
                else Inr (edited, adjustmentAmount, department)))"

text \<open>Step 7, lines 364-484: the journal entry; the sign of the amount decides the sides.\<close>

definition cogs_department :: "string \<Rightarrow> string" where
  "cogs_department department =
     (if department = ''13'' then ''13'' else if department = ''10'' then ''10'' else ''107'')"

definition make_journal_entry :: "world \<Rightarrow> adjustment_request \<Rightarrow> jsnum \<Rightarrow> string \<Rightarrow> journal_entry" where
  "make_journal_entry w rq adjustmentAmount department =
     \<lparr> je_trandate = today w,
       je_memo = ''Closed Period Adjustment for VB '' @ js_string (rq_vb_number rq) @ '' - Item: '' @
                 js_string (rq_item_name rq),
       je_line =
         (if js_gt adjustmentAmount (Fin 0)
          then [\<lparr> jl_account = ''112'', jl_debit = None, jl_credit = Some adjustmentAmount,
                  jl_memo = ''Offset accrued purchases - VB '' @ js_string (rq_vb_number rq),
                  jl_department = None \<rparr>,
                \<lparr> jl_account = ''353'', jl_debit = Some adjustmentAmount, jl_credit = None,
                  jl_memo = ''COGS adjustment for '' @ js_string (rq_item_name rq),
                  jl_department = Some (cogs_department department) \<rparr>]
          else [\<lparr> jl_account = ''112'', jl_debit = Some (js_abs adjustmentAmount), jl_credit = None,
                  jl_memo = ''Offset accrued purchases - VB '' @ js_string (rq_vb_number rq),
                  jl_department = None \<rparr>,
                \<lparr> jl_account = ''353'', jl_debit = None, jl_credit = Some (js_abs adjustmentAmount),
                  jl_memo = ''COGS adjustment for '' @ js_string (rq_item_name rq),
                  jl_department = Some (cogs_department department) \<rparr>]) \<rparr>"

text \<open>
  The body of the \<open>try\<close>: the world moves on with every successful platform call, so an
  error after the bill's save leaves the bill saved.
\<close>

definition adjustment_steps ::
  "world \<Rightarrow> adjustment_request \<Rightarrow> (js_error + adjustment_result) \<times> world" where
  "adjustment_steps w rq =
     (case rq_vb_id rq of
        None \<Rightarrow> (Inl (Error ''SSS_MISSING_REQD_ARGUMENT: id''), w)
      | Some vbId \<Rightarrow>
         (case record_load vendor_bills w vbId of
            Inl e \<Rightarrow> (Inl e, w)
          | Inr (vbRecord, w1) \<Rightarrow>
             (case adjust_in_memory w1 rq vbRecord of
                Inl e \<Rightarrow> (Inl e, w1)
              | Inr (edited, adjustmentAmount, department) \<Rightarrow>
                 (case save_accepted VENDOR_BILL vbId w1 of
                    Inl e \<Rightarrow> (Inl e, w1)
                  | Inr w2 \<Rightarrow>
                     (let w3 = w2 \<lparr> vendor_bills := (vendor_bills w2)(vbId \<mapsto> edited) \<rparr>;
                          jeRecord = make_journal_entry w3 rq adjustmentAmount department
                      in case save_accepted JOURNAL_ENTRY [] w3 of
                           Inl e \<Rightarrow> (Inl e, w3)
                         | Inr w4 \<Rightarrow>
                            (let jeId = length (journal_entries w4);
                                 w5 = w4 \<lparr> journal_entries := journal_entries w4 @ [jeRecord] \<rparr>
                             in case charge (load_cost w5) w5 of
                                  None \<Rightarrow> (Inl usage_error, w5)
                                | Some w6 \<Rightarrow>
                                   (Inr \<lparr> ar_vbNumber = rq_vb_number rq, ar_jeNumber = tranid_of w6 jeId,
                                          ar_itemName = rq_item_name rq,
                                          ar_adjustmentAmount = adjustmentAmount \<rparr>, w6)))))))"

text \<open>The redirects of the Suitelets.\<close>

record ('e, 'u) continuation =
  c_selected_variances :: string
  c_batch_index :: nat
  c_success_count :: nat
  c_error_count :: nat
  c_previous_errors :: "'e list"
  c_previous_updated :: "'u list"

record ('e, 'u) completion =
  f_successCount :: nat
  f_errorCount :: nat
  f_errors :: "'e list option"
  f_updatedRecords :: "'u list"

datatype ('e, 'u) response =
    Continue "('e, 'u) continuation"
  | Complete "('e, 'u) completion"
  | Failed string
  | Adjusted adjustment_result

definition handleClosedPeriodAdjustment ::
  "world \<Rightarrow> adjustment_request \<Rightarrow> ('e, 'u) response \<times> world" where
  "handleClosedPeriodAdjustment w rq =
     (case adjustment_steps w rq of
        (Inr done, w') \<Rightarrow> (Adjusted done, w')
      | (Inl e, w') \<Rightarrow> (Failed (''Adjustment failed: '' @ message e), w'))"

section \<open>Closed-Period Adjustment: the total check\<close>

text \<open>A request for bill 301: item 42, bill rate 100.02, receipt rate 100.00.\<close>

definition ex_adjustment :: adjustment_request where
  "ex_adjustment = \<lparr> rq_vb_id = Some ''301'', rq_item_id = Some ''42'',
      rq_vb_rate = Some ''100.02'', rq_ir_rate = Some ''100.00'',
      rq_vb_number = Some ''VB301'', rq_item_name = Some ''Widget'' \<rparr>"

text \<open>
  C1. With the bill loaded, its item line found and overwritten and the expense line
  appended, a re-read total that differs from the total read at load by more than \<open>0.01\<close>
  aborts the procedure: the redirect is the error, and neither the bill nor a journal entry
  is saved; the world differs from the one before in the usage the load has cost only.
\<close>

theorem total_check_aborts:
  assumes "rq_vb_id rq = Some vbId" and "vendor_bills w vbId = Some vbRecord"
    and "load_cost w \<le> remaining_usage w"
    and "set_item_rate (rq_item_id rq) (parseFloat (rq_ir_rate rq)) (bd_item vbRecord) =
           Inr (items', Some department)"
    and "edited = vbRecord \<lparr> bd_item := items',
           bd_expense := bd_expense vbRecord @
             [\<lparr> be_account = ''112'',
                be_amount = js_sub (parseFloat (rq_vb_rate rq)) (parseFloat (rq_ir_rate rq)),
                be_memo = \<lparr> am_item_name = js_string (rq_item_name rq), am_item_id = rq_item_id rq,
                            am_vb_rate = parseFloat (rq_vb_rate rq),
                            am_ir_rate = parseFloat (rq_ir_rate rq),
                            am_diff = js_sub (parseFloat (rq_vb_rate rq)) (parseFloat (rq_ir_rate rq)) \<rparr> \<rparr>] \<rparr>"
    and "js_gt (js_abs (js_sub (bill_total w edited) (bill_total w vbRecord))) (js_lit (1/100))"
  shows "(handleClosedPeriodAdjustment w rq :: ('e, 'u) response \<times> world) =
           (Failed ''Adjustment failed: VB total changed - adjustment cancelled'',
            w \<lparr> remaining_usage := remaining_usage w - load_cost w \<rparr>) \<and>
         vendor_bills (snd (handleClosedPeriodAdjustment w rq :: ('e, 'u) response \<times> world)) = vendor_bills w \<and>
         journal_entries (snd (handleClosedPeriodAdjustment w rq :: ('e, 'u) response \<times> world)) = journal_entries w"
proof -
  let ?w1 = "w \<lparr> remaining_usage := remaining_usage w - load_cost w \<rparr>"
  have l: "record_load vendor_bills w vbId = Inr (vbRecord, ?w1)"
    using assms(2,3) by (simp add: record_load_def charge_def)
  have m: "adjust_in_memory ?w1 rq vbRecord = Inl (Error ''VB total changed - adjustment cancelled'')"
    using assms(4) assms(6)[unfolded assms(5)] by (simp add: adjust_in_memory_def Let_def)
  have "adjustment_steps w rq = (Inl (Error ''VB total changed - adjustment cancelled''), ?w1)"
    by (simp add: adjustment_steps_def assms(1) l m)
  then have "(handleClosedPeriodAdjustment w rq :: ('e, 'u) response \<times> world) =
           (Failed ''Adjustment failed: VB total changed - adjustment cancelled'', ?w1)"
    by (simp add: handleClosedPeriodAdjustment_def)
  then show ?thesis by simp
qed

text \<open>
  The bill holds the item at the double \<open>100.02\<close>, quantity 2: the total read at load is
  \<open>200.04\<close>; after the edit the total is \<open>200 + 0.01999999999999602\<close>, which differs
  from it by more than \<open>0.01\<close>.
\<close>

theorem total_check_aborts_witness:
  "bill_total ex_world
     \<lparr> bd_item = [\<lparr> bi_item = ''42'', bi_rate = js_lit (10002/100), bi_department = ''13'' \<rparr>],
       bd_expense = [] \<rparr> = js_lit (20004/100) \<and>
   fst (handleClosedPeriodAdjustment ex_world ex_adjustment :: (unit, unit) response \<times> world) =
     Failed ''Adjustment failed: VB total changed - adjustment cancelled'' \<and>
   vendor_bills (snd (handleClosedPeriodAdjustment ex_world ex_adjustment :: (unit, unit) response \<times> world)) =
     vendor_bills ex_world \<and>
   journal_entries (snd (handleClosedPeriodAdjustment ex_world ex_adjustment :: (unit, unit) response \<times> world)) = []"
proof -
  let ?r = "Fin (7038281792649953 / 70368744177664)"
  let ?d = "Fin (1407374883553 / 70368744177664)"
  let ?doc = "\<lparr> bd_item = [\<lparr> bi_item = ''42'', bi_rate = ?r, bi_department = ''13'' \<rparr>],
                bd_expense = [] \<rparr>"
  let ?memo = "\<lparr> am_item_name = ''Widget'', am_item_id = Some ''42'', am_vb_rate = ?r,
                 am_ir_rate = Fin 100, am_diff = ?d \<rparr>"
  let ?edited = "\<lparr> bd_item = [\<lparr> bi_item = ''42'', bi_rate = Fin 100, bi_department = ''13'' \<rparr>],
                   bd_expense = [\<lparr> be_account = ''112'', be_amount = ?d, be_memo = ?memo \<rparr>] \<rparr>"
  have p: "parseFloat (rq_vb_rate ex_adjustment) = ?r"
    "parseFloat (rq_ir_rate ex_adjustment) = Fin 100"
    by (simp_all add: ex_adjustment_def parse_defs double_eval)
  have d: "js_sub ?r (Fin 100) = ?d" by (simp add: js_sub_def double_eval)
  have h1: "rq_vb_id ex_adjustment = Some ''301''" by (simp add: ex_adjustment_def)
  have h2: "vendor_bills ex_world ''301'' = Some ?doc" by (simp add: ex_world_def js_lit_def double_eval)
  have h3: "load_cost ex_world \<le> remaining_usage ex_world" by (simp add: ex_world_def)
  have h4: "set_item_rate (rq_item_id ex_adjustment) (parseFloat (rq_ir_rate ex_adjustment)) (bd_item ?doc) =
      Inr ([\<lparr> bi_item = ''42'', bi_rate = Fin 100, bi_department = ''13'' \<rparr>], Some ''13'')"
    unfolding p by (simp add: ex_adjustment_def)
  have h5: "?edited = ?doc \<lparr> bd_item := [\<lparr> bi_item = ''42'', bi_rate = Fin 100, bi_department = ''13'' \<rparr>],
           bd_expense := bd_expense ?doc @
             [\<lparr> be_account = ''112'',
                be_amount = js_sub (parseFloat (rq_vb_rate ex_adjustment)) (parseFloat (rq_ir_rate ex_adjustment)),
                be_memo = \<lparr> am_item_name = js_string (rq_item_name ex_adjustment),
                            am_item_id = rq_item_id ex_adjustment,
                            am_vb_rate = parseFloat (rq_vb_rate ex_adjustment),
                            am_ir_rate = parseFloat (rq_ir_rate ex_adjustment),
                            am_diff = js_sub (parseFloat (rq_vb_rate ex_adjustment)) (parseFloat (rq_ir_rate ex_adjustment)) \<rparr> \<rparr>] \<rparr>"
    unfolding p d by (simp add: ex_adjustment_def js_string_def)
  have bt: "bill_total ex_world = ex_total" by (simp add: ex_world_def)
  have t0: "bill_total ex_world ?doc = Fin (7038281792649953 / 35184372088832)"
    unfolding bt by (simp add: ex_total_def double_eval)
  have t1: "bill_total ex_world ?edited = Fin (439848631575511 / 2199023255552)"
    unfolding bt by (simp add: ex_total_def double_eval)
  have h6: "js_gt (js_abs (js_sub (bill_total ex_world ?edited) (bill_total ex_world ?doc))) (js_lit (1/100))"
    unfolding t0 t1 by (simp add: js_sub_def double_eval js_lit_cent)
  note t = total_check_aborts[OF h1 h2 h3 h4 h5 h6, where 'e = unit and 'u = unit]
  have j: "journal_entries ex_world = []" by (simp add: ex_world_def)
  have t0': "bill_total ex_world
     \<lparr> bd_item = [\<lparr> bi_item = ''42'', bi_rate = js_lit (10002/100), bi_department = ''13'' \<rparr>],
       bd_expense = [] \<rparr> = js_lit (20004/100)"
    unfolding bt by (simp add: ex_total_def js_lit_def double_eval)
  from t j t0' show ?thesis by simp
qed

section \<open>Batch Reconciliation Driver\<close>

text \<open>
  The two \<open>handlePost\<close> functions (\<open>part_000\<close> lines 72-226, batch size 5;
  \<open>vendor_bill_variance_po_vb_suitelet.js\<close> lines 72-243, batch size 10) have the same body
  around the call that mutates one document; that body is \<open>run_batch\<close>, with the batch size
  and the per-item \<open>try\<close>/\<open>catch\<close> as arguments. The continuation fields of a request are
  the numbers and lists that \<open>parseInt\<close> and \<open>JSON.parse\<close> read; an absent field reads as
  \<open>0\<close> or \<open>[]\<close>, and an absent or empty \<open>selected_variances\<close> is the empty string.
\<close>

record ('e, 'u) batch_request =
  selected_variances :: string
  batch_index :: nat
  success_count :: nat
  error_count :: nat
  previous_errors :: "'e list"
  previous_updated :: "'u list"

text \<open>\<open>xs.slice(start, end)\<close> for non-negative indices.\<close>

definition js_slice :: "'a list \<Rightarrow> nat \<Rightarrow> nat \<Rightarrow> 'a list" where
  "js_slice xs start final =
     (let k = min start (length xs); e = min final (length xs) in take (e - k) (drop k xs))"

record ('e, 'u) tally =
  t_successCount :: nat
  t_errorCount :: nat
  t_errors :: "'e list"
  t_updatedRecords :: "'u list"

text \<open>
  One call of the \<open>forEach\<close> callback: \<open>process\<close> is the \<open>try\<close> block up to the mutation
  and gives the record pushed on \<open>updatedRecords\<close> (\<open>Inr\<close>) or, from the \<open>catch\<close>, the record
  pushed on \<open>errors\<close> (\<open>Inl\<close>).
\<close>

definition tally_item ::
  "(world \<Rightarrow> string \<Rightarrow> ('e + 'u) \<times> world) \<Rightarrow> world \<times> ('e, 'u) tally \<Rightarrow> string \<Rightarrow> world \<times> ('e, 'u) tally" where
  "tally_item process st update =
     (case process (fst st) update of
        (Inr u, w') \<Rightarrow>
          (w', (snd st) \<lparr> t_successCount := t_successCount (snd st) + 1,
                          t_updatedRecords := t_updatedRecords (snd st) @ [u] \<rparr>)
      | (Inl e, w') \<Rightarrow>
          (w', (snd st) \<lparr> t_errorCount := t_errorCount (snd st) + 1,
                          t_errors := t_errors (snd st) @ [e] \<rparr>))"

definition forEach_update ::
  "(world \<Rightarrow> string \<Rightarrow> ('e + 'u) \<times> world) \<Rightarrow> world \<Rightarrow> string list \<Rightarrow> world \<times> ('e, 'u) tally" where
  "forEach_update process w currentBatch =
     foldl (tally_item process)
       (w, \<lparr> t_successCount = 0, t_errorCount = 0, t_errors = [], t_updatedRecords = [] \<rparr>)
       currentBatch"

definition run_batch ::
  "nat \<Rightarrow> (world \<Rightarrow> string \<Rightarrow> ('e + 'u) \<times> world) \<Rightarrow> world \<Rightarrow> ('e, 'u) batch_request \<Rightarrow>
   ('e, 'u) response \<times> world" where
  "run_batch batchSize process w rq =
     (let allUpdates = split_on CHR '','' (selected_variances rq);
          startIndex = batch_index rq * batchSize;
          endIndex = min (startIndex + batchSize) (length allUpdates);
          currentBatch = js_slice allUpdates startIndex endIndex;
          (w', t) = forEach_update process w currentBatch;
          totalSuccessCount = success_count rq + t_successCount t;
          totalErrorCount = error_count rq + t_errorCount t;
          allErrors = previous_errors rq @ t_errors t;
          allUpdated = previous_updated rq @ t_updatedRecords t
      in if endIndex < length allUpdates
         then (Continue \<lparr> c_selected_variances = selected_variances rq,
                          c_batch_index = batch_index rq + 1,
                          c_success_count = totalSuccessCount,
                          c_error_count = totalErrorCount,
                          c_previous_errors = allErrors,
                          c_previous_updated = allUpdated \<rparr>, w')
         else (Complete \<lparr> f_successCount = totalSuccessCount,
                          f_errorCount = totalErrorCount,
                          f_errors = (if 0 < totalErrorCount then Some allErrors else None),
                          f_updatedRecords = allUpdated \<rparr>, w'))"

subsection \<open>Rate correction (\<open>part_000\<close>)\<close>

record ir_error =
  e_irId :: string
  e_irNumber :: string
  e_itemName :: string
  e_error :: string

record ir_updated =
  u_irNumber :: "string option"
  u_itemName :: "string option"
  u_newRate :: "string option"

definition simplify_ir_error :: "string \<Rightarrow> string" where
  "simplify_ir_error errorMessage =
     (if contains errorMessage ''closed period'' then ''Period is closed - cannot modify GL impact''
      else if contains errorMessage ''No lines found'' then ''Item not found on Item Receipt''
      else if contains errorMessage ''governance'' \<or> contains errorMessage ''Usage Limit''
           then ''Script usage limit exceeded''
      else errorMessage)"

text \<open>\<open>parts[0]\<close> of a split: a split has at least one part.\<close>

definition first_part :: "string list \<Rightarrow> string" where
  "first_part parts = (case parts of [] \<Rightarrow> [] | p # ps \<Rightarrow> p)"

definition process_ir_update :: "world \<Rightarrow> string \<Rightarrow> (ir_error + ir_updated) \<times> world" where
  "process_ir_update w update =
     (let parts = split_on CHR ''|'' update;
          irId = first_part parts;
          poLineId = nth_opt parts 1;
          newRate = nth_opt parts 2;
          irNumber = nth_opt parts 3;
          itemName = nth_opt parts 4;
          itemId = nth_opt parts 5
      in case updateItemReceiptLineRate w irId poLineId itemId (parseFloat newRate) of
           (Inr savedId, w') \<Rightarrow>
             (Inr \<lparr> u_irNumber = irNumber, u_itemName = itemName, u_newRate = newRate \<rparr>, w')
         | (Inl e, w') \<Rightarrow>
             (Inl \<lparr> e_irId = irId, e_irNumber = or_else irNumber ''Unknown'',
                    e_itemName = or_else itemName ''Unknown'',
                    e_error = simplify_ir_error (message e) \<rparr>, w'))"

record suitelet_request =
  sq_action :: "string option"
  sq_adjustment :: adjustment_request
  sq_batch :: "(ir_error, ir_updated) batch_request"

definition handlePost :: "world \<Rightarrow> suitelet_request \<Rightarrow> (ir_error, ir_updated) response \<times> world" where
  "handlePost w request =
     (if sq_action request = Some ''closed_period_adjustment''
      then handleClosedPeriodAdjustment w (sq_adjustment request)
      else if selected_variances (sq_batch request) = []
      then (Failed ''No variances selected'', w)
      else run_batch 5 process_ir_update w (sq_batch request))"

subsection \<open>Mark reviewed (\<open>vendor_bill_variance_po_vb_suitelet.js\<close>)\<close>

record po_error =
  pe_poId :: string
  pe_poNumber :: string
  pe_itemName :: string
  pe_error :: string

record po_updated =
  pu_poNumber :: "string option"
  pu_itemName :: "string option"

definition simplify_po_error :: "string \<Rightarrow> string" where
  "simplify_po_error errorMessage =
     (if contains errorMessage ''closed period'' then ''Period is closed - cannot modify transaction''
      else if contains errorMessage ''No lines found'' then ''Line not found on Purchase Order''
      else if contains errorMessage ''governance'' \<or> contains errorMessage ''Usage Limit''
           then ''Script usage limit exceeded''
      else errorMessage)"

definition process_po_review :: "world \<Rightarrow> string \<Rightarrow> (po_error + po_updated) \<times> world" where
  "process_po_review w update =
     (let parts = split_on CHR ''|'' update;
          poId = first_part parts;
          poLineKey = nth_opt parts 1;
          poNumber = nth_opt parts 2;
          itemName = nth_opt parts 3
      in case markPOLineReviewed w poId poLineKey of
           (Inr savedId, w') \<Rightarrow> (Inr \<lparr> pu_poNumber = poNumber, pu_itemName = itemName \<rparr>, w')
         | (Inl e, w') \<Rightarrow>
             (Inl \<lparr> pe_poId = poId, pe_poNumber = or_else poNumber ''Unknown'',
                    pe_itemName = or_else itemName ''Unknown'',
                    pe_error = simplify_po_error (message e) \<rparr>, w'))"

text \<open>
  The filter and the threshold overrides travel with every redirect of this variant: the
  filter defaults to \<open>'all'\<close>, and a threshold is passed on when it is present and not empty.
\<close>

record review_request =
  pq_batch :: "(po_error, po_updated) batch_request"
  pq_location_filter :: "string option"
  pq_service_threshold :: "string option"
  pq_kitchen_threshold :: "string option"
  pq_appliances_threshold :: "string option"

record preserved_parameters =
  pv_location_filter :: string
  pv_service_threshold :: "string option"
  pv_kitchen_threshold :: "string option"
  pv_appliances_threshold :: "string option"

definition if_present :: "string option \<Rightarrow> string option" where
  "if_present x = (case x of None \<Rightarrow> None | Some s \<Rightarrow> (if s = [] then None else Some s))"

definition handlePost_po ::
  "world \<Rightarrow> review_request \<Rightarrow> ((po_error, po_updated) response \<times> preserved_parameters) \<times> world" where
  "handlePost_po w request =
     (let preserved = \<lparr> pv_location_filter = or_else (pq_location_filter request) ''all'',
                        pv_service_threshold = if_present (pq_service_threshold request),
                        pv_kitchen_threshold = if_present (pq_kitchen_threshold request),
                        pv_appliances_threshold = if_present (pq_appliances_threshold request) \<rparr>
      in if selected_variances (pq_batch request) = []
         then ((Failed ''No variances selected'', preserved), w)
         else (case run_batch 10 process_po_review w (pq_batch request) of
                 (r, w') \<Rightarrow> ((r, preserved), w')))"

subsection \<open>Rounds\<close>

text \<open>
  The page of a continuation redirect posts its fields back unchanged (\<open>buildPageHTML\<close>, the
  hidden form \<open>continueForm\<close>). Round \<open>i\<close> of a selection is the \<open>handlePost\<close> of the request
  echoed from round \<open>i - 1\<close>; after a redirect that is not a continuation there is no further
  round, and the last result stands.
\<close>

definition echo :: "('e, 'u) continuation \<Rightarrow> ('e, 'u) batch_request" where
  "echo c = \<lparr> selected_variances = c_selected_variances c, batch_index = c_batch_index c,
              success_count = c_success_count c, error_count = c_error_count c,
              previous_errors = c_previous_errors c, previous_updated = c_previous_updated c \<rparr>"

definition first_submission :: "string \<Rightarrow> ('e, 'u) batch_request" where
  "first_submission selected =
     \<lparr> selected_variances = selected, batch_index = 0, success_count = 0, error_count = 0,
       previous_errors = [], previous_updated = [] \<rparr>"

definition no_adjustment :: adjustment_request where
  "no_adjustment = \<lparr> rq_vb_id = None, rq_item_id = None, rq_vb_rate = None, rq_ir_rate = None,
      rq_vb_number = None, rq_item_name = None \<rparr>"

definition batch_post :: "(ir_error, ir_updated) batch_request \<Rightarrow> suitelet_request" where
  "batch_post b = \<lparr> sq_action = None, sq_adjustment = no_adjustment, sq_batch = b \<rparr>"

fun ir_round :: "world \<Rightarrow> string \<Rightarrow> nat \<Rightarrow> (ir_error, ir_updated) response \<times> world" where
  "ir_round w selected 0 = handlePost w (batch_post (first_submission selected))"
| "ir_round w selected (Suc i) =
     (case ir_round w selected i of
        (Continue c, w') \<Rightarrow> handlePost w' (batch_post (echo c))
      | (r, w') \<Rightarrow> (r, w'))"

definition review_post :: "string option \<Rightarrow> (po_error, po_updated) batch_request \<Rightarrow> review_request" where
  "review_post locationFilter b =
     \<lparr> pq_batch = b, pq_location_filter = locationFilter, pq_service_threshold = None,
       pq_kitchen_threshold = None, pq_appliances_threshold = None \<rparr>"

fun po_round ::
  "world \<Rightarrow> string \<Rightarrow> nat \<Rightarrow> ((po_error, po_updated) response \<times> preserved_parameters) \<times> world" where
  "po_round w selected 0 = handlePost_po w (review_post None (first_submission selected))"
| "po_round w selected (Suc i) =
     (case po_round w selected i of
        ((Continue c, preserved), w') \<Rightarrow>
           handlePost_po w' (review_post (Some (pv_location_filter preserved)) (echo c))
      | (r, w') \<Rightarrow> (r, w'))"

section \<open>Batch windows\<close>

text \<open>
  The specification's window of round \<open>i\<close>, the items at the indices \<open>[i*b, min((i+1)*b, n))\<close>,
  and its reading of processing a list of items: the per-item steps run one after the other,
  each on the world the step before has left, and every item gives its outcome, an error
  record (\<open>Inl\<close>) or an updated record (\<open>Inr\<close>).
\<close>

definition window :: "nat \<Rightarrow> nat \<Rightarrow> 'a list \<Rightarrow> 'a list" where
  "window i b xs = map (nth xs) [i * b ..< min ((i + 1) * b) (length xs)]"

fun run_items ::
  "(world \<Rightarrow> string \<Rightarrow> ('e + 'u) \<times> world) \<Rightarrow> world \<Rightarrow> string list \<Rightarrow> ('e + 'u) list \<times> world" where
  "run_items process w [] = ([], w)"
| "run_items process w (x # xs) =
     (case process w x of
        (r, w1) \<Rightarrow> (case run_items process w1 xs of (rs, w2) \<Rightarrow> (r # rs, w2)))"

text \<open>The error records and the updated records among the outcomes, in order.\<close>

definition errors_of :: "('e + 'u) list \<Rightarrow> 'e list" where
  "errors_of rs = map projl (filter isl rs)"

definition updated_of :: "('e + 'u) list \<Rightarrow> 'u list" where
  "updated_of rs = map projr (filter (\<lambda>r. \<not> isl r) rs)"

lemma take_drop_nth:
  assumes "e \<le> length xs"
  shows "take (e - k) (drop k xs) = map (nth xs) [k..<e]"
proof (cases "k \<le> e")
  case True
  have "drop k xs = map (nth xs) [k..<length xs]"
    by (metis drop_map drop_upt add_0 map_nth)
  then have "take (e - k) (drop k xs) = map (nth xs) (take (e - k) [k..<length xs])"
    by (simp add: take_map)
  also have "take (e - k) [k..<length xs] = [k..<e]"
    using True assms by simp
  finally show ?thesis .
next
  case False
  then show ?thesis by simp
qed

lemma js_slice_window:
  "js_slice xs (i * b) (min (i * b + b) (length xs)) = window i b xs"
proof (cases "i * b \<le> length xs")
  case True
  have e: "(i + 1) * b = i * b + b" by simp
  from True have k: "min (i * b) (length xs) = i * b" by simp
  show ?thesis
    unfolding js_slice_def window_def Let_def e k
    by (simp add: take_drop_nth)
next
  case False
  then show ?thesis by (simp add: js_slice_def window_def)
qed

lemma length_window: "length (window i b xs) = min ((i + 1) * b) (length xs) - i * b"
  by (simp add: window_def)

lemma length_run_items: "length (fst (run_items p w xs)) = length xs"
proof (induction xs arbitrary: w)
  case Nil
  show ?case by simp
next
  case (Cons x xs)
  obtain r w1 where p: "p w x = (r, w1)" by (cases "p w x")
  obtain rs w2 where rs: "run_items p w1 xs = (rs, w2)" by (cases "run_items p w1 xs")
  from Cons[of w1] rs have "length rs = length xs" by simp
  then show ?case using p rs by simp
qed

lemma length_outcomes: "length (errors_of rs) + length (updated_of rs) = length rs"
  by (induction rs) (simp_all add: errors_of_def updated_of_def)

text \<open>The loop of the callback over a batch gives the tallies of the outcomes of its items.\<close>

lemma foldl_tally_run_items:
  "foldl (tally_item p)
     (w, \<lparr> t_successCount = s, t_errorCount = e, t_errors = es, t_updatedRecords = us \<rparr>) xs =
   (snd (run_items p w xs),
    \<lparr> t_successCount = s + length (updated_of (fst (run_items p w xs))),
      t_errorCount = e + length (errors_of (fst (run_items p w xs))),
      t_errors = es @ errors_of (fst (run_items p w xs)),
      t_updatedRecords = us @ updated_of (fst (run_items p w xs)) \<rparr>)"
proof (induction xs arbitrary: w s e es us)
  case Nil
  show ?case by (simp add: errors_of_def updated_of_def)
next
  case (Cons x xs)
  obtain r w1 where p: "p w x = (r, w1)" by (cases "p w x")
  obtain rs w2 where rs: "run_items p w1 xs = (rs, w2)" by (cases "run_items p w1 xs")
  show ?case
  proof (cases r)
    case (Inl err)
    then show ?thesis
      using Cons[of w1 s "e + 1" "es @ [err]" us] p rs
      by (simp add: tally_item_def errors_of_def updated_of_def)
  next
    case (Inr u)
    then show ?thesis
      using Cons[of w1 "s + 1" e es "us @ [u]"] p rs
      by (simp add: tally_item_def errors_of_def updated_of_def)
  qed
qed

lemma forEach_update_run_items:
  "forEach_update p w xs =
   (snd (run_items p w xs),
    \<lparr> t_successCount = length (updated_of (fst (run_items p w xs))),
      t_errorCount = length (errors_of (fst (run_items p w xs))),
      t_errors = errors_of (fst (run_items p w xs)),
      t_updatedRecords = updated_of (fst (run_items p w xs)) \<rparr>)"
  by (simp add: forEach_update_def foldl_tally_run_items)

lemma run_batch_window:
  "run_batch b p w rq =
     (let allUpdates = split_on CHR '','' (selected_variances rq);
          rs = fst (run_items p w (window (batch_index rq) b allUpdates))
      in (if min ((batch_index rq + 1) * b) (length allUpdates) < length allUpdates
          then Continue \<lparr> c_selected_variances = selected_variances rq,
                           c_batch_index = batch_index rq + 1,
                           c_success_count = success_count rq + length (updated_of rs),
                           c_error_count = error_count rq + length (errors_of rs),
                           c_previous_errors = previous_errors rq @ errors_of rs,
                           c_previous_updated = previous_updated rq @ updated_of rs \<rparr>
          else Complete \<lparr> f_successCount = success_count rq + length (updated_of rs),
                           f_errorCount = error_count rq + length (errors_of rs),
                           f_errors = (if 0 < error_count rq + length (errors_of rs)
                                       then Some (previous_errors rq @ errors_of rs) else None),
                           f_updatedRecords = previous_updated rq @ updated_of rs \<rparr>,
          snd (run_items p w (window (batch_index rq) b allUpdates))))"
proof -
  let ?all = "split_on CHR '','' (selected_variances rq)"
  have s: "js_slice ?all (batch_index rq * b) (min (batch_index rq * b + b) (length ?all)) =
      window (batch_index rq) b ?all"
    by (rule js_slice_window)
  have e: "(batch_index rq + 1) * b = batch_index rq * b + b" by simp
  show ?thesis
    unfolding run_batch_def Let_def s e forEach_update_run_items by simp
qed

text \<open>
  C5. Round \<open>i\<close> runs the per-item step over exactly the items of the window
  \<open>[i*size, min((i+1)*size, n))\<close> of the selection, in order, each item on the world the item
  before has left, with size 5 for the rate correction and 10 for the review mark. It redirects
  to a continuation that carries the selection, the next batch index and the cumulative counts
  and records exactly when the window's end is below \<open>n\<close>, and to the final summary otherwise;
  the world after the round is the world after the last item of the window.
\<close>

theorem batch_window:
  assumes "sq_action rq \<noteq> Some ''closed_period_adjustment''"
    and "selected_variances (sq_batch rq) \<noteq> []"
    and "selected_variances (pq_batch prq) \<noteq> []"
  shows
   "handlePost w rq =
      (let b = sq_batch rq;
           allUpdates = split_on CHR '','' (selected_variances b);
           rs = fst (run_items process_ir_update w (window (batch_index b) 5 allUpdates))
       in (if min ((batch_index b + 1) * 5) (length allUpdates) < length allUpdates
           then Continue \<lparr> c_selected_variances = selected_variances b,
                            c_batch_index = batch_index b + 1,
                            c_success_count = success_count b + length (updated_of rs),
                            c_error_count = error_count b + length (errors_of rs),
                            c_previous_errors = previous_errors b @ errors_of rs,
                            c_previous_updated = previous_updated b @ updated_of rs \<rparr>
           else Complete \<lparr> f_successCount = success_count b + length (updated_of rs),
                            f_errorCount = error_count b + length (errors_of rs),
                            f_errors = (if 0 < error_count b + length (errors_of rs)
                                        then Some (previous_errors b @ errors_of rs) else None),
                            f_updatedRecords = previous_updated b @ updated_of rs \<rparr>,
           snd (run_items process_ir_update w (window (batch_index b) 5 allUpdates)))) \<and>
    handlePost_po w prq =
      (let b = pq_batch prq;
           allUpdates = split_on CHR '','' (selected_variances b);
           rs = fst (run_items process_po_review w (window (batch_index b) 10 allUpdates))
       in (((if min ((batch_index b + 1) * 10) (length allUpdates) < length allUpdates
             then Continue \<lparr> c_selected_variances = selected_variances b,
                              c_batch_index = batch_index b + 1,
                              c_success_count = success_count b + length (updated_of rs),
                              c_error_count = error_count b + length (errors_of rs),
                              c_previous_errors = previous_errors b @ errors_of rs,
                              c_previous_updated = previous_updated b @ updated_of rs \<rparr>
             else Complete \<lparr> f_successCount = success_count b + length (updated_of rs),
                              f_errorCount = error_count b + length (errors_of rs),
                              f_errors = (if 0 < error_count b + length (errors_of rs)
                                          then Some (previous_errors b @ errors_of rs) else None),
                              f_updatedRecords = previous_updated b @ updated_of rs \<rparr>),
            \<lparr> pv_location_filter = or_else (pq_location_filter prq) ''all'',
              pv_service_threshold = if_present (pq_service_threshold prq),
              pv_kitchen_threshold = if_present (pq_kitchen_threshold prq),
              pv_appliances_threshold = if_present (pq_appliances_threshold prq) \<rparr>),
           snd (run_items process_po_review w (window (batch_index b) 10 allUpdates)))) \<and>
    length (fst (run_items process_ir_update w (window (batch_index (sq_batch rq)) 5
              (split_on CHR '','' (selected_variances (sq_batch rq)))))) =
      min ((batch_index (sq_batch rq) + 1) * 5) (length (split_on CHR '','' (selected_variances (sq_batch rq)))) -
        batch_index (sq_batch rq) * 5"
  using assms
  by (simp add: handlePost_def handlePost_po_def run_batch_window Let_def length_run_items
      length_window)

section \<open>Example selections\<close>

text \<open>Twelve selected lines, receipts 201 to 212, of which the example world holds 201 and 202.\<close>

definition ex_selection :: string where
  "ex_selection =
     ''201|9|12.00|IR201|Widget|42,''
     @ ''202|9|12.00|IR202|Widget|42,''
     @ ''203|9|12.00|IR203|Widget|42,''
     @ ''204|9|12.00|IR204|Widget|42,''
     @ ''205|9|12.00|IR205|Widget|42,''
     @ ''206|9|12.00|IR206|Widget|42,''
     @ ''207|9|12.00|IR207|Widget|42,''
     @ ''208|9|12.00|IR208|Widget|42,''
     @ ''209|9|12.00|IR209|Widget|42,''
     @ ''210|9|12.00|IR210|Widget|42,''
     @ ''211|9|12.00|IR211|Widget|42,''
     @ ''212|9|12.00|IR212|Widget|42''"

definition ex_items :: "string list" where
  "ex_items =
     [''201|9|12.00|IR201|Widget|42'',
      ''202|9|12.00|IR202|Widget|42'',
      ''203|9|12.00|IR203|Widget|42'',
      ''204|9|12.00|IR204|Widget|42'',
      ''205|9|12.00|IR205|Widget|42'',
      ''206|9|12.00|IR206|Widget|42'',
      ''207|9|12.00|IR207|Widget|42'',
      ''208|9|12.00|IR208|Widget|42'',
      ''209|9|12.00|IR209|Widget|42'',
      ''210|9|12.00|IR210|Widget|42'',
      ''211|9|12.00|IR211|Widget|42'',
      ''212|9|12.00|IR212|Widget|42'']"

text \<open>
  The example world after the first item (receipt 201 saved with item 42 at 12 on both of its
  lines, a load and a save paid) and after the first window (one more load paid, for
  receipt 202, whose save is rejected).
\<close>

definition ex_world_201 :: world where
  "ex_world_201 =
     ex_world \<lparr> item_receipts := (item_receipts ex_world)
                  (''201'' \<mapsto> [\<lparr> rl_item = ''42'', rl_rate = Fin 12 \<rparr>,
                                \<lparr> rl_item = ''7'', rl_rate = Fin 3 \<rparr>,
                                \<lparr> rl_item = ''42'', rl_rate = Fin 12 \<rparr>]),
                remaining_usage := 970 \<rparr>"

definition ex_world_round0 :: world where
  "ex_world_round0 = ex_world_201 \<lparr> remaining_usage := 960 \<rparr>"

definition ex_missing :: "string \<Rightarrow> ir_error" where
  "ex_missing n = \<lparr> e_irId = n, e_irNumber = ''IR'' @ n, e_itemName = ''Widget'',
                    e_error = ''RCRD_DSNT_EXIST: That record does not exist.'' \<rparr>"

text \<open>
  Three selected PO lines of purchase order 500: its two lines, and a line key it does not
  hold; and the example world after the three (two loads with their saves and one more load
  paid).
\<close>

definition ex_review_selection :: string where
  "ex_review_selection = ''500|9500|PO500|Widget,500|9501|PO500|Gadget,500|9999|PO500|Gizmo''"

definition ex_world_reviewed :: world where
  "ex_world_reviewed =
     ex_world \<lparr> purchase_orders := (purchase_orders ex_world)
                  (''500'' \<mapsto> [\<lparr> ol_lineuniquekey = ''9500'', ol_rate_variance_reviewed = True \<rparr>,
                                \<lparr> ol_lineuniquekey = ''9501'', ol_rate_variance_reviewed = True \<rparr>]),
                remaining_usage := 930 \<rparr>"

lemma split_ex_selection: "split_on CHR '','' ex_selection = ex_items"
  by (simp add: ex_selection_def ex_items_def)

lemma ex_selection_nonempty: "ex_selection \<noteq> []"
  by (simp add: ex_selection_def)

lemma length_ex_items: "length ex_items = 12"
  by (simp add: ex_items_def)

lemma window_ex_items:
  "window 0 5 ex_items =
     [''201|9|12.00|IR201|Widget|42'', ''202|9|12.00|IR202|Widget|42'',
      ''203|9|12.00|IR203|Widget|42'', ''204|9|12.00|IR204|Widget|42'',
      ''205|9|12.00|IR205|Widget|42'']"
  "window 1 5 ex_items =
     [''206|9|12.00|IR206|Widget|42'', ''207|9|12.00|IR207|Widget|42'',
      ''208|9|12.00|IR208|Widget|42'', ''209|9|12.00|IR209|Widget|42'',
      ''210|9|12.00|IR210|Widget|42'']"
  "window 2 5 ex_items = [''211|9|12.00|IR211|Widget|42'', ''212|9|12.00|IR212|Widget|42'']"
  by (simp_all add: window_def ex_items_def upt_rec[of _ "numeral _"] upt_rec[of _ "Suc _"])

text \<open>The per-item step on the items of the example selection.\<close>

lemma parseFloat_12: "parseFloat (Some ''12.00'') = Fin 12"
  by (simp add: parse_defs double_eval)

lemma split_on_not_Nil: "split_on c s \<noteq> []"
  by (induction s) (auto split: list.splits)

lemma process_ir_update_missing:
  assumes "item_receipts w n = None" and "load_cost w \<le> remaining_usage w"
    and "CHR ''|'' \<notin> set n"
  shows "process_ir_update w (n @ ''|9|12.00|IR'' @ n @ ''|Widget|42'') = (Inl (ex_missing n), w)"
proof -
  have s: "split_on CHR ''|'' (n @ r) = (case split_on CHR ''|'' r of [] \<Rightarrow> [n] | p # ps \<Rightarrow> (n @ p) # ps)"
    if "CHR ''|'' \<notin> set n" for n r
    using that split_on_not_Nil[of "CHR ''|''" r] by (induction n) (auto split: list.splits)
  have parts: "split_on CHR ''|'' (n @ ''|9|12.00|IR'' @ n @ ''|Widget|42'') =
      [n, ''9'', ''12.00'', ''IR'' @ n, ''Widget'', ''42'']"
    using assms(3) by (simp add: s)
  have l: "record_load item_receipts w n = Inl missing_record"
    using assms(1,2) by (simp add: record_load_def charge_def)
  show ?thesis
    unfolding process_ir_update_def Let_def parts
    by (simp add: first_part_def nth_opt_def updateItemReceiptLineRate_def l missing_record_def
        simplify_ir_error_def or_else_def ex_missing_def)
qed

lemma ex_world_fields:
  "remaining_usage ex_world = 1000" "load_cost ex_world = 10" "save_cost ex_world = 20"
  "item_receipts ex_world ''201'' =
     Some [\<lparr> rl_item = ''42'', rl_rate = Fin 10 \<rparr>, \<lparr> rl_item = ''7'', rl_rate = Fin 3 \<rparr>,
           \<lparr> rl_item = ''42'', rl_rate = Fin 11 \<rparr>]"
  "item_receipts ex_world ''202'' = Some [\<lparr> rl_item = ''42'', rl_rate = Fin 10 \<rparr>]"
  "save_rejection ex_world ITEM_RECEIPT ''201'' = None"
  "save_rejection ex_world ITEM_RECEIPT ''202'' =
     Some ''You cannot edit a transaction in a closed period.''"
  "purchase_orders ex_world ''500'' =
     Some [\<lparr> ol_lineuniquekey = ''9500'', ol_rate_variance_reviewed = False \<rparr>,
           \<lparr> ol_lineuniquekey = ''9501'', ol_rate_variance_reviewed = False \<rparr>]"
  "save_rejection ex_world PURCHASE_ORDER ''500'' = None"
  by (simp_all add: ex_world_def)

lemma ex_world_missing:
  "n \<noteq> ''201'' \<Longrightarrow> n \<noteq> ''202'' \<Longrightarrow> item_receipts ex_world n = None"
  by (simp add: ex_world_def)

lemma process_ir_update_201:
  "process_ir_update ex_world ''201|9|12.00|IR201|Widget|42'' =
     (Inr \<lparr> u_irNumber = Some ''IR201'', u_itemName = Some ''Widget'', u_newRate = Some ''12.00'' \<rparr>,
      ex_world_201)"
proof -
  have l: "record_load item_receipts ex_world ''201'' =
      Inr ([\<lparr> rl_item = ''42'', rl_rate = Fin 10 \<rparr>, \<lparr> rl_item = ''7'', rl_rate = Fin 3 \<rparr>,
            \<lparr> rl_item = ''42'', rl_rate = Fin 11 \<rparr>], ex_world \<lparr> remaining_usage := 990 \<rparr>)"
    by (simp add: record_load_def charge_def ex_world_fields)
  have s: "save_accepted ITEM_RECEIPT ''201'' (ex_world \<lparr> remaining_usage := 990 \<rparr>) =
      Inr (ex_world \<lparr> remaining_usage := 970 \<rparr>)"
    by (simp add: save_accepted_def charge_def ex_world_fields)
  show ?thesis
    by (simp add: process_ir_update_def first_part_def nth_opt_def parseFloat_12
        updateItemReceiptLineRate_def l s ex_world_201_def Let_def)
qed

lemma process_ir_update_202:
  "process_ir_update ex_world_201 ''202|9|12.00|IR202|Widget|42'' =
     (Inl \<lparr> e_irId = ''202'', e_irNumber = ''IR202'', e_itemName = ''Widget'',
            e_error = ''Period is closed - cannot modify GL impact'' \<rparr>,
      ex_world_round0)"
proof -
  have l: "record_load item_receipts ex_world_201 ''202'' =
      Inr ([\<lparr> rl_item = ''42'', rl_rate = Fin 10 \<rparr>], ex_world_round0)"
    by (simp add: record_load_def charge_def ex_world_201_def ex_world_round0_def ex_world_fields)
  have s: "save_accepted ITEM_RECEIPT ''202'' ex_world_round0 =
      Inl (Error ''You cannot edit a transaction in a closed period.'')"
    by (simp add: save_accepted_def charge_def ex_world_201_def ex_world_round0_def ex_world_fields)
  show ?thesis
    by (simp add: process_ir_update_def first_part_def nth_opt_def parseFloat_12
        updateItemReceiptLineRate_def l s simplify_ir_error_def or_else_def Let_def)
qed

lemma ex_world_round0_missing:
  "n \<noteq> ''201'' \<Longrightarrow> n \<noteq> ''202'' \<Longrightarrow> item_receipts ex_world_round0 n = None"
  "load_cost ex_world_round0 \<le> remaining_usage ex_world_round0"
  by (simp_all add: ex_world_round0_def ex_world_201_def ex_world_def)

lemma run_items_round0:
  "run_items process_ir_update ex_world (window 0 5 ex_items) =
     ([Inr \<lparr> u_irNumber = Some ''IR201'', u_itemName = Some ''Widget'', u_newRate = Some ''12.00'' \<rparr>,
       Inl \<lparr> e_irId = ''202'', e_irNumber = ''IR202'', e_itemName = ''Widget'',
              e_error = ''Period is closed - cannot modify GL impact'' \<rparr>,
       Inl (ex_missing ''203''), Inl (ex_missing ''204''), Inl (ex_missing ''205'')],
      ex_world_round0)"
proof -
  have m: "process_ir_update ex_world_round0 ''203|9|12.00|IR203|Widget|42'' =
      (Inl (ex_missing ''203''), ex_world_round0)"
    "process_ir_update ex_world_round0 ''204|9|12.00|IR204|Widget|42'' =
      (Inl (ex_missing ''204''), ex_world_round0)"
    "process_ir_update ex_world_round0 ''205|9|12.00|IR205|Widget|42'' =
      (Inl (ex_missing ''205''), ex_world_round0)"
    using process_ir_update_missing[of ex_world_round0 "''203''"]
      process_ir_update_missing[of ex_world_round0 "''204''"]
      process_ir_update_missing[of ex_world_round0 "''205''"]
    by (simp_all add: ex_world_round0_missing)
  show ?thesis
    unfolding window_ex_items
    by (simp add: process_ir_update_201 process_ir_update_202 m)
qed

lemma run_items_round2:
  "run_items process_ir_update ex_world (window 2 5 ex_items) =
     ([Inl (ex_missing ''211''), Inl (ex_missing ''212'')], ex_world)"
proof -
  have m: "process_ir_update ex_world ''211|9|12.00|IR211|Widget|42'' = (Inl (ex_missing ''211''), ex_world)"
    "process_ir_update ex_world ''212|9|12.00|IR212|Widget|42'' = (Inl (ex_missing ''212''), ex_world)"
    using process_ir_update_missing[of ex_world "''211''"] process_ir_update_missing[of ex_world "''212''"]
    by (simp_all add: ex_world_missing ex_world_fields)
  show ?thesis
    unfolding window_ex_items by (simp add: m)
qed

lemma window_ex_review:
  "window 0 10 (split_on CHR '','' ex_review_selection) =
     [''500|9500|PO500|Widget'', ''500|9501|PO500|Gadget'', ''500|9999|PO500|Gizmo'']"
  by (simp add: window_def ex_review_selection_def upt_rec[of _ "numeral _"] upt_rec[of _ "Suc _"])

lemma run_items_review:
  "run_items process_po_review ex_world (window 0 10 (split_on CHR '','' ex_review_selection)) =
     ([Inr \<lparr> pu_poNumber = Some ''PO500'', pu_itemName = Some ''Widget'' \<rparr>,
       Inr \<lparr> pu_poNumber = Some ''PO500'', pu_itemName = Some ''Gadget'' \<rparr>,
       Inl \<lparr> pe_poId = ''500'', pe_poNumber = ''PO500'', pe_itemName = ''Gizmo'',
              pe_error = ''Line not found on Purchase Order'' \<rparr>],
      ex_world_reviewed)"
proof -
  let ?l0 = "[\<lparr> ol_lineuniquekey = ''9500'', ol_rate_variance_reviewed = False \<rparr>,
              \<lparr> ol_lineuniquekey = ''9501'', ol_rate_variance_reviewed = False \<rparr>]"
  let ?l1 = "[\<lparr> ol_lineuniquekey = ''9500'', ol_rate_variance_reviewed = True \<rparr>,
              \<lparr> ol_lineuniquekey = ''9501'', ol_rate_variance_reviewed = False \<rparr>]"
  let ?l2 = "[\<lparr> ol_lineuniquekey = ''9500'', ol_rate_variance_reviewed = True \<rparr>,
              \<lparr> ol_lineuniquekey = ''9501'', ol_rate_variance_reviewed = True \<rparr>]"
  let ?w1 = "ex_world \<lparr> purchase_orders := (purchase_orders ex_world)(''500'' \<mapsto> ?l1),
                         remaining_usage := 970 \<rparr>"
  let ?w2 = "ex_world \<lparr> purchase_orders := (purchase_orders ex_world)(''500'' \<mapsto> ?l2),
                         remaining_usage := 940 \<rparr>"
  have a: "process_po_review ex_world ''500|9500|PO500|Widget'' =
      (Inr \<lparr> pu_poNumber = Some ''PO500'', pu_itemName = Some ''Widget'' \<rparr>, ?w1)"
  proof -
    have l: "record_load purchase_orders ex_world ''500'' = Inr (?l0, ex_world \<lparr> remaining_usage := 990 \<rparr>)"
      by (simp add: record_load_def charge_def ex_world_fields)
    have s: "save_accepted PURCHASE_ORDER ''500'' (ex_world \<lparr> remaining_usage := 990 \<rparr>) =
        Inr (ex_world \<lparr> remaining_usage := 970 \<rparr>)"
      by (simp add: save_accepted_def charge_def ex_world_fields)
    show ?thesis
      by (simp add: process_po_review_def first_part_def nth_opt_def markPOLineReviewed_def l s Let_def)
  qed
  have b: "process_po_review ?w1 ''500|9501|PO500|Gadget'' =
      (Inr \<lparr> pu_poNumber = Some ''PO500'', pu_itemName = Some ''Gadget'' \<rparr>, ?w2)"
  proof -
    let ?w1a = "ex_world \<lparr> purchase_orders := (purchase_orders ex_world)(''500'' \<mapsto> ?l1),
                            remaining_usage := 960 \<rparr>"
    let ?w1b = "ex_world \<lparr> purchase_orders := (purchase_orders ex_world)(''500'' \<mapsto> ?l1),
                            remaining_usage := 940 \<rparr>"
    have l: "record_load purchase_orders ?w1 ''500'' = Inr (?l1, ?w1a)"
      by (simp add: record_load_def charge_def ex_world_fields)
    have s: "save_accepted PURCHASE_ORDER ''500'' ?w1a = Inr ?w1b"
      by (simp add: save_accepted_def charge_def ex_world_fields)
    show ?thesis
      by (simp add: process_po_review_def first_part_def nth_opt_def markPOLineReviewed_def l s Let_def)
  qed
  have c: "process_po_review ?w2 ''500|9999|PO500|Gizmo'' =
      (Inl \<lparr> pe_poId = ''500'', pe_poNumber = ''PO500'', pe_itemName = ''Gizmo'',
              pe_error = ''Line not found on Purchase Order'' \<rparr>, ex_world_reviewed)"
  proof -
    have l: "record_load purchase_orders ?w2 ''500'' = Inr (?l2, ex_world_reviewed)"
      by (simp add: record_load_def charge_def ex_world_fields ex_world_reviewed_def)
    show ?thesis
      by (simp add: process_po_review_def first_part_def nth_opt_def markPOLineReviewed_def l
          simplify_po_error_def or_else_def js_string_def Let_def)
  qed
  show ?thesis
    unfolding window_ex_review by (simp add: a b c)
qed

text \<open>
  Twelve items with window 5 are the windows \<open>[0, 5)\<close>, \<open>[5, 10)\<close> and \<open>[10, 12)\<close>. The first
  round processes its five items (receipt 201 is saved, 202 fails on the closed period, 203
  to 205 do not exist) and continues; a round with batch index 2 processes the last two items
  and completes. Three items with window 10 complete in the first round.
\<close>

theorem batch_window_witness:
  "window 0 5 (split_on CHR '','' ex_selection) =
     [''201|9|12.00|IR201|Widget|42'', ''202|9|12.00|IR202|Widget|42'',
      ''203|9|12.00|IR203|Widget|42'', ''204|9|12.00|IR204|Widget|42'',
      ''205|9|12.00|IR205|Widget|42''] \<and>
   window 1 5 (split_on CHR '','' ex_selection) =
     [''206|9|12.00|IR206|Widget|42'', ''207|9|12.00|IR207|Widget|42'',
      ''208|9|12.00|IR208|Widget|42'', ''209|9|12.00|IR209|Widget|42'',
      ''210|9|12.00|IR210|Widget|42''] \<and>
   window 2 5 (split_on CHR '','' ex_selection) =
     [''211|9|12.00|IR211|Widget|42'', ''212|9|12.00|IR212|Widget|42''] \<and>
   handlePost ex_world (batch_post (first_submission ex_selection)) =
     (Continue \<lparr> c_selected_variances = ex_selection, c_batch_index = 1, c_success_count = 1,
                  c_error_count = 4,
                  c_previous_errors =
                    [\<lparr> e_irId = ''202'', e_irNumber = ''IR202'', e_itemName = ''Widget'',
                        e_error = ''Period is closed - cannot modify GL impact'' \<rparr>,
                     ex_missing ''203'', ex_missing ''204'', ex_missing ''205''],
                  c_previous_updated =
                    [\<lparr> u_irNumber = Some ''IR201'', u_itemName = Some ''Widget'',
                        u_newRate = Some ''12.00'' \<rparr>] \<rparr>,
      ex_world_round0) \<and>
   handlePost ex_world (batch_post
        \<lparr> selected_variances = ex_selection, batch_index = 2, success_count = 1, error_count = 9,
          previous_errors = [], previous_updated = [] \<rparr>) =
     (Complete \<lparr> f_successCount = 1, f_errorCount = 11,
                  f_errors = Some [ex_missing ''211'', ex_missing ''212''],
                  f_updatedRecords = [] \<rparr>,
      ex_world) \<and>
   handlePost_po ex_world (review_post None (first_submission ex_review_selection)) =
     ((Complete \<lparr> f_successCount = 2, f_errorCount = 1,
                   f_errors = Some [\<lparr> pe_poId = ''500'', pe_poNumber = ''PO500'', pe_itemName = ''Gizmo'',
                                      pe_error = ''Line not found on Purchase Order'' \<rparr>],
                   f_updatedRecords = [\<lparr> pu_poNumber = Some ''PO500'', pu_itemName = Some ''Widget'' \<rparr>,
                                       \<lparr> pu_poNumber = Some ''PO500'', pu_itemName = Some ''Gadget'' \<rparr>] \<rparr>,
       \<lparr> pv_location_filter = ''all'', pv_service_threshold = None, pv_kitchen_threshold = None,
         pv_appliances_threshold = None \<rparr>),
      ex_world_reviewed)"
proof -
  let ?r0 = "batch_post (first_submission ex_selection)"
  let ?r2 = "batch_post \<lparr> selected_variances = ex_selection, batch_index = 2, success_count = 1,
      error_count = 9, previous_errors = [], previous_updated = [] \<rparr>"
  let ?p = "review_post None (first_submission ex_review_selection)"
  have a0: "sq_action ?r0 \<noteq> Some ''closed_period_adjustment''"
    and a2: "sq_action ?r2 \<noteq> Some ''closed_period_adjustment''"
    by (simp_all add: batch_post_def)
  have s0: "selected_variances (sq_batch ?r0) \<noteq> []"
    and s2: "selected_variances (sq_batch ?r2) \<noteq> []"
    by (simp_all add: batch_post_def first_submission_def ex_selection_nonempty)
  have p: "selected_variances (pq_batch ?p) \<noteq> []"
    by (simp add: review_post_def first_submission_def ex_review_selection_def)
  have f0: "sq_batch ?r0 = first_submission ex_selection"
    and f2: "sq_batch ?r2 = \<lparr> selected_variances = ex_selection, batch_index = 2, success_count = 1,
      error_count = 9, previous_errors = [], previous_updated = [] \<rparr>"
    and fp: "pq_batch ?p = first_submission ex_review_selection"
    by (simp_all add: batch_post_def review_post_def)
  have n3: "length (split_on CHR '','' ex_review_selection) = 3"
    by (simp add: ex_review_selection_def)
  have r0: "handlePost ex_world ?r0 =
     (Continue \<lparr> c_selected_variances = ex_selection, c_batch_index = 1, c_success_count = 1,
                  c_error_count = 4,
                  c_previous_errors =
                    [\<lparr> e_irId = ''202'', e_irNumber = ''IR202'', e_itemName = ''Widget'',
                        e_error = ''Period is closed - cannot modify GL impact'' \<rparr>,
                     ex_missing ''203'', ex_missing ''204'', ex_missing ''205''],
                  c_previous_updated =
                    [\<lparr> u_irNumber = Some ''IR201'', u_itemName = Some ''Widget'',
                        u_newRate = Some ''12.00'' \<rparr>] \<rparr>,
      ex_world_round0)"
    unfolding batch_window[OF a0 s0 p, where w = ex_world, THEN conjunct1] f0
    by (simp add: first_submission_def split_ex_selection length_ex_items run_items_round0
        errors_of_def updated_of_def Let_def)
  have r2: "handlePost ex_world ?r2 =
     (Complete \<lparr> f_successCount = 1, f_errorCount = 11,
                  f_errors = Some [ex_missing ''211'', ex_missing ''212''],
                  f_updatedRecords = [] \<rparr>,
      ex_world)"
    unfolding batch_window[OF a2 s2 p, where w = ex_world, THEN conjunct1] f2
    by (simp add: split_ex_selection length_ex_items run_items_round2
        errors_of_def updated_of_def Let_def)
  have rp: "handlePost_po ex_world ?p =
     ((Complete \<lparr> f_successCount = 2, f_errorCount = 1,
                   f_errors = Some [\<lparr> pe_poId = ''500'', pe_poNumber = ''PO500'', pe_itemName = ''Gizmo'',
                                      pe_error = ''Line not found on Purchase Order'' \<rparr>],
                   f_updatedRecords = [\<lparr> pu_poNumber = Some ''PO500'', pu_itemName = Some ''Widget'' \<rparr>,
                                       \<lparr> pu_poNumber = Some ''PO500'', pu_itemName = Some ''Gadget'' \<rparr>] \<rparr>,
       \<lparr> pv_location_filter = ''all'', pv_service_threshold = None, pv_kitchen_threshold = None,
         pv_appliances_threshold = None \<rparr>),
      ex_world_reviewed)"
    unfolding batch_window[OF a0 s0 p, where w = ex_world, THEN conjunct2, THEN conjunct1] fp
    by (simp add: first_submission_def n3 run_items_review errors_of_def updated_of_def Let_def
        review_post_def or_else_def if_present_def)
  from window_ex_items r0 r2 rp show ?thesis unfolding split_ex_selection by blast
qed

section \<open>Cumulative counts over the rounds\<close>

text \<open>
  What the redirect of round \<open>i\<close> must carry: the two counts add up to the end index of the
  round's window, a continuation names the next round and the same selection and is sent
  only while the end index is below \<open>n\<close>, and the summary is sent only at \<open>n\<close>.
\<close>

definition processed_through :: "nat \<Rightarrow> string \<Rightarrow> nat \<Rightarrow> ('e, 'u) response \<Rightarrow> bool" where
  "processed_through b selected i r =
     (let n = length (split_on CHR '','' selected);
          e = min ((i + 1) * b) n
      in case r of
           Continue c \<Rightarrow> c_success_count c + c_error_count c = e \<and> c_batch_index c = i + 1 \<and>
                         c_selected_variances c = selected \<and> e < n
         | Complete f \<Rightarrow> f_successCount f + f_errorCount f = e \<and> e = n
         | Failed m \<Rightarrow> False
         | Adjusted a \<Rightarrow> False)"

lemma run_batch_counts:
  assumes inv: "success_count rq + error_count rq = batch_index rq * b"
    and lo: "batch_index rq * b < length (split_on CHR '','' (selected_variances rq))"
  shows "processed_through b (selected_variances rq) (batch_index rq) (fst (run_batch b p w rq))"
proof -
  let ?all = "split_on CHR '','' (selected_variances rq)"
  let ?rs = "fst (run_items p w (window (batch_index rq) b ?all))"
  have "length (errors_of ?rs) + length (updated_of ?rs) =
      min ((batch_index rq + 1) * b) (length ?all) - batch_index rq * b"
    by (simp add: length_outcomes length_run_items length_window)
  moreover have "batch_index rq * b \<le> min ((batch_index rq + 1) * b) (length ?all)"
    using lo by simp
  ultimately have sum: "success_count rq + length (updated_of ?rs) + (error_count rq + length (errors_of ?rs)) =
      min ((batch_index rq + 1) * b) (length ?all)"
    using inv by linarith
  show ?thesis
  proof (cases "(batch_index rq + 1) * b < length ?all")
    case True
    then have e: "min ((batch_index rq + 1) * b) (length ?all) = (batch_index rq + 1) * b" by simp
    show ?thesis
      unfolding run_batch_window processed_through_def Let_def e
      using sum[unfolded e] True by simp
  next
    case False
    then have e: "min ((batch_index rq + 1) * b) (length ?all) = length ?all" by simp
    show ?thesis
      unfolding run_batch_window processed_through_def Let_def e
      using sum[unfolded e] by simp
  qed
qed

lemma handlePost_po_batch:
  "selected_variances (pq_batch rq) \<noteq> [] \<Longrightarrow>
   fst (fst (handlePost_po w rq)) = fst (run_batch 10 process_po_review w (pq_batch rq))"
  by (simp add: handlePost_po_def Let_def split: prod.splits)

lemma processed_through_continues:
  assumes "processed_through b selected i r"
    and "(i + 1) * b < length (split_on CHR '','' selected)"
  shows "\<exists>c. r = Continue c \<and> c_success_count c + c_error_count c = (i + 1) * b \<and>
              c_batch_index c = i + 1 \<and> c_selected_variances c = selected"
  using assms by (cases r) (auto simp add: processed_through_def Let_def)

lemma ir_round_counts:
  assumes "selected \<noteq> []"
  shows "i * 5 < length (split_on CHR '','' selected) \<Longrightarrow>
         processed_through 5 selected i (fst (ir_round w selected i))"
proof (induction i)
  case 0
  have "processed_through 5 (selected_variances (first_submission selected :: (ir_error, ir_updated) batch_request))
          (batch_index (first_submission selected :: (ir_error, ir_updated) batch_request))
          (fst (run_batch 5 process_ir_update w (first_submission selected)))"
    using 0 by (intro run_batch_counts) (simp_all add: first_submission_def)
  then show ?case
    using assms by (simp add: handlePost_def batch_post_def first_submission_def)
next
  case (Suc i)
  then have lt: "(i + 1) * 5 < length (split_on CHR '','' selected)" by simp
  then have "i * 5 < length (split_on CHR '','' selected)" by simp
  then have "processed_through 5 selected i (fst (ir_round w selected i))" by (rule Suc.IH)
  from processed_through_continues[OF this lt]
  obtain c where c: "fst (ir_round w selected i) = Continue c"
    and s: "c_success_count c + c_error_count c = (i + 1) * 5"
    and b: "c_batch_index c = i + 1" and v: "c_selected_variances c = selected"
    by blast
  obtain w' where r: "ir_round w selected i = (Continue c, w')"
    using c by (cases "ir_round w selected i") simp
  have "processed_through 5 (selected_variances (echo c)) (batch_index (echo c))
          (fst (run_batch 5 process_ir_update w' (echo c)))"
    using s b v lt by (intro run_batch_counts) (simp_all add: echo_def)
  then show ?case
    using assms r b v by (simp add: handlePost_def batch_post_def echo_def)
qed

lemma po_round_counts:
  assumes "selected \<noteq> []"
  shows "i * 10 < length (split_on CHR '','' selected) \<Longrightarrow>
         processed_through 10 selected i (fst (fst (po_round w selected i)))"
proof (induction i)
  case 0
  have "processed_through 10 (selected_variances (first_submission selected :: (po_error, po_updated) batch_request))
          (batch_index (first_submission selected :: (po_error, po_updated) batch_request))
          (fst (run_batch 10 process_po_review w (first_submission selected)))"
    using 0 by (intro run_batch_counts) (simp_all add: first_submission_def)
  then show ?case
    using assms by (simp add: handlePost_po_batch review_post_def first_submission_def)
next
  case (Suc i)
  then have lt: "(i + 1) * 10 < length (split_on CHR '','' selected)" by simp
  then have "i * 10 < length (split_on CHR '','' selected)" by simp
  then have "processed_through 10 selected i (fst (fst (po_round w selected i)))" by (rule Suc.IH)
  from processed_through_continues[OF this lt]
  obtain c where c: "fst (fst (po_round w selected i)) = Continue c"
    and s: "c_success_count c + c_error_count c = (i + 1) * 10"
    and b: "c_batch_index c = i + 1" and v: "c_selected_variances c = selected"
    by blast
  obtain pv w' where r: "po_round w selected i = ((Continue c, pv), w')"
    using c by (cases "po_round w selected i") auto
  have "processed_through 10 (selected_variances (echo c)) (batch_index (echo c))
          (fst (run_batch 10 process_po_review w' (echo c)))"
    using s b v lt by (intro run_batch_counts) (simp_all add: echo_def)
  then show ?case
    using assms r b v by (simp add: handlePost_po_batch review_post_def echo_def)
qed

text \<open>
  C10. In both Suitelets the callback of an item calls the Record Mutator inside the \<open>try\<close>:
  when the call returns, the success count goes up by one and the item's updated record is
  pushed; when it throws, the \<open>catch\<close> adds one to the error count and pushes the error record
  made of the item's id, number and name (\<open>'Unknown'\<close> for a missing one) and the simplified
  message, and the world goes on from where the call left it. The loop over a batch gives
  every item its outcome, in order, each item on the world the one before has left, so the
  two counts of a batch add up to its length. When the continuation of each round is posted
  back unchanged, the redirect of round \<open>i\<close> carries counts that add up to
  \<open>min((i + 1) * size, n)\<close>, for every round that takes place (\<open>i * size < n\<close>).
\<close>

theorem cumulative_counts:
  assumes "selected \<noteq> []"
  shows
   "tally_item process_ir_update (w, t) u =
      (let parts = split_on CHR ''|'' u;
           r = updateItemReceiptLineRate w (first_part parts) (nth_opt parts 1) (nth_opt parts 5)
                 (parseFloat (nth_opt parts 2))
       in case fst r of
            Inr savedId \<Rightarrow>
              (snd r, t \<lparr> t_successCount := t_successCount t + 1,
                           t_updatedRecords := t_updatedRecords t @
                             [\<lparr> u_irNumber = nth_opt parts 3, u_itemName = nth_opt parts 4,
                                u_newRate = nth_opt parts 2 \<rparr>] \<rparr>)
          | Inl e \<Rightarrow>
              (snd r, t \<lparr> t_errorCount := t_errorCount t + 1,
                           t_errors := t_errors t @
                             [\<lparr> e_irId = first_part parts,
                                e_irNumber = or_else (nth_opt parts 3) ''Unknown'',
                                e_itemName = or_else (nth_opt parts 4) ''Unknown'',
                                e_error = simplify_ir_error (message e) \<rparr>] \<rparr>)) \<and>
    tally_item process_po_review (w, tp) u =
      (let parts = split_on CHR ''|'' u;
           r = markPOLineReviewed w (first_part parts) (nth_opt parts 1)
       in case fst r of
            Inr savedId \<Rightarrow>
              (snd r, tp \<lparr> t_successCount := t_successCount tp + 1,
                            t_updatedRecords := t_updatedRecords tp @
                              [\<lparr> pu_poNumber = nth_opt parts 2, pu_itemName = nth_opt parts 3 \<rparr>] \<rparr>)
          | Inl e \<Rightarrow>
              (snd r, tp \<lparr> t_errorCount := t_errorCount tp + 1,
                            t_errors := t_errors tp @
                              [\<lparr> pe_poId = first_part parts,
                                 pe_poNumber = or_else (nth_opt parts 2) ''Unknown'',
                                 pe_itemName = or_else (nth_opt parts 3) ''Unknown'',
                                 pe_error = simplify_po_error (message e) \<rparr>] \<rparr>)) \<and>
    forEach_update process_ir_update w items =
      (snd (run_items process_ir_update w items),
       \<lparr> t_successCount = length (updated_of (fst (run_items process_ir_update w items))),
         t_errorCount = length (errors_of (fst (run_items process_ir_update w items))),
         t_errors = errors_of (fst (run_items process_ir_update w items)),
         t_updatedRecords = updated_of (fst (run_items process_ir_update w items)) \<rparr>) \<and>
    forEach_update process_po_review w items =
      (snd (run_items process_po_review w items),
       \<lparr> t_successCount = length (updated_of (fst (run_items process_po_review w items))),
         t_errorCount = length (errors_of (fst (run_items process_po_review w items))),
         t_errors = errors_of (fst (run_items process_po_review w items)),
         t_updatedRecords = updated_of (fst (run_items process_po_review w items)) \<rparr>) \<and>
    t_successCount (snd (forEach_update process_ir_update w items)) +
      t_errorCount (snd (forEach_update process_ir_update w items)) = length items \<and>
    t_successCount (snd (forEach_update process_po_review w items)) +
      t_errorCount (snd (forEach_update process_po_review w items)) = length items \<and>
    (i * 5 < length (split_on CHR '','' selected) \<longrightarrow>
       processed_through 5 selected i (fst (ir_round w selected i))) \<and>
    (j * 10 < length (split_on CHR '','' selected) \<longrightarrow>
       processed_through 10 selected j (fst (fst (po_round w selected j))))"
proof (intro conjI)
  show "tally_item process_ir_update (w, t) u =
      (let parts = split_on CHR ''|'' u;
           r = updateItemReceiptLineRate w (first_part parts) (nth_opt parts 1) (nth_opt parts 5)
                 (parseFloat (nth_opt parts 2))
       in case fst r of
            Inr savedId \<Rightarrow>
              (snd r, t \<lparr> t_successCount := t_successCount t + 1,
                           t_updatedRecords := t_updatedRecords t @
                             [\<lparr> u_irNumber = nth_opt parts 3, u_itemName = nth_opt parts 4,
                                u_newRate = nth_opt parts 2 \<rparr>] \<rparr>)
          | Inl e \<Rightarrow>
              (snd r, t \<lparr> t_errorCount := t_errorCount t + 1,
                           t_errors := t_errors t @
                             [\<lparr> e_irId = first_part parts,
                                e_irNumber = or_else (nth_opt parts 3) ''Unknown'',
                                e_itemName = or_else (nth_opt parts 4) ''Unknown'',
                                e_error = simplify_ir_error (message e) \<rparr>] \<rparr>))"
    by (simp add: tally_item_def process_ir_update_def Let_def split: prod.splits sum.splits)
  show "tally_item process_po_review (w, tp) u =
      (let parts = split_on CHR ''|'' u;
           r = markPOLineReviewed w (first_part parts) (nth_opt parts 1)
       in case fst r of
            Inr savedId \<Rightarrow>
              (snd r, tp \<lparr> t_successCount := t_successCount tp + 1,
                            t_updatedRecords := t_updatedRecords tp @
                              [\<lparr> pu_poNumber = nth_opt parts 2, pu_itemName = nth_opt parts 3 \<rparr>] \<rparr>)
          | Inl e \<Rightarrow>
              (snd r, tp \<lparr> t_errorCount := t_errorCount tp + 1,
                            t_errors := t_errors tp @
                              [\<lparr> pe_poId = first_part parts,
                                 pe_poNumber = or_else (nth_opt parts 2) ''Unknown'',
                                 pe_itemName = or_else (nth_opt parts 3) ''Unknown'',
                                 pe_error = simplify_po_error (message e) \<rparr>] \<rparr>))"
    by (simp add: tally_item_def process_po_review_def Let_def split: prod.splits sum.splits)
  show "forEach_update process_ir_update w items =
      (snd (run_items process_ir_update w items),
       \<lparr> t_successCount = length (updated_of (fst (run_items process_ir_update w items))),
         t_errorCount = length (errors_of (fst (run_items process_ir_update w items))),
         t_errors = errors_of (fst (run_items process_ir_update w items)),
         t_updatedRecords = updated_of (fst (run_items process_ir_update w items)) \<rparr>)"
    by (rule forEach_update_run_items)
  show "forEach_update process_po_review w items =
      (snd (run_items process_po_review w items),
       \<lparr> t_successCount = length (updated_of (fst (run_items process_po_review w items))),
         t_errorCount = length (errors_of (fst (run_items process_po_review w items))),
         t_errors = errors_of (fst (run_items process_po_review w items)),
         t_updatedRecords = updated_of (fst (run_items process_po_review w items)) \<rparr>)"
    by (rule forEach_update_run_items)
  show "t_successCount (snd (forEach_update process_ir_update w items)) +
      t_errorCount (snd (forEach_update process_ir_update w items)) = length items"
    using length_outcomes[of "fst (run_items process_ir_update w items)"]
    by (simp add: forEach_update_run_items length_run_items)
  show "t_successCount (snd (forEach_update process_po_review w items)) +
      t_errorCount (snd (forEach_update process_po_review w items)) = length items"
    using length_outcomes[of "fst (run_items process_po_review w items)"]
    by (simp add: forEach_update_run_items length_run_items)
  show "i * 5 < length (split_on CHR '','' selected) \<longrightarrow>
       processed_through 5 selected i (fst (ir_round w selected i))"
    using ir_round_counts[OF assms] by blast
  show "j * 10 < length (split_on CHR '','' selected) \<longrightarrow>
       processed_through 10 selected j (fst (fst (po_round w selected j)))"
    using po_round_counts[OF assms] by blast
qed

text \<open>
  In the first window of the example selection the second item fails on the closed period
  and the three after it on missing receipts: the loop goes through all five, with one
  success and four error records. The rounds of the twelve items count 5 after the first
  round of the rate correction and 12 after its third, and 12 after the second round of the
  review mark.
\<close>

theorem cumulative_counts_witness:
  "tally_item process_ir_update
     (ex_world_201, \<lparr> t_successCount = 1, t_errorCount = 0, t_errors = [],
                      t_updatedRecords = [\<lparr> u_irNumber = Some ''IR201'', u_itemName = Some ''Widget'',
                                            u_newRate = Some ''12.00'' \<rparr>] \<rparr>)
     ''202|9|12.00|IR202|Widget|42'' =
     (ex_world_round0,
      \<lparr> t_successCount = 1, t_errorCount = 1,
        t_errors = [\<lparr> e_irId = ''202'', e_irNumber = ''IR202'', e_itemName = ''Widget'',
                      e_error = ''Period is closed - cannot modify GL impact'' \<rparr>],
        t_updatedRecords = [\<lparr> u_irNumber = Some ''IR201'', u_itemName = Some ''Widget'',
                              u_newRate = Some ''12.00'' \<rparr>] \<rparr>) \<and>
   forEach_update process_ir_update ex_world (window 0 5 ex_items) =
     (ex_world_round0,
      \<lparr> t_successCount = 1, t_errorCount = 4,
        t_errors = [\<lparr> e_irId = ''202'', e_irNumber = ''IR202'', e_itemName = ''Widget'',
                      e_error = ''Period is closed - cannot modify GL impact'' \<rparr>,
                    ex_missing ''203'', ex_missing ''204'', ex_missing ''205''],
        t_updatedRecords = [\<lparr> u_irNumber = Some ''IR201'', u_itemName = Some ''Widget'',
                              u_newRate = Some ''12.00'' \<rparr>] \<rparr>) \<and>
   (case fst (ir_round ex_world ex_selection 0) of
      Continue c \<Rightarrow> c_success_count c + c_error_count c = 5
    | Complete f \<Rightarrow> False | Failed m \<Rightarrow> False | Adjusted a \<Rightarrow> False) \<and>
   (case fst (ir_round ex_world ex_selection 2) of
      Continue c \<Rightarrow> False
    | Complete f \<Rightarrow> f_successCount f + f_errorCount f = 12
    | Failed m \<Rightarrow> False | Adjusted a \<Rightarrow> False) \<and>
   (case fst (fst (po_round ex_world ex_selection 1)) of
      Continue c \<Rightarrow> False
    | Complete f \<Rightarrow> f_successCount f + f_errorCount f = 12
    | Failed m \<Rightarrow> False | Adjusted a \<Rightarrow> False)"
proof -
  let ?t1 = "\<lparr> t_successCount = 1, t_errorCount = 0, t_errors = ([] :: ir_error list),
      t_updatedRecords = [\<lparr> u_irNumber = Some ''IR201'', u_itemName = Some ''Widget'',
                            u_newRate = Some ''12.00'' \<rparr>] \<rparr>"
  have n: "length (split_on CHR '','' ex_selection) = 12"
    by (simp add: split_ex_selection length_ex_items)
  note t0 = cumulative_counts[OF ex_selection_nonempty, where i = 0 and j = 1 and w = ex_world
      and items = "window 0 5 ex_items"]
  note t2 = cumulative_counts[OF ex_selection_nonempty, where i = 2 and j = 1 and w = ex_world]
  note t1 = cumulative_counts[OF ex_selection_nonempty, where w = ex_world_201 and t = ?t1
      and u = "''202|9|12.00|IR202|Widget|42''", THEN conjunct1]
  have u: "updateItemReceiptLineRate ex_world_201 ''202'' (Some ''9'') (Some ''42'') (Fin 12) =
      (Inl (Error ''You cannot edit a transaction in a closed period.''), ex_world_round0)"
  proof -
    have l: "record_load item_receipts ex_world_201 ''202'' =
        Inr ([\<lparr> rl_item = ''42'', rl_rate = Fin 10 \<rparr>], ex_world_round0)"
      by (simp add: record_load_def charge_def ex_world_201_def ex_world_round0_def ex_world_fields)
    have s: "save_accepted ITEM_RECEIPT ''202'' ex_world_round0 =
        Inl (Error ''You cannot edit a transaction in a closed period.'')"
      by (simp add: save_accepted_def charge_def ex_world_201_def ex_world_round0_def ex_world_fields)
    show ?thesis by (simp add: updateItemReceiptLineRate_def l s)
  qed
  have item: "tally_item process_ir_update (ex_world_201, ?t1) ''202|9|12.00|IR202|Widget|42'' =
     (ex_world_round0,
      \<lparr> t_successCount = 1, t_errorCount = 1,
        t_errors = [\<lparr> e_irId = ''202'', e_irNumber = ''IR202'', e_itemName = ''Widget'',
                      e_error = ''Period is closed - cannot modify GL impact'' \<rparr>],
        t_updatedRecords = [\<lparr> u_irNumber = Some ''IR201'', u_itemName = Some ''Widget'',
                              u_newRate = Some ''12.00'' \<rparr>] \<rparr>)"
    unfolding t1
    by (simp add: first_part_def nth_opt_def parseFloat_12 u simplify_ir_error_def or_else_def Let_def)
  from t0 have loop: "forEach_update process_ir_update ex_world (window 0 5 ex_items) =
     (ex_world_round0,
      \<lparr> t_successCount = 1, t_errorCount = 4,
        t_errors = [\<lparr> e_irId = ''202'', e_irNumber = ''IR202'', e_itemName = ''Widget'',
                      e_error = ''Period is closed - cannot modify GL impact'' \<rparr>,
                    ex_missing ''203'', ex_missing ''204'', ex_missing ''205''],
        t_updatedRecords = [\<lparr> u_irNumber = Some ''IR201'', u_itemName = Some ''Widget'',
                              u_newRate = Some ''12.00'' \<rparr>] \<rparr>)"
    by (simp add: run_items_round0 errors_of_def updated_of_def)
  from t0 n
  have a: "processed_through 5 ex_selection 0 (fst (ir_round ex_world ex_selection 0))"
    and c: "processed_through 10 ex_selection 1 (fst (fst (po_round ex_world ex_selection 1)))"
    by simp_all
  from t2 n
  have b: "processed_through 5 ex_selection 2 (fst (ir_round ex_world ex_selection 2))"
    by simp
  from a have a': "case fst (ir_round ex_world ex_selection 0) of
      Continue c \<Rightarrow> c_success_count c + c_error_count c = 5
    | Complete f \<Rightarrow> False | Failed m \<Rightarrow> False | Adjusted a \<Rightarrow> False"
    by (cases "fst (ir_round ex_world ex_selection 0)")
      (simp_all add: processed_through_def n del: ir_round.simps)
  from b have b': "case fst (ir_round ex_world ex_selection 2) of
      Continue c \<Rightarrow> False
    | Complete f \<Rightarrow> f_successCount f + f_errorCount f = 12
    | Failed m \<Rightarrow> False | Adjusted a \<Rightarrow> False"
    by (cases "fst (ir_round ex_world ex_selection 2)")
      (simp_all add: processed_through_def n del: ir_round.simps)
  from c have c': "case fst (fst (po_round ex_world ex_selection 1)) of
      Continue c \<Rightarrow> False
    | Complete f \<Rightarrow> f_successCount f + f_errorCount f = 12
    | Failed m \<Rightarrow> False | Adjusted a \<Rightarrow> False"
    by (cases "fst (fst (po_round ex_world ex_selection 1))")
      (simp_all add: processed_through_def n del: po_round.simps)
  from item loop a' b' c' show ?thesis by blast
qed

section \<open>Scheduled script\<close>

text \<open>
  \<open>execute\<close> (\<open>part_001\<close> lines 19-195). The search is the platform's; its rows are the
  argument. The \<open>return\<close> in the governance branch leaves the callback, not the
  \<open>forEach\<close>: the next pair is checked again.
\<close>

record skipped_record =
  sk_reason :: string
  sk_count :: int

record updated_record =
  up_irNumber :: string
  up_irId :: string
  up_itemName :: string
  up_oldRate :: jsnum
  up_newRate :: jsnum
  up_variance :: jsnum
  up_vbNumber :: string

record closed_period_record =
  cp_irNumber :: string
  cp_irId :: string
  cp_itemName :: string
  cp_vbNumber :: string
  cp_oldRate :: jsnum
  cp_newRate :: jsnum
  cp_variance :: jsnum
  cp_reason :: string

record failed_record =
  fl_irNumber :: string
  fl_irId :: string
  fl_itemName :: string
  fl_vbNumber :: string
  fl_error :: string
  fl_fullError :: string

record results =
  rs_totalFound :: nat
  rs_processed :: nat
  rs_successCount :: nat
  rs_errorCount :: nat
  rs_closedPeriodCount :: nat
  rs_errors :: "failed_record list"
  rs_updated :: "updated_record list"
  rs_closedPeriod :: "closed_period_record list"
  rs_skipped :: "skipped_record list"

definition simplify_scheduled_error :: "string \<Rightarrow> string" where
  "simplify_scheduled_error errorMessage =
     (if contains errorMessage ''No lines found'' then ''Item not found on Item Receipt''
      else if contains errorMessage ''governance'' \<or> contains errorMessage ''Usage Limit''
           then ''Script usage limit exceeded''
      else errorMessage)"

text \<open>One call of the \<open>forEach\<close> callback, lines 55-152; \<open>found\<close> is \<open>variancePairs.length\<close>.\<close>

definition process_pair :: "nat \<Rightarrow> world \<times> results \<Rightarrow> variance_pair \<Rightarrow> world \<times> results" where
  "process_pair found st pair =
     (let w = fst st; res = snd st; remainingUsage = remaining_usage w
      in if remainingUsage < 100
         then (w, res \<lparr> rs_skipped := rs_skipped res @
                  [\<lparr> sk_reason = ''Governance limit reached'',
                     sk_count = int found - int (rs_processed res) \<rparr>] \<rparr>)
         else
          (let res1 = res \<lparr> rs_processed := rs_processed res + 1 \<rparr>
           in case updateItemReceiptLineRate w (ir_id (pair_ir pair)) (Some (ir_line_id (pair_ir pair)))
                     (Some (item_id (pair_po pair))) (vb_rate (pair_vb pair)) of
                (Inr savedId, w') \<Rightarrow>
                  (w', res1 \<lparr> rs_successCount := rs_successCount res1 + 1,
                              rs_updated := rs_updated res1 @
                                [\<lparr> up_irNumber = ir_number (pair_ir pair), up_irId = ir_id (pair_ir pair),
                                   up_itemName = item_name (pair_po pair),
                                   up_oldRate = ir_rate (pair_ir pair),
                                   up_newRate = vb_rate (pair_vb pair),
                                   up_variance = pair_variance pair,
                                   up_vbNumber = vb_number (pair_vb pair) \<rparr>] \<rparr>)
              | (Inl e, w') \<Rightarrow>
                  (if contains (message e) ''closed period''
                   then (w', res1 \<lparr> rs_closedPeriodCount := rs_closedPeriodCount res1 + 1,
                                    rs_closedPeriod := rs_closedPeriod res1 @
                                      [\<lparr> cp_irNumber = ir_number (pair_ir pair),
                                         cp_irId = ir_id (pair_ir pair),
                                         cp_itemName = item_name (pair_po pair),
                                         cp_vbNumber = vb_number (pair_vb pair),
                                         cp_oldRate = ir_rate (pair_ir pair),
                                         cp_newRate = vb_rate (pair_vb pair),
                                         cp_variance = pair_variance pair,
                                         cp_reason = ''Period is closed'' \<rparr>] \<rparr>)
                   else (w', res1 \<lparr> rs_errorCount := rs_errorCount res1 + 1,
                                    rs_errors := rs_errors res1 @
                                      [\<lparr> fl_irNumber = ir_number (pair_ir pair),
                                         fl_irId = ir_id (pair_ir pair),
                                         fl_itemName = item_name (pair_po pair),
                                         fl_vbNumber = vb_number (pair_vb pair),
                                         fl_error = simplify_scheduled_error (message e),
                                         fl_fullError = message e \<rparr>] \<rparr>))))"

definition execute :: "world \<Rightarrow> row list \<Rightarrow> results \<times> world" where
  "execute w rawResults =
     (let variancePairs = createVariancePairs_sched (groupByPOLine rawResults) (js_lit (1/100));
          results0 = \<lparr> rs_totalFound = length variancePairs, rs_processed = 0, rs_successCount = 0,
                       rs_errorCount = 0, rs_closedPeriodCount = 0, rs_errors = [], rs_updated = [],
                       rs_closedPeriod = [], rs_skipped = [] \<rparr>
      in if length variancePairs = 0 then (results0, w)
         else (case foldl (process_pair (length variancePairs)) (w, results0) variancePairs of
                 (w', res) \<Rightarrow> (res, w')))"

text \<open>The example world with usage left for one update: a load costs 10 and a save 20.\<close>

definition low_world :: world where
  "low_world = ex_world \<lparr> remaining_usage := 120 \<rparr>"

definition no_results :: "nat \<Rightarrow> results" where
  "no_results n =
     \<lparr> rs_totalFound = n, rs_processed = 0, rs_successCount = 0, rs_errorCount = 0,
       rs_closedPeriodCount = 0, rs_errors = [], rs_updated = [], rs_closedPeriod = [],
       rs_skipped = [] \<rparr>"

section \<open>Scheduled script: the governance limit\<close>

definition governance_skip :: "nat \<Rightarrow> results \<Rightarrow> skipped_record" where
  "governance_skip found res =
     \<lparr> sk_reason = ''Governance limit reached'', sk_count = int found - int (rs_processed res) \<rparr>"

lemma process_pair_low:
  "remaining_usage w < 100 \<Longrightarrow>
   process_pair found (w, res) pair =
     (w, res \<lparr> rs_skipped := rs_skipped res @ [governance_skip found res] \<rparr>)"
  by (simp add: process_pair_def governance_skip_def)

lemma foldl_process_pair_low:
  "remaining_usage w < 100 \<Longrightarrow>
   foldl (process_pair found) (w, res) rest =
     (w, res \<lparr> rs_skipped := rs_skipped res @ replicate (length rest) (governance_skip found res) \<rparr>)"
proof (induction rest arbitrary: res)
  case Nil
  show ?case by simp
next
  case (Cons pair rest)
  have g: "governance_skip found (res \<lparr> rs_skipped := rs_skipped res @ [governance_skip found res] \<rparr>) =
      governance_skip found res"
    by (simp add: governance_skip_def)
  show ?case
    using Cons.prems Cons.IH[OF Cons.prems, of "res \<lparr> rs_skipped := rs_skipped res @ [governance_skip found res] \<rparr>"]
    by (simp add: process_pair_low g replicate_append_same)
qed

text \<open>Every pair is either processed, with one of three outcomes, or skipped for governance.\<close>

definition accounted :: "results \<Rightarrow> nat \<Rightarrow> bool" where
  "accounted res k =
     (rs_processed res + length (rs_skipped res) = k \<and>
      rs_successCount res + rs_closedPeriodCount res + rs_errorCount res = rs_processed res \<and>
      list_all (\<lambda>s. sk_reason s = ''Governance limit reached'') (rs_skipped res))"

lemma process_pair_accounted:
  "accounted (snd st) k \<Longrightarrow> accounted (snd (process_pair found st pair)) (Suc k)"
  by (auto simp add: process_pair_def accounted_def Let_def split: prod.splits sum.splits)

lemma foldl_process_pair_accounted:
  "accounted (snd st) k \<Longrightarrow>
   accounted (snd (foldl (process_pair found) st pairs)) (k + length pairs)"
proof (induction pairs arbitrary: st k)
  case Nil
  then show ?case by simp
next
  case (Cons pair pairs)
  from process_pair_accounted[OF Cons.prems]
  have "accounted (snd (process_pair found st pair)) (Suc k)" .
  from Cons.IH[OF this] show ?case by simp
qed

lemma foldl_process_pair_total:
  "rs_totalFound (snd (foldl (process_pair found) st pairs)) = rs_totalFound (snd st)"
proof (induction pairs arbitrary: st)
  case Nil
  show ?case by simp
next
  case (Cons pair pairs)
  have "rs_totalFound (snd (process_pair found st pair)) = rs_totalFound (snd st)"
    by (simp add: process_pair_def Let_def split: prod.splits sum.splits)
  with Cons[of "process_pair found st pair"] show ?case by simp
qed

text \<open>
  C4. The remaining usage is read before each pair. Once it is below 100, every pair still
  to come leaves the world as it is (no document is loaded or saved, no count of processed
  pairs moves) and adds one skipped record with the governance reason and the number of
  unprocessed pairs. Over a whole run every pair found is counted as processed or has its
  skipped record, and every skipped record carries the governance reason.
\<close>

theorem governance_stop:
  "(remaining_usage w < 100 \<longrightarrow>
      foldl (process_pair found) (w, res) rest =
        (w, res \<lparr> rs_skipped := rs_skipped res @
               replicate (length rest)
                 \<lparr> sk_reason = ''Governance limit reached'',
                   sk_count = int found - int (rs_processed res) \<rparr> \<rparr>)) \<and>
   rs_processed (fst (execute w0 rows)) + length (rs_skipped (fst (execute w0 rows))) =
     rs_totalFound (fst (execute w0 rows)) \<and>
   rs_totalFound (fst (execute w0 rows)) =
     length (createVariancePairs_sched (groupByPOLine rows) (js_lit (1/100))) \<and>
   list_all (\<lambda>s. sk_reason s = ''Governance limit reached'') (rs_skipped (fst (execute w0 rows)))"
proof -
  let ?ps = "createVariancePairs_sched (groupByPOLine rows) (js_lit (1/100))"
  let ?r0 = "\<lparr> rs_totalFound = length ?ps, rs_processed = 0, rs_successCount = 0,
               rs_errorCount = 0, rs_closedPeriodCount = 0, rs_errors = [], rs_updated = [],
               rs_closedPeriod = [], rs_skipped = [] \<rparr>"
  have a: "remaining_usage w < 100 \<longrightarrow>
      foldl (process_pair found) (w, res) rest =
        (w, res \<lparr> rs_skipped := rs_skipped res @
               replicate (length rest)
                 \<lparr> sk_reason = ''Governance limit reached'',
                   sk_count = int found - int (rs_processed res) \<rparr> \<rparr>)"
    using foldl_process_pair_low[of w found res rest] by (simp add: governance_skip_def)
  have e: "fst (execute w0 rows) = snd (foldl (process_pair (length ?ps)) (w0, ?r0) ?ps)"
    by (cases ?ps) (simp_all add: execute_def Let_def split: prod.splits)
  have "accounted (snd (w0, ?r0)) 0" by (simp add: accounted_def)
  from foldl_process_pair_accounted[OF this, of "length ?ps" ?ps]
  have acc: "accounted (fst (execute w0 rows)) (length ?ps)" by (simp add: e)
  have tot: "rs_totalFound (fst (execute w0 rows)) = length ?ps"
    by (simp add: e foldl_process_pair_total)
  from a acc tot show ?thesis by (simp add: accounted_def)
qed

text \<open>
  A run on \<open>tie_rows\<close> (two pairs) with usage 120: the first pair is processed and leaves
  usage 90, the second is skipped and its receipt is as it was.
\<close>

lemma sched_pairs_tie_rows:
  "createVariancePairs_sched (groupByPOLine tie_rows) (js_lit (1/100)) =
     [make_pair ex_po_info (ex_ir ''01'' 10 (Fin 10)) (ex_vb ''01'' 11 (Fin 20)),
      make_pair ex_po_info (ex_ir ''02'' 10 (Fin 20)) (ex_vb ''02'' 12 (Fin 10))]"
  using getVariancePairs_tie_rows
  by (simp add: createVariancePairs_sched_def getVariancePairs_def createVariancePairs_def
      js_truthy_def js_lit_cent)

lemma low_world_first_update:
  "\<exists>w'. updateItemReceiptLineRate low_world ''201'' (Some ''5201'') (Some ''42'') (Fin 20) =
          (Inr ''201'', w') \<and> remaining_usage w' = 90 \<and>
          item_receipts w' ''202'' = item_receipts ex_world ''202''"
proof -
  have l: "record_load item_receipts low_world ''201'' =
      Inr ([\<lparr> rl_item = ''42'', rl_rate = Fin 10 \<rparr>, \<lparr> rl_item = ''7'', rl_rate = Fin 3 \<rparr>,
            \<lparr> rl_item = ''42'', rl_rate = Fin 11 \<rparr>], low_world \<lparr> remaining_usage := 110 \<rparr>)"
    by (simp add: record_load_def charge_def low_world_def ex_world_def)
  have s: "save_accepted ITEM_RECEIPT ''201'' (low_world \<lparr> remaining_usage := 110 \<rparr>) =
      Inr (low_world \<lparr> remaining_usage := 90 \<rparr>)"
    by (simp add: save_accepted_def charge_def low_world_def ex_world_def)
  have h: "item_receipts low_world = item_receipts ex_world"
    by (simp add: low_world_def)
  show ?thesis
    unfolding updateItemReceiptLineRate_def l
    by (simp add: s h)
qed

lemma low_world_first_pair:
  "\<exists>w'. process_pair 2 (low_world, no_results 2)
           (make_pair ex_po_info (ex_ir ''01'' 10 (Fin 10)) (ex_vb ''01'' 11 (Fin 20))) =
          (w', no_results 2 \<lparr> rs_processed := 1, rs_successCount := 1,
                 rs_updated := [\<lparr> up_irNumber = ''IR01'', up_irId = ''201'', up_itemName = ''Widget'',
                                   up_oldRate = Fin 10, up_newRate = Fin 20, up_variance = Fin 10,
                                   up_vbNumber = ''VB01'' \<rparr>] \<rparr>) \<and>
        remaining_usage w' = 90 \<and> item_receipts w' ''202'' = item_receipts ex_world ''202''"
proof -
  from low_world_first_update obtain w' where
    u: "updateItemReceiptLineRate low_world ''201'' (Some ''5201'') (Some ''42'') (Fin 20) = (Inr ''201'', w')"
    and r: "remaining_usage w' = 90" "item_receipts w' ''202'' = item_receipts ex_world ''202''"
    by blast
  have g: "remaining_usage low_world = 120" by (simp add: low_world_def)
  have "process_pair 2 (low_world, no_results 2)
           (make_pair ex_po_info (ex_ir ''01'' 10 (Fin 10)) (ex_vb ''01'' 11 (Fin 20))) =
          (w', no_results 2 \<lparr> rs_processed := 1, rs_successCount := 1,
                 rs_updated := [\<lparr> up_irNumber = ''IR01'', up_irId = ''201'', up_itemName = ''Widget'',
                                   up_oldRate = Fin 10, up_newRate = Fin 20, up_variance = Fin 10,
                                   up_vbNumber = ''VB01'' \<rparr>] \<rparr>)"
    by (simp add: process_pair_def g make_pair_def ex_ir_def ex_vb_def ex_po_info_def u
        no_results_def pair_variance_def js_sub_def double_eval)
  with r show ?thesis by blast
qed

theorem governance_stop_witness:
  "rs_totalFound (fst (execute low_world tie_rows)) = 2 \<and>
   rs_processed (fst (execute low_world tie_rows)) = 1 \<and>
   rs_successCount (fst (execute low_world tie_rows)) = 1 \<and>
   rs_skipped (fst (execute low_world tie_rows)) =
     [\<lparr> sk_reason = ''Governance limit reached'', sk_count = 1 \<rparr>] \<and>
   item_receipts (snd (execute low_world tie_rows)) ''202'' = item_receipts ex_world ''202''"
proof -
  let ?p1 = "make_pair ex_po_info (ex_ir ''01'' 10 (Fin 10)) (ex_vb ''01'' 11 (Fin 20))"
  let ?p2 = "make_pair ex_po_info (ex_ir ''02'' 10 (Fin 20)) (ex_vb ''02'' 12 (Fin 10))"
  let ?r1 = "no_results 2 \<lparr> rs_processed := 1, rs_successCount := 1,
                 rs_updated := [\<lparr> up_irNumber = ''IR01'', up_irId = ''201'', up_itemName = ''Widget'',
                                   up_oldRate = Fin 10, up_newRate = Fin 20, up_variance = Fin 10,
                                   up_vbNumber = ''VB01'' \<rparr>] \<rparr>"
  from low_world_first_pair obtain w' where
    p: "process_pair 2 (low_world, no_results 2) ?p1 = (w', ?r1)"
    and r: "remaining_usage w' < 100"
    and k: "item_receipts w' ''202'' = item_receipts ex_world ''202''"
    by auto
  from governance_stop[where w = w' and found = 2 and res = ?r1 and rest = "[?p2]"] r
  have f: "foldl (process_pair 2) (w', ?r1) [?p2] =
      (w', ?r1 \<lparr> rs_skipped := rs_skipped ?r1 @
               replicate (length [?p2])
                 \<lparr> sk_reason = ''Governance limit reached'',
                   sk_count = int 2 - int (rs_processed ?r1) \<rparr> \<rparr>)"
    by blast
  have e0: "execute low_world tie_rows =
      (case foldl (process_pair 2) (low_world, no_results 2) [?p1, ?p2] of (w', res) \<Rightarrow> (res, w'))"
    by (simp add: execute_def sched_pairs_tie_rows no_results_def numeral_2_eq_2)
  have fl: "foldl (process_pair 2) (low_world, no_results 2) [?p1, ?p2] =
      foldl (process_pair 2) (w', ?r1) [?p2]"
    by (simp only: foldl.simps p)
  have e: "execute low_world tie_rows =
      (?r1 \<lparr> rs_skipped := [\<lparr> sk_reason = ''Governance limit reached'', sk_count = 1 \<rparr>] \<rparr>, w')"
    unfolding e0 fl f by (simp add: no_results_def)
  show ?thesis
    unfolding e using k by (simp add: no_results_def)
qed

end
